theory Spec2Isabelle
  imports Complex_Main
begin

section \<open>Two-point flux approximation: the model\<close>

text \<open>
  The theory embeds \<^verbatim>\<open>src/porepy/numerics/fv/tpfa.py\<close>: the classes \<^verbatim>\<open>Tpfa\<close>,
  \<^verbatim>\<open>TpfaCoupling\<close> and \<^verbatim>\<open>TpfaCouplingDFN\<close>.

  Conventions.
  \<^item> A numpy \<^verbatim>\<open>float64\<close> is idealised as a real number; rounding is not modelled. The
    arrays that \<^verbatim>\<open>Tpfa.discretize\<close> computes by division hold extended numbers, a real
    number or one of \<^verbatim>\<open>inf\<close>, \<^verbatim>\<open>-inf\<close> and \<^verbatim>\<open>nan\<close>: numpy warns on a division by zero
    and goes on. A zero has no sign: where the result of numpy depends on the sign of a
    zero, the model takes the zero positive.
  \<^item> A matrix holds real numbers. Where \<^verbatim>\<open>Tpfa.discretize\<close> stores an operator that
    holds \<^verbatim>\<open>inf\<close> or \<^verbatim>\<open>nan\<close>, the model stores the value \<open>NotFinite\<close> with the shape of
    the operator, and the other operators as they are. Where the code goes on with
    \<^verbatim>\<open>inf\<close> or \<^verbatim>\<open>nan\<close> in a product or in the coupling of two grids, the model stops
    with the value \<open>NonFinite\<close>; this is not an exception of the code.
  \<^item> A one-dimensional numpy array is a list; an array of shape \<open>(3, n)\<close> is a list of
    \<open>n\<close> columns, each a triple; the permeability array of shape \<open>(3, 3, n)\<close> is a list
    of \<open>n\<close> matrices, each a triple of rows.
  \<^item> A scipy sparse matrix is its shape and its stored triples \<open>(row, column, value)\<close>
    in storage order. Triples at the same position add up, as they do in scipy.
  \<^item> A Python dictionary is a map from key strings to values.
  \<^item> An exception is a value of type \<open>error\<close>; a function that may raise returns
    \<open>error + 'a\<close>.
\<close>

subsection \<open>Errors\<close>

datatype error =
    KeyError string
  | ValueError
  | IndexError
  | TypeError
  | AttributeError
  | NonFinite

definition thenE :: "error + 'a \<Rightarrow> ('a \<Rightarrow> error + 'b) \<Rightarrow> error + 'b" where
  "thenE m f = (case m of Inl e \<Rightarrow> Inl e | Inr x \<Rightarrow> f x)"

subsection \<open>Extended numbers\<close>

datatype xreal = Fin real | PInf | MInf | NaN

text \<open>\<^verbatim>\<open>np.divide(a, b)\<close> and \<^verbatim>\<open>a / b\<close> on two finite numbers.\<close>

definition x_div :: "real \<Rightarrow> real \<Rightarrow> xreal" where
  "x_div a b =
     (if b \<noteq> 0 then Fin (a / b) else if 0 < a then PInf else if a < 0 then MInf else NaN)"

text \<open>\<^verbatim>\<open>1 / x\<close> and \<^verbatim>\<open>-1 / x\<close>.\<close>

fun x_recip :: "xreal \<Rightarrow> xreal" where
  "x_recip (Fin v) = x_div 1 v"
| "x_recip PInf = Fin 0"
| "x_recip MInf = Fin 0"
| "x_recip NaN = NaN"

fun x_neg_recip :: "xreal \<Rightarrow> xreal" where
  "x_neg_recip (Fin v) = x_div (- 1) v"
| "x_neg_recip PInf = Fin 0"
| "x_neg_recip MInf = Fin 0"
| "x_neg_recip NaN = NaN"

text \<open>\<^verbatim>\<open>x + y\<close>, \<^verbatim>\<open>-x\<close>, and \<^verbatim>\<open>x * s\<close> with a finite \<open>s\<close>.\<close>

fun x_add :: "xreal \<Rightarrow> xreal \<Rightarrow> xreal" where
  "x_add (Fin a) (Fin b) = Fin (a + b)"
| "x_add (Fin a) PInf = PInf"
| "x_add (Fin a) MInf = MInf"
| "x_add (Fin a) NaN = NaN"
| "x_add PInf (Fin b) = PInf"
| "x_add PInf PInf = PInf"
| "x_add PInf MInf = NaN"
| "x_add PInf NaN = NaN"
| "x_add MInf (Fin b) = MInf"
| "x_add MInf PInf = NaN"
| "x_add MInf MInf = MInf"
| "x_add MInf NaN = NaN"
| "x_add NaN y = NaN"

fun x_uminus :: "xreal \<Rightarrow> xreal" where
  "x_uminus (Fin v) = Fin (- v)"
| "x_uminus PInf = MInf"
| "x_uminus MInf = PInf"
| "x_uminus NaN = NaN"

fun x_times :: "xreal \<Rightarrow> real \<Rightarrow> xreal" where
  "x_times (Fin v) s = Fin (v * s)"
| "x_times PInf s = (if 0 < s then PInf else if s < 0 then MInf else NaN)"
| "x_times MInf s = (if 0 < s then MInf else if s < 0 then PInf else NaN)"
| "x_times NaN s = NaN"

text \<open>The sum numpy accumulates from zero, in the order of the array.\<close>

definition x_sum :: "xreal list \<Rightarrow> xreal" where
  "x_sum xs = foldl x_add (Fin 0) xs"

text \<open>Whether an extended number is a real number, and which one.\<close>

fun is_fin :: "xreal \<Rightarrow> bool" where
  "is_fin (Fin v) = True"
| "is_fin PInf = False"
| "is_fin MInf = False"
| "is_fin NaN = False"

fun fin_of :: "xreal \<Rightarrow> real" where
  "fin_of (Fin v) = v"

subsection \<open>Arrays\<close>

type_synonym vec3 = "real \<times> real \<times> real"
type_synonym mat3 = "vec3 \<times> vec3 \<times> vec3"

fun scale3 :: "vec3 \<Rightarrow> real \<Rightarrow> vec3" where
  "scale3 (x, y, z) s = (x * s, y * s, z * s)"

fun sub3 :: "vec3 \<Rightarrow> vec3 \<Rightarrow> vec3" where
  "sub3 (a, b, c) (x, y, z) = (a - x, b - y, c - z)"

fun mul3 :: "vec3 \<Rightarrow> vec3 \<Rightarrow> vec3" where
  "mul3 (a, b, c) (x, y, z) = (a * x, b * y, c * z)"

fun sum3 :: "vec3 \<Rightarrow> real" where
  "sum3 (x, y, z) = x + y + z"

text \<open>\<^verbatim>\<open>np.power(a, 2)\<close> on one column.\<close>

fun sq3 :: "vec3 \<Rightarrow> vec3" where
  "sq3 (x, y, z) = (x ^ 2, y ^ 2, z ^ 2)"

text \<open>\<^verbatim>\<open>np.linalg.norm(a, 2, axis=0)\<close> on one column.\<close>

definition norm3 :: "vec3 \<Rightarrow> real" where
  "norm3 v = sqrt (sum3 (sq3 v))"

text \<open>The scalar product, in which the properties below are stated.\<close>

fun dot3 :: "vec3 \<Rightarrow> vec3 \<Rightarrow> real" where
  "dot3 (a, b, c) (x, y, z) = a * x + b * y + c * z"

fun mat3_vec :: "mat3 \<Rightarrow> vec3 \<Rightarrow> vec3" where
  "mat3_vec (r1, r2, r3) n = (dot3 r1 n, dot3 r2 n, dot3 r3 n)"

text \<open>
  \<^verbatim>\<open>nk = perm * n; nk = nk.sum(axis=1)\<close> on one incidence: the broadcast product
  multiplies entry \<open>(i, j)\<close> of the tensor by component \<open>j\<close> of the normal, and the sum
  over axis 1 adds each row up.
\<close>

fun contract :: "mat3 \<Rightarrow> vec3 \<Rightarrow> vec3" where
  "contract (r1, r2, r3) n = (sum3 (mul3 r1 n), sum3 (mul3 r2 n), sum3 (mul3 r3 n))"

text \<open>Fancy indexing \<^verbatim>\<open>a[idx]\<close> with an index array.\<close>

definition take_idx :: "'a list \<Rightarrow> nat list \<Rightarrow> 'a list" where
  "take_idx a idx = map (\<lambda>i. a ! i) idx"

text \<open>\<^verbatim>\<open>a[idx] = v\<close> with an index array and a scalar.\<close>

definition set_idx :: "'a list \<Rightarrow> nat list \<Rightarrow> 'a \<Rightarrow> 'a list" where
  "set_idx a idx v = map (\<lambda>i. if i \<in> set idx then v else a ! i) [0..<length a]"

text \<open>\<^verbatim>\<open>a[mask] = b[mask]\<close> and \<^verbatim>\<open>a[mask] = v\<close> with a boolean mask of the length of \<open>a\<close>.\<close>

definition set_mask_from :: "'a list \<Rightarrow> bool list \<Rightarrow> 'a list \<Rightarrow> 'a list" where
  "set_mask_from a msk b = map (\<lambda>i. if msk ! i then b ! i else a ! i) [0..<length a]"

definition set_mask :: "'a list \<Rightarrow> bool list \<Rightarrow> 'a \<Rightarrow> 'a list" where
  "set_mask a msk v = map (\<lambda>i. if msk ! i then v else a ! i) [0..<length a]"

text \<open>
  \<^verbatim>\<open>np.bincount(idx, weights=w)\<close>: entry \<open>f\<close> is the sum of the weights at the positions
  where \<open>idx\<close> is \<open>f\<close>; the length is the largest index plus one.
\<close>

definition bincount_len :: "nat list \<Rightarrow> nat" where
  "bincount_len idx = (if idx = [] then 0 else Suc (Max (set idx)))"

definition bincount :: "nat list \<Rightarrow> xreal list \<Rightarrow> xreal list" where
  "bincount idx w =
     map (\<lambda>f. x_sum (map (\<lambda>k. w ! k) (filter (\<lambda>k. idx ! k = f) [0..<length idx])))
       [0..<bincount_len idx]"

subsection \<open>Sparse matrices\<close>

record spmat =
  nrows :: nat
  ncols :: nat
  trip :: "(nat \<times> nat \<times> real) list"

text \<open>The entry at a position: the stored triples there, added up.\<close>

definition entry :: "spmat \<Rightarrow> nat \<Rightarrow> nat \<Rightarrow> real" where
  "entry M i j = sum_list (map (\<lambda>(r, c, v). v) (filter (\<lambda>(r, c, v). r = i \<and> c = j) (trip M)))"

text \<open>
  \<^verbatim>\<open>sps.find(M)\<close>: the rows, columns and values of the nonzero entries. The matrices
  this is applied to (the incidence matrices of a grid) are held in canonical
  column-compressed form, so the triples come in storage order.
\<close>

definition find_nz :: "spmat \<Rightarrow> (nat \<times> nat \<times> real) list" where
  "find_nz M = filter (\<lambda>(r, c, v). v \<noteq> 0) (trip M)"

definition rows_of :: "(nat \<times> nat \<times> real) list \<Rightarrow> nat list" where
  "rows_of ts = map (\<lambda>(r, c, v). r) ts"

definition cols_of :: "(nat \<times> nat \<times> real) list \<Rightarrow> nat list" where
  "cols_of ts = map (\<lambda>(r, c, v). c) ts"

definition vals_of :: "(nat \<times> nat \<times> real) list \<Rightarrow> real list" where
  "vals_of ts = map (\<lambda>(r, c, v). v) ts"

text \<open>\<^verbatim>\<open>sps.coo_matrix((data, (rows, cols)), shape)\<close> and the same with the shape
  inferred from the largest indices.\<close>

definition coo_matrix :: "real list \<Rightarrow> nat list \<Rightarrow> nat list \<Rightarrow> nat \<Rightarrow> nat \<Rightarrow> spmat" where
  "coo_matrix d rs cs m n = \<lparr>nrows = m, ncols = n, trip = zip rs (zip cs d)\<rparr>"

definition coo_matrix_infer :: "real list \<Rightarrow> nat list \<Rightarrow> nat list \<Rightarrow> spmat" where
  "coo_matrix_infer d rs cs = coo_matrix d rs cs (bincount_len rs) (bincount_len cs)"

text \<open>\<^verbatim>\<open>sps.diags(v)\<close> and \<^verbatim>\<open>sps.dia_matrix((v, 0), (n, n))\<close> with \<open>n\<close> values.\<close>

definition diags :: "real list \<Rightarrow> spmat" where
  "diags v = \<lparr>nrows = length v, ncols = length v,
              trip = map (\<lambda>i. (i, i, v ! i)) [0..<length v]\<rparr>"

definition transpose_m :: "spmat \<Rightarrow> spmat" where
  "transpose_m M = \<lparr>nrows = ncols M, ncols = nrows M,
                    trip = map (\<lambda>(r, c, v). (c, r, v)) (trip M)\<rparr>"

definition neg_m :: "spmat \<Rightarrow> spmat" where
  "neg_m M = \<lparr>nrows = nrows M, ncols = ncols M,
              trip = map (\<lambda>(r, c, v). (r, c, - v)) (trip M)\<rparr>"

definition scale_m :: "real \<Rightarrow> spmat \<Rightarrow> spmat" where
  "scale_m s M = \<lparr>nrows = nrows M, ncols = ncols M,
                  trip = map (\<lambda>(r, c, v). (r, c, s * v)) (trip M)\<rparr>"

definition zeros_m :: "nat \<Rightarrow> nat \<Rightarrow> spmat" where
  "zeros_m m n = \<lparr>nrows = m, ncols = n, trip = []\<rparr>"

text \<open>A matrix given by its entries, stored row by row.\<close>

definition tabulate_m :: "nat \<Rightarrow> nat \<Rightarrow> (nat \<Rightarrow> nat \<Rightarrow> real) \<Rightarrow> spmat" where
  "tabulate_m m n f =
     \<lparr>nrows = m, ncols = n,
      trip = concat (map (\<lambda>i. map (\<lambda>j. (i, j, f i j)) [0..<n]) [0..<m])\<rparr>"

text \<open>
  The product of two sparse matrices, \<^verbatim>\<open>A * B\<close>: scipy raises \<^verbatim>\<open>ValueError\<close>
  (dimension mismatch) unless the inner dimensions agree.
\<close>

definition mat_mul :: "spmat \<Rightarrow> spmat \<Rightarrow> error + spmat" where
  "mat_mul A B =
     (if ncols A = nrows B
      then Inr (tabulate_m (nrows A) (ncols B)
                 (\<lambda>i j. sum_list (map (\<lambda>k. entry A i k * entry B k j) [0..<ncols A])))
      else Inl ValueError)"

text \<open>The product of a sparse matrix and a one-dimensional array.\<close>

definition mat_vec :: "spmat \<Rightarrow> real list \<Rightarrow> error + real list" where
  "mat_vec A x =
     (if ncols A = length x
      then Inr (map (\<lambda>i. sum_list (map (\<lambda>k. entry A i k * x ! k) [0..<ncols A])) [0..<nrows A])
      else Inl ValueError)"

text \<open>Sum and difference: scipy raises \<^verbatim>\<open>ValueError\<close> (inconsistent shapes).\<close>

definition add_m :: "spmat \<Rightarrow> spmat \<Rightarrow> error + spmat" where
  "add_m A B =
     (if nrows A = nrows B \<and> ncols A = ncols B
      then Inr \<lparr>nrows = nrows A, ncols = ncols A, trip = trip A @ trip B\<rparr>
      else Inl ValueError)"

definition sub_m :: "spmat \<Rightarrow> spmat \<Rightarrow> error + spmat" where
  "sub_m A B = add_m A (neg_m B)"

subsection \<open>Grids, parameters and data dictionaries\<close>

text \<open>
  The fields of a \<^verbatim>\<open>Grid\<close> that the discretization reads. \<open>cell_faces\<close> is the signed
  incidence matrix, faces by cells; \<open>boundary_faces\<close> is what \<^verbatim>\<open>get_boundary_faces()\<close>
  returns.
\<close>

record grid =
  dim :: nat
  num_cells :: nat
  num_faces :: nat
  cell_faces :: spmat
  face_normals :: "vec3 list"
  face_centers :: "vec3 list"
  cell_centers :: "vec3 list"
  face_areas :: "real list"
  boundary_faces :: "nat list"

text \<open>
  What the accessors of the parameter object return: \<^verbatim>\<open>get_tensor(self).perm\<close>,
  \<^verbatim>\<open>get_bc(self).is_dir\<close>, \<^verbatim>\<open>get_bc(self).is_neu\<close>, \<^verbatim>\<open>get_aperture()\<close> (which may be
  \<^verbatim>\<open>None\<close>) and \<^verbatim>\<open>get_bc_val(self)\<close>.
\<close>

record param =
  perm :: "mat3 list"
  is_dir :: "bool list"
  is_neu :: "bool list"
  aperture :: "real list option"
  bc_val :: "real list"

text \<open>The mortar grid of an interface, with its two averaging projections.\<close>

record mortar_grid =
  mg_num_cells :: nat
  cell_volumes :: "real list"
  high_to_mortar_avg :: spmat
  low_to_mortar_avg :: spmat

text \<open>
  The values of a data dictionary. \<open>NotFinite m n\<close> is a sparse matrix of the shape
  \<open>m\<close> by \<open>n\<close> that holds \<^verbatim>\<open>inf\<close> or \<^verbatim>\<open>nan\<close>.
\<close>

datatype val =
    Mat spmat
  | Num real
  | Arr "real list"
  | Flag bool
  | Par param
  | MG mortar_grid
  | Blocks "spmat list list"
  | NotFinite nat nat

type_synonym data = "string \<Rightarrow> val option"

text \<open>\<^verbatim>\<open>d[key]\<close>: a missing key raises \<^verbatim>\<open>KeyError\<close>.\<close>

definition lookup :: "data \<Rightarrow> string \<Rightarrow> error + val" where
  "lookup d key = (case d key of None \<Rightarrow> Inl (KeyError key) | Some v \<Rightarrow> Inr v)"

text \<open>
  The truth value Python gives a dictionary value in \<^verbatim>\<open>if d.get(key, False):\<close>.
  numpy and scipy refuse to give one to an array or matrix with more than one element.
\<close>

definition truthy :: "val \<Rightarrow> error + bool" where
  "truthy v =
     (case v of
        Flag b \<Rightarrow> Inr b
      | Num x \<Rightarrow> Inr (x \<noteq> 0)
      | Arr xs \<Rightarrow> (if xs = [] then Inr False
                   else if length xs = 1 then Inr (hd xs \<noteq> 0) else Inl ValueError)
      | Mat M \<Rightarrow> (if nrows M = 1 \<and> ncols M = 1 then Inr (entry M 0 0 \<noteq> 0) else Inl ValueError)
      | Par p \<Rightarrow> Inr True
      | MG m \<Rightarrow> Inr True
      | Blocks b \<Rightarrow> Inl ValueError
      | NotFinite m n \<Rightarrow> (if m = 1 \<and> n = 1 then Inr True else Inl ValueError))"

definition get_flag :: "data \<Rightarrow> string \<Rightarrow> error + bool" where
  "get_flag d key = (case d key of None \<Rightarrow> Inr False | Some v \<Rightarrow> truthy v)"


subsection \<open>\<^verbatim>\<open>Tpfa.discretize\<close>\<close>

text \<open>\<^verbatim>\<open>fi, ci, sgn = sps.find(g.cell_faces)\<close>: the incidences, one triple each.\<close>

definition incid :: "grid \<Rightarrow> (nat \<times> nat \<times> real) list" where
  "incid g = find_nz (cell_faces g)"

definition fi :: "grid \<Rightarrow> nat list" where
  "fi g = rows_of (incid g)"

definition ci :: "grid \<Rightarrow> nat list" where
  "ci g = cols_of (incid g)"

definition sgn_of :: "grid \<Rightarrow> real list" where
  "sgn_of g = vals_of (incid g)"

text \<open>Lines 186 to 192: the mask of the faces left out of the assembly.\<close>

definition is_not_active :: "grid \<Rightarrow> nat list option \<Rightarrow> bool list" where
  "is_not_active g faces =
     (case faces of
        None \<Rightarrow> replicate (num_faces g) False
      | Some fs \<Rightarrow> map Not (set_idx (replicate (num_faces g) False) fs True))"

text \<open>Lines 197 to 201: the normal of the face, times the aperture of the cell if
  there are apertures, times the sign of the incidence.\<close>

definition scaled_normal :: "grid \<Rightarrow> param \<Rightarrow> nat \<times> nat \<times> real \<Rightarrow> vec3" where
  "scaled_normal g p = (\<lambda>(f, c, s).
     scale3 (case aperture p of
               None \<Rightarrow> face_normals g ! f
             | Some a \<Rightarrow> scale3 (face_normals g ! f) (a ! c)) s)"

text \<open>Line 205: from the cell centre to the face centre.\<close>

definition fc_cc :: "grid \<Rightarrow> nat \<times> nat \<times> real \<Rightarrow> vec3" where
  "fc_cc g = (\<lambda>(f, c, s). sub3 (face_centers g ! f) (cell_centers g ! c))"

text \<open>Lines 202, 208 and 209: the permeability of the cell contracted with the normal.\<close>

definition nk :: "grid \<Rightarrow> param \<Rightarrow> nat \<times> nat \<times> real \<Rightarrow> vec3" where
  "nk g p = (\<lambda>(f, c, s). contract (perm p ! c) (scaled_normal g p (f, c, s)))"

text \<open>Lines 211 to 220, for one incidence: the two policies.\<close>

definition t_face_num :: "grid \<Rightarrow> param \<Rightarrow> bool \<Rightarrow> nat \<times> nat \<times> real \<Rightarrow> real" where
  "t_face_num g p aav inc =
     (if aav then norm3 (nk g p inc) else sum3 (mul3 (nk g p inc) (fc_cc g inc)))"

definition dist_face_cell :: "grid \<Rightarrow> bool \<Rightarrow> nat \<times> nat \<times> real \<Rightarrow> real" where
  "dist_face_cell g aav inc =
     (if aav then norm3 (fc_cc g inc) else sum3 (sq3 (fc_cc g inc)))"

text \<open>
  Line 223: the half-transmissibilities, one for each incidence. Where the distance
  is zero the quotient is \<^verbatim>\<open>inf\<close>, \<^verbatim>\<open>-inf\<close> or \<^verbatim>\<open>nan\<close>.
\<close>

definition t_face :: "grid \<Rightarrow> param \<Rightarrow> bool \<Rightarrow> xreal list" where
  "t_face g p aav =
     map (\<lambda>inc. x_div (t_face_num g p aav inc) (dist_face_cell g aav inc)) (incid g)"

text \<open>
  Lines 226 and 229: the harmonic average, kept as \<^verbatim>\<open>t_full\<close>. The reciprocal of a
  zero half-transmissibility is \<^verbatim>\<open>inf\<close>, and the reciprocal of \<^verbatim>\<open>inf\<close> is zero.
\<close>

definition t_full :: "grid \<Rightarrow> param \<Rightarrow> bool \<Rightarrow> xreal list" where
  "t_full g p aav = map x_recip (bincount (fi g) (map x_recip (t_face g p aav)))"

text \<open>Lines 233 to 237: the coefficients of the boundary faces.\<close>

definition t_b :: "grid \<Rightarrow> param \<Rightarrow> bool \<Rightarrow> xreal list" where
  "t_b g p aav =
     take_idx
       (set_mask
          (set_mask_from (replicate (num_faces g) (Fin 0)) (is_dir p)
             (map x_uminus (t_full g p aav)))
          (is_neu p) (Fin 1))
       (boundary_faces g)"

text \<open>Line 238: no transmissibility on Neumann faces and on faces that are not active.\<close>

definition t_flux :: "grid \<Rightarrow> param \<Rightarrow> nat list option \<Rightarrow> bool \<Rightarrow> xreal list" where
  "t_flux g p faces aav =
     set_mask (t_full g p aav) (map2 (\<or>) (is_neu p) (is_not_active g faces)) (Fin 0)"

text \<open>
  Line 240: the values \<^verbatim>\<open>t[fi] * sgn\<close> of the flux matrix, and the matrix; its shape is
  inferred from the indices.
\<close>

definition flux_data :: "grid \<Rightarrow> param \<Rightarrow> nat list option \<Rightarrow> bool \<Rightarrow> xreal list" where
  "flux_data g p faces aav = map2 x_times (take_idx (t_flux g p faces aav) (fi g)) (sgn_of g)"

text \<open>The matrices below take the real values; they are stored when all are finite.\<close>

definition flux_m :: "grid \<Rightarrow> param \<Rightarrow> nat list option \<Rightarrow> bool \<Rightarrow> spmat" where
  "flux_m g p faces aav =
     coo_matrix_infer (map fin_of (flux_data g p faces aav)) (fi g) (ci g)"

text \<open>
  \<^verbatim>\<open>M[idx, :]\<close> with an index array: row \<open>k\<close> of the result is row \<open>idx[k]\<close> of \<open>M\<close>.
  The result keeps the storage order of \<open>M\<close>.
\<close>

definition positions :: "nat list \<Rightarrow> nat \<Rightarrow> nat list" where
  "positions idx r = filter (\<lambda>k. idx ! k = r) [0..<length idx]"

definition row_select :: "spmat \<Rightarrow> nat list \<Rightarrow> spmat" where
  "row_select M idx =
     \<lparr>nrows = length idx, ncols = ncols M,
      trip = concat (map (\<lambda>(r, c, v). map (\<lambda>k. (k, c, v)) (positions idx r)) (trip M))\<rparr>"

text \<open>\<^verbatim>\<open>np.argsort(keys)\<close>: the positions of the keys, in ascending order of the keys.\<close>

definition argsort :: "nat list \<Rightarrow> nat list" where
  "argsort ks = map snd (sort_key fst (zip ks [0..<length ks]))"

text \<open>
  Lines 243 to 245. In the column-compressed matrix \<^verbatim>\<open>g.cell_faces[bndr_ind, :]\<close>,
  \<^verbatim>\<open>.data\<close> are the stored values and \<^verbatim>\<open>.indices\<close> their rows.
\<close>

definition bndr_sgn :: "grid \<Rightarrow> real list" where
  "bndr_sgn g =
     (let B = row_select (cell_faces g) (boundary_faces g);
          sort_id = argsort (rows_of (trip B))
      in take_idx (vals_of (trip B)) sort_id)"

text \<open>Lines 246 and 247: the values \<^verbatim>\<open>t_b * bndr_sgn\<close>, and the matrix.\<close>

definition bound_flux_data :: "grid \<Rightarrow> param \<Rightarrow> bool \<Rightarrow> xreal list" where
  "bound_flux_data g p aav = map2 x_times (t_b g p aav) (bndr_sgn g)"

definition bound_flux_m :: "grid \<Rightarrow> param \<Rightarrow> bool \<Rightarrow> spmat" where
  "bound_flux_m g p aav =
     coo_matrix (map fin_of (bound_flux_data g p aav)) (boundary_faces g) (boundary_faces g)
       (num_faces g) (num_faces g)"

text \<open>Lines 254 to 260.\<close>

definition v_cell :: "grid \<Rightarrow> param \<Rightarrow> real list" where
  "v_cell g p = set_mask (replicate (length (fi g)) 0) (take_idx (is_neu p) (fi g)) 1"

definition v_face :: "grid \<Rightarrow> param \<Rightarrow> bool \<Rightarrow> xreal list" where
  "v_face g p aav =
     set_mask_from (set_mask (replicate (num_faces g) (Fin 0)) (is_dir p) (Fin 1)) (is_neu p)
       (map x_neg_recip (t_full g p aav))"

text \<open>Lines 262 to 265.\<close>

definition bound_pressure_cell_m :: "grid \<Rightarrow> param \<Rightarrow> spmat" where
  "bound_pressure_cell_m g p = coo_matrix (v_cell g p) (fi g) (ci g) (num_faces g) (num_cells g)"

definition bound_pressure_face_m :: "grid \<Rightarrow> param \<Rightarrow> bool \<Rightarrow> spmat" where
  "bound_pressure_face_m g p aav = diags (map fin_of (v_face g p aav))"

text \<open>
  numpy raises \<^verbatim>\<open>IndexError\<close> (or \<^verbatim>\<open>ValueError\<close>, where two operands do not fit) when
  an index array or a mask does not fit the array it addresses. The model gathers
  these conditions in two guards: \<open>index_fit\<close> for lines 186 to 209, \<open>mask_fit\<close> for
  lines 226 to 265.
\<close>

definition index_fit :: "grid \<Rightarrow> param \<Rightarrow> nat list option \<Rightarrow> bool" where
  "index_fit g p faces \<longleftrightarrow>
     (case faces of None \<Rightarrow> True | Some fs \<Rightarrow> \<forall>f \<in> set fs. f < num_faces g) \<and>
     (\<forall>(f, c, s) \<in> set (incid g).
        f < length (face_normals g) \<and> f < length (face_centers g) \<and>
        c < length (cell_centers g) \<and> c < length (perm p) \<and>
        (case aperture p of None \<Rightarrow> True | Some a \<Rightarrow> c < length a))"

definition mask_fit :: "grid \<Rightarrow> param \<Rightarrow> bool" where
  "mask_fit g p \<longleftrightarrow>
     incid g \<noteq> [] \<and>
     bincount_len (fi g) = num_faces g \<and>
     length (is_dir p) = num_faces g \<and>
     length (is_neu p) = num_faces g \<and>
     (\<forall>b \<in> set (boundary_faces g). b < num_faces g \<and> b < nrows (cell_faces g)) \<and>
     length (bndr_sgn g) = length (boundary_faces g) \<and>
     (\<forall>c \<in> set (ci g). c < num_cells g)"

text \<open>
  No division of lines 223 to 259 raises. An operator whose values are all finite is
  stored as a real matrix; one that holds \<^verbatim>\<open>inf\<close> or \<^verbatim>\<open>nan\<close> is stored as such.
\<close>

definition store_m :: "xreal list \<Rightarrow> spmat \<Rightarrow> val" where
  "store_m vs M = (if list_all is_fin vs then Mat M else NotFinite (nrows M) (ncols M))"

text \<open>
  \<^verbatim>\<open>Tpfa.discretize(g, data, faces)\<close>. Python writes into \<^verbatim>\<open>data\<close> and returns
  \<^verbatim>\<open>None\<close>; the model returns the dictionary as it is afterwards. \<^verbatim>\<open>csr_matrix([0])\<close>
  is the one-by-one matrix with no stored entry.
\<close>

definition discretize :: "grid \<Rightarrow> data \<Rightarrow> nat list option \<Rightarrow> error + data" where
  "discretize g d faces =
     thenE (lookup d ''param'') (\<lambda>pv.
       case pv of
         Par p \<Rightarrow>
           if dim g = 0
           then Inr (d(''flux'' \<mapsto> Mat (zeros_m 1 1), ''bound_flux'' \<mapsto> Num 0))
           else if \<not> index_fit g p faces then Inl IndexError
           else thenE (get_flag d ''Aavatsmark_transmissibilities'') (\<lambda>aav.
             if \<not> mask_fit g p then Inl IndexError
             else Inr (d(''flux'' \<mapsto> store_m (flux_data g p faces aav) (flux_m g p faces aav),
                         ''bound_flux'' \<mapsto>
                           store_m (bound_flux_data g p aav) (bound_flux_m g p aav),
                         ''bound_pressure_cell'' \<mapsto> Mat (bound_pressure_cell_m g p),
                         ''bound_pressure_face'' \<mapsto>
                           store_m (v_face g p aav) (bound_pressure_face_m g p aav))))
       | _ \<Rightarrow> Inl AttributeError)"

subsection \<open>\<^verbatim>\<open>Tpfa.matrix_rhs\<close> and \<^verbatim>\<open>Tpfa.rhs\<close>\<close>

text \<open>
  Modelled from the spec: \<^verbatim>\<open>fvutils.scalar_divergence\<close> is not part of the source. The
  specification describes it as the signed operator from faces to cells of the grid;
  with the incidence matrix stored faces by cells, that is its transpose.
\<close>

definition scalar_divergence :: "grid \<Rightarrow> spmat" where
  "scalar_divergence g = transpose_m (cell_faces g)"

text \<open>
  \<^verbatim>\<open>A * v\<close> and \<^verbatim>\<open>v * A\<close> for a sparse matrix \<open>A\<close> and a value \<open>v\<close> read from a
  record: a matrix, a scalar (the \<^verbatim>\<open>bound_flux\<close> of a point grid), or an operator that
  holds \<^verbatim>\<open>inf\<close> or \<^verbatim>\<open>nan\<close>, with which the model does not go on. The records hold
  nothing else under the keys that are multiplied; \<open>TypeError\<close> stands for any other
  value.
\<close>

definition times_val :: "spmat \<Rightarrow> val \<Rightarrow> error + spmat" where
  "times_val A v =
     (case v of
        Mat B \<Rightarrow> mat_mul A B
      | Num x \<Rightarrow> Inr (scale_m x A)
      | NotFinite m n \<Rightarrow> (if ncols A = m then Inl NonFinite else Inl ValueError)
      | _ \<Rightarrow> Inl TypeError)"

definition val_times :: "val \<Rightarrow> spmat \<Rightarrow> error + spmat" where
  "val_times v A =
     (case v of
        Mat B \<Rightarrow> mat_mul B A
      | Num x \<Rightarrow> Inr (scale_m x A)
      | NotFinite m n \<Rightarrow> (if n = nrows A then Inl NonFinite else Inl ValueError)
      | _ \<Rightarrow> Inl TypeError)"

text \<open>\<^verbatim>\<open>Tpfa.rhs\<close>, lines 141 and 142: \<^verbatim>\<open>-div * bound_flux * bc_val\<close> is read from the
  left, and \<^verbatim>\<open>div\<close> is the transposed incidence matrix.\<close>

definition rhs :: "grid \<Rightarrow> val \<Rightarrow> real list \<Rightarrow> error + real list" where
  "rhs g bound_flux bc =
     (let div_g = transpose_m (cell_faces g)
      in thenE (times_val (neg_m div_g) bound_flux) (\<lambda>X. mat_vec X bc))"

text \<open>
  \<^verbatim>\<open>Tpfa.matrix_rhs(g, data, faces, discretize)\<close>. The argument \<^verbatim>\<open>faces\<close> is not used:
  \<^verbatim>\<open>discretize\<close> is called without it. The model returns the matrix, the right-hand
  side and the record as it is afterwards.
\<close>

definition matrix_rhs :: "grid \<Rightarrow> data \<Rightarrow> bool \<Rightarrow> error + spmat \<times> real list \<times> data" where
  "matrix_rhs g d discr =
     (let div_g = scalar_divergence g in
      thenE (if discr then discretize g d None else Inr d) (\<lambda>d1.
      thenE (lookup d1 ''flux'') (\<lambda>flux.
      thenE (times_val div_g flux) (\<lambda>M.
      thenE (lookup d1 ''bound_flux'') (\<lambda>bound_flux.
      thenE (lookup d1 ''param'') (\<lambda>pv.
        case pv of
          Par p \<Rightarrow> thenE (rhs g bound_flux (bc_val p)) (\<lambda>r. Inr (M, r, d1))
        | _ \<Rightarrow> Inl AttributeError))))))"

text \<open>
  The right-hand side as the specification words it: minus the transpose of the
  divergence operator, times the boundary-flux operator, times the boundary values.
\<close>

definition spec_rhs :: "grid \<Rightarrow> spmat \<Rightarrow> real list \<Rightarrow> error + real list" where
  "spec_rhs g B bc =
     thenE (mat_mul (neg_m (transpose_m (scalar_divergence g))) B) (\<lambda>X. mat_vec X bc)"

subsection \<open>\<^verbatim>\<open>TpfaCoupling.matrix_rhs\<close>\<close>

text \<open>
  \<^verbatim>\<open>np.unique(xs, return_index=True)[1]\<close>: for each distinct value, in ascending order,
  the first position at which it occurs.
\<close>

definition first_index :: "nat list \<Rightarrow> nat \<Rightarrow> nat" where
  "first_index xs v = length (takeWhile (\<lambda>x. x \<noteq> v) xs)"

definition unique_index :: "nat list \<Rightarrow> nat list" where
  "unique_index xs = map (first_index xs) (sort (remdups xs))"

text \<open>
  Modelled from the spec: \<^verbatim>\<open>create_block_matrix\<close> is inherited from
  \<^verbatim>\<open>AbstractCoupling\<close>, which is not part of the source. The specification has the
  coupling produce a block matrix over the variable groups; the blocks are modelled as
  \<^verbatim>\<open>TpfaCouplingDFN.matrix_rhs\<close> builds them in lines 448 and 449: an empty matrix of
  shape \<open>(i, j)\<close> for every pair of group sizes.
\<close>

definition create_block_matrix :: "nat list \<Rightarrow> spmat list list" where
  "create_block_matrix dof = map (\<lambda>i. map (\<lambda>j. zeros_m i j) dof) dof"

text \<open>Line 334, \<^verbatim>\<open>inv_k = 1./(2.*kn)\<close>, for a scalar or an array \<^verbatim>\<open>kn\<close>.\<close>

definition inv_k_of :: "val \<Rightarrow> error + val" where
  "inv_k_of v =
     (case v of
        Num x \<Rightarrow> if 2 * x = 0 then Inl NonFinite else Inr (Num (1 / (2 * x)))
      | Flag b \<Rightarrow> if b then Inr (Num (1 / 2)) else Inl NonFinite
      | Arr xs \<Rightarrow> if \<exists>x \<in> set xs. 2 * x = 0 then Inl NonFinite
                  else Inr (Arr (map (\<lambda>x. 1 / (2 * x)) xs))
      | _ \<Rightarrow> Inl TypeError)"

text \<open>
  \<^verbatim>\<open>np.divide(a, w)\<close> for a scalar or an array \<open>a\<close> and an array \<open>w\<close>: two arrays must
  have the same length, unless one of them has length one.
\<close>

definition np_divide :: "val \<Rightarrow> real list \<Rightarrow> error + real list" where
  "np_divide a w =
     (case a of
        Num x \<Rightarrow> if 0 \<in> set w then Inl NonFinite else Inr (map (\<lambda>y. x / y) w)
      | Arr xs \<Rightarrow>
          if length xs = length w
          then (if 0 \<in> set w then Inl NonFinite else Inr (map2 (/) xs w))
          else if length xs = 1
          then (if 0 \<in> set w then Inl NonFinite else Inr (map (\<lambda>y. hd xs / y) w))
          else if length w = 1
          then (if hd w = 0 then Inl NonFinite else Inr (map (\<lambda>x. x / hd w) xs))
          else Inl ValueError
      | _ \<Rightarrow> Inl TypeError)"

text \<open>\<^verbatim>\<open>A.A.sum(axis=1)\<close>: the sums of the rows.\<close>

definition row_sums :: "spmat \<Rightarrow> real list" where
  "row_sums A = map (\<lambda>i. sum_list (map (\<lambda>j. entry A i j) [0..<ncols A])) [0..<nrows A]"

text \<open>
  The sum of two arrays of blocks, \<^verbatim>\<open>matrix + cc\<close>: the blocks are added one by one.
  The two arrays have the same shape (broadcasting between block arrays of different
  shapes is not modelled).
\<close>

fun sequence_e :: "(error + 'a) list \<Rightarrow> error + 'a list" where
  "sequence_e [] = Inr []"
| "sequence_e (x # xs) = thenE x (\<lambda>y. thenE (sequence_e xs) (\<lambda>ys. Inr (y # ys)))"

definition add_blocks :: "spmat list list \<Rightarrow> spmat list list \<Rightarrow> error + spmat list list" where
  "add_blocks A B =
     (if length A = length B \<and> list_all2 (\<lambda>a b. length a = length b) A B
      then sequence_e (map (\<lambda>(ra, rb). sequence_e (map (\<lambda>(a, b). add_m a b) (zip ra rb)))
                        (zip A B))
      else Inl ValueError)"

text \<open>
  The function is modelled in three parts. The first part is lines 305 to 343: what
  is read from the records and the grids, the empty blocks, \<^verbatim>\<open>Eta\<close> and the mortar
  mass matrix \<^verbatim>\<open>M\<close>. (\<^verbatim>\<open>face_areas_h\<close> of line 340 is not used and cannot fail.)
\<close>

record coupling_state =
  cs_mg :: mortar_grid
  cs_bound_pressure_cc_h :: val
  cs_bound_pressure_face_h :: val
  cs_bound_flux_h :: val
  cs_div_h :: spmat
  cs_hat_P :: spmat
  cs_check_P :: spmat
  cs_cc :: "spmat list list"
  cs_Eta :: spmat
  cs_M :: spmat

text \<open>Lines 316 to 318: for each face of the grid, the cell of its first incidence.\<close>

definition cells_of_faces :: "grid \<Rightarrow> nat list" where
  "cells_of_faces g =
     take_idx (cols_of (find_nz (cell_faces g))) (unique_index (rows_of (find_nz (cell_faces g))))"

definition coupling_setup :: "grid \<Rightarrow> grid \<Rightarrow> data \<Rightarrow> data \<Rightarrow> error + coupling_state" where
  "coupling_setup g_h g_l data_h data_edge =
     thenE (lookup data_edge ''mortar_grid'') (\<lambda>mgv.
       case mgv of
         MG mg \<Rightarrow>
           thenE (lookup data_h ''bound_pressure_cell'') (\<lambda>bound_pressure_cc_h.
           thenE (lookup data_h ''bound_pressure_face'') (\<lambda>bound_pressure_face_h.
           let cells_h = cells_of_faces g_h in
           thenE (lookup data_h ''bound_flux'') (\<lambda>bound_flux_h.
           let div_h = scalar_divergence g_h;
               hat_P = high_to_mortar_avg mg;
               check_P = low_to_mortar_avg mg;
               cc = create_block_matrix [num_cells g_h, num_cells g_l, mg_num_cells mg] in
           thenE (lookup data_edge ''kn'') (\<lambda>kn.
           thenE (inv_k_of kn) (\<lambda>inv_k.
           thenE (lookup data_h ''param'') (\<lambda>pv.
             case pv of
               Par p \<Rightarrow>
                 (case aperture p of
                    None \<Rightarrow> Inl TypeError
                  | Some aperture_h \<Rightarrow>
                      if \<not> (\<forall>c \<in> set cells_h. c < length aperture_h) then Inl IndexError
                      else
                        thenE (mat_vec hat_P (take_idx aperture_h cells_h)) (\<lambda>w.
                        thenE (np_divide inv_k w) (\<lambda>eta.
                        if 0 \<in> set (cell_volumes mg) then Inl NonFinite
                        else Inr \<lparr>cs_mg = mg,
                                  cs_bound_pressure_cc_h = bound_pressure_cc_h,
                                  cs_bound_pressure_face_h = bound_pressure_face_h,
                                  cs_bound_flux_h = bound_flux_h,
                                  cs_div_h = div_h, cs_hat_P = hat_P, cs_check_P = check_P,
                                  cs_cc = cc, cs_Eta = diags eta,
                                  cs_M = diags (map (\<lambda>x. 1 / x) (cell_volumes mg))\<rparr>)))
             | _ \<Rightarrow> Inl AttributeError))))))
       | _ \<Rightarrow> Inl AttributeError)"

text \<open>The second part is lines 345 and 346: the orientation of the mortar cells.\<close>

definition mortar_div_mat :: "coupling_state \<Rightarrow> error + spmat" where
  "mortar_div_mat s =
     thenE (mat_mul (cs_hat_P s) (transpose_m (cs_div_h s))) (\<lambda>A.
       Inr (diags (map sgn (row_sums A))))"

text \<open>
  The third part is lines 348 to 385: the blocks, the keys written to the record of
  the interface, and the sum with the matrix assembled so far.
\<close>

definition coupling_blocks ::
  "spmat list list \<Rightarrow> data \<Rightarrow> coupling_state \<Rightarrow> error + spmat list list \<times> data" where
  "coupling_blocks matrix data_edge s =
     thenE (val_times (cs_bound_flux_h s) (transpose_m (cs_hat_P s))) (\<lambda>mortar_to_bc.
     thenE (mat_mul (cs_div_h s) mortar_to_bc) (\<lambda>cc02.
     let cc12 = neg_m (transpose_m (cs_check_P s)) in
     thenE (times_val (cs_hat_P s) (cs_bound_pressure_cc_h s)) (\<lambda>hat_P_to_mortar.
     thenE (times_val (cs_hat_P s) (cs_bound_pressure_face_h s)) (\<lambda>hb.
     thenE (mat_mul hb (transpose_m (cs_hat_P s))) (\<lambda>trace.
     thenE (add_m (cs_cc s ! 2 ! 2) trace) (\<lambda>cc22a.
     let cc21 = neg_m (cs_check_P s) in
     thenE (mat_mul (cs_Eta s) (cs_M s)) (\<lambda>em.
     thenE (sub_m cc22a em) (\<lambda>cc22.
     let cc = [[cs_cc s ! 0 ! 0, cs_cc s ! 0 ! 1, cc02],
               [cs_cc s ! 1 ! 0, cs_cc s ! 1 ! 1, cc12],
               [hat_P_to_mortar, cc21, cc22]];
         data_edge' = data_edge(''mortar_to_bc'' \<mapsto> Mat mortar_to_bc,
                                ''jump'' \<mapsto> Mat (neg_m (transpose_m (cs_check_P s))),
                                ''hat_P_to_mortar'' \<mapsto> Mat hat_P_to_mortar,
                                ''check_P_to_mortar'' \<mapsto> Mat (cs_check_P s),
                                ''mortar_weight'' \<mapsto> Mat cc22) in
     thenE (add_blocks matrix cc) (\<lambda>res. Inr (res, data_edge'))))))))))"

text \<open>
  \<^verbatim>\<open>TpfaCoupling.matrix_rhs(matrix, g_h, g_l, data_h, data_l, data_edge)\<close>. The record
  \<^verbatim>\<open>data_l\<close> is not read. The model returns the block matrix and the record of the
  interface as it is afterwards.
\<close>

definition coupling_matrix_rhs ::
  "spmat list list \<Rightarrow> grid \<Rightarrow> grid \<Rightarrow> data \<Rightarrow> data \<Rightarrow> data \<Rightarrow>
     error + spmat list list \<times> data" where
  "coupling_matrix_rhs matrix g_h g_l data_h data_l data_edge =
     thenE (coupling_setup g_h g_l data_h data_edge) (\<lambda>s.
     thenE (mortar_div_mat s) (\<lambda>mortar_div_mat.
       coupling_blocks matrix data_edge s))"

text \<open>The same computation with lines 345 and 346 left out.\<close>

definition coupling_without_orientation ::
  "spmat list list \<Rightarrow> grid \<Rightarrow> grid \<Rightarrow> data \<Rightarrow> data \<Rightarrow> data \<Rightarrow>
     error + spmat list list \<times> data" where
  "coupling_without_orientation matrix g_h g_l data_h data_l data_edge =
     thenE (coupling_setup g_h g_l data_h data_edge) (\<lambda>s.
       coupling_blocks matrix data_edge s)"


subsection \<open>\<^verbatim>\<open>TpfaCouplingDFN.matrix_rhs\<close>\<close>

text \<open>\<^verbatim>\<open>sps.hstack([A, B])\<close> for two matrices with the same number of rows.\<close>

definition hstack :: "spmat \<Rightarrow> spmat \<Rightarrow> spmat" where
  "hstack A B =
     \<lparr>nrows = nrows A, ncols = ncols A + ncols B,
      trip = trip A @ map (\<lambda>(r, c, v). (r, c + ncols A, v)) (trip B)\<rparr>"

text \<open>Line 417: the coupling pairs, a cell of the lower grid and a face of the higher.\<close>

definition dfn_cells_l :: "spmat \<Rightarrow> nat list" where
  "dfn_cells_l face_cells = rows_of (find_nz face_cells)"

definition dfn_faces_h :: "spmat \<Rightarrow> nat list" where
  "dfn_faces_h face_cells = cols_of (find_nz face_cells)"

text \<open>Lines 418 to 423: the cell and the sign of the first incidence of each of these
  faces.\<close>

definition sgn_of_faces :: "grid \<Rightarrow> real list" where
  "sgn_of_faces g =
     take_idx (vals_of (find_nz (cell_faces g))) (unique_index (rows_of (find_nz (cell_faces g))))"

definition dfn_cells_h :: "grid \<Rightarrow> spmat \<Rightarrow> nat list" where
  "dfn_cells_h g face_cells = take_idx (cells_of_faces g) (dfn_faces_h face_cells)"

definition dfn_sgn_h :: "grid \<Rightarrow> spmat \<Rightarrow> real list" where
  "dfn_sgn_h g face_cells = take_idx (sgn_of_faces g) (dfn_faces_h face_cells)"

definition dfn_incid :: "grid \<Rightarrow> spmat \<Rightarrow> (nat \<times> nat \<times> real) list" where
  "dfn_incid g face_cells =
     zip (dfn_faces_h face_cells) (zip (dfn_cells_h g face_cells) (dfn_sgn_h g face_cells))"

text \<open>Lines 428 to 434: here the normal is scaled by the sign only.\<close>

definition dfn_nk :: "grid \<Rightarrow> param \<Rightarrow> nat \<times> nat \<times> real \<Rightarrow> vec3" where
  "dfn_nk g p = (\<lambda>(f, c, s). contract (perm p ! c) (scale3 (face_normals g ! f) s))"

text \<open>Lines 435 to 441, for one coupling pair.\<close>

definition dfn_t_face_num :: "grid \<Rightarrow> param \<Rightarrow> bool \<Rightarrow> nat \<times> nat \<times> real \<Rightarrow> real" where
  "dfn_t_face_num g p aav inc =
     (if aav then norm3 (dfn_nk g p inc) else sum3 (mul3 (dfn_nk g p inc) (fc_cc g inc)))"

text \<open>Lines 444 and 445: times the aperture of the cell, over the distance.\<close>

definition dfn_t :: "grid \<Rightarrow> param \<Rightarrow> real list \<Rightarrow> spmat \<Rightarrow> bool \<Rightarrow> real list" where
  "dfn_t g p a_h face_cells aav =
     map (\<lambda>inc. dfn_t_face_num g p aav inc * a_h ! fst (snd inc) / dist_face_cell g aav inc)
       (dfn_incid g face_cells)"

text \<open>The index arrays of lines 423 to 431 fit the arrays they address.\<close>

definition dfn_index_fit :: "grid \<Rightarrow> param \<Rightarrow> spmat \<Rightarrow> bool" where
  "dfn_index_fit g p face_cells \<longleftrightarrow>
     (\<forall>f \<in> set (dfn_faces_h face_cells).
        f < length (cells_of_faces g) \<and> f < length (face_normals g) \<and>
        f < length (face_centers g)) \<and>
     (\<forall>c \<in> set (dfn_cells_h g face_cells). c < length (perm p) \<and> c < length (cell_centers g))"

text \<open>The indices of lines 453 to 464 lie inside the shapes given there.\<close>

definition dfn_shape_fit :: "grid \<Rightarrow> grid \<Rightarrow> spmat \<Rightarrow> bool" where
  "dfn_shape_fit g_h g_l face_cells \<longleftrightarrow>
     (\<forall>l \<in> set (dfn_cells_l face_cells). l < num_cells g_l) \<and>
     (\<forall>c \<in> set (dfn_cells_h g_h face_cells). c < num_cells g_h) \<and>
     (\<forall>f \<in> set (dfn_faces_h face_cells). f < num_faces g_h)"

text \<open>
  \<^verbatim>\<open>TpfaCouplingDFN.matrix_rhs(g_h, g_l, data_h, data_l, data_edge)\<close>. The record
  \<^verbatim>\<open>data_l\<close> is not read. The model returns the two-by-two array of blocks and the
  record of the interface as it is afterwards. \<^verbatim>\<open>csr_matrix((data, (I, J)), shape)\<close>
  holds the same entries as the matrix of the triples.
\<close>

definition dfn_matrix_rhs ::
  "grid \<Rightarrow> grid \<Rightarrow> data \<Rightarrow> data \<Rightarrow> data \<Rightarrow> error + spmat list list \<times> data" where
  "dfn_matrix_rhs g_h g_l data_h data_l data_edge =
     thenE (lookup data_h ''param'') (\<lambda>pv.
       case pv of
         Par p \<Rightarrow>
           (let dof = [num_cells g_h, num_cells g_l] in
            thenE (lookup data_edge ''face_cells'') (\<lambda>fcv.
              case fcv of
                Mat face_cells \<Rightarrow>
                  if \<not> dfn_index_fit g_h p face_cells then Inl IndexError
                  else
                    thenE (get_flag data_edge ''Aavatsmark_transmissibilities'') (\<lambda>aav.
                      case aperture p of
                        None \<Rightarrow> Inl TypeError
                      | Some a_h \<Rightarrow>
                          if \<not> (\<forall>c \<in> set (dfn_cells_h g_h face_cells). c < length a_h)
                          then Inl IndexError
                          else if \<not> (\<forall>inc \<in> set (dfn_incid g_h face_cells).
                                        dist_face_cell g_h aav inc \<noteq> 0)
                          then Inl NonFinite
                          else if \<not> dfn_shape_fit g_h g_l face_cells then Inl ValueError
                          else
                            (let t = dfn_t g_h p a_h face_cells aav;
                                 cells_l = dfn_cells_l face_cells;
                                 cells_h = dfn_cells_h g_h face_cells;
                                 cc10 = coo_matrix (map uminus t) cells_l cells_h (dof ! 1) (dof ! 0);
                                 cc01 = transpose_m cc10;
                                 cc00 = coo_matrix t cells_h cells_h (dof ! 0) (dof ! 0);
                                 cc11 = coo_matrix t cells_l cells_l (dof ! 1) (dof ! 1);
                                 cc = [[cc00, cc01], [cc10, cc11]];
                                 cells2faces =
                                   coo_matrix (dfn_sgn_h g_h face_cells) (dfn_faces_h face_cells)
                                     cells_h (num_faces g_h) (num_cells g_h)
                             in thenE (mat_mul cells2faces cc00) (\<lambda>f0.
                                thenE (mat_mul cells2faces cc01) (\<lambda>f1.
                                  Inr (cc, data_edge(''coupling_flux'' \<mapsto> Mat (hstack f0 f1),
                                                      ''coupling_discretization'' \<mapsto> Blocks cc))))))
              | _ \<Rightarrow> Inl TypeError))
       | _ \<Rightarrow> Inl AttributeError)"

text \<open>The sum of the entries of a row, and the sum of their magnitudes.\<close>

definition row_sum :: "spmat \<Rightarrow> nat \<Rightarrow> real" where
  "row_sum M i = sum_list (map (\<lambda>j. entry M i j) [0..<ncols M])"

definition sum_magnitudes :: "spmat \<Rightarrow> nat \<Rightarrow> real" where
  "sum_magnitudes M i = sum_list (map (\<lambda>j. \<bar>entry M i j\<bar>) [0..<ncols M])"

subsection \<open>A small grid\<close>

text \<open>
  Two cells on the segment from 0 to 2 along the first axis, with faces at 0, 1 and 2.
  The permeability is 1 in the first cell and 3 in the second, the aperture is 1 in
  both. The left end is a Dirichlet face, the right end a Neumann face.
\<close>

definition ex_grid :: grid where
  "ex_grid =
     \<lparr>dim = 1, num_cells = 2, num_faces = 3,
      cell_faces = \<lparr>nrows = 3, ncols = 2,
                     trip = [(0, 0, - 1), (1, 0, 1), (1, 1, - 1), (2, 1, 1)]\<rparr>,
      face_normals = [(1, 0, 0), (1, 0, 0), (1, 0, 0)],
      face_centers = [(0, 0, 0), (1, 0, 0), (2, 0, 0)],
      cell_centers = [(1 / 2, 0, 0), (3 / 2, 0, 0)],
      face_areas = [1, 1, 1],
      boundary_faces = [0, 2]\<rparr>"

definition ex_param :: param where
  "ex_param =
     \<lparr>perm = [((1, 0, 0), (0, 1, 0), (0, 0, 1)), ((3, 0, 0), (0, 3, 0), (0, 0, 3))],
      is_dir = [True, False, False],
      is_neu = [False, False, True],
      aperture = Some [1, 1],
      bc_val = [1, 0, 2]\<rparr>"

definition ex_data :: data where
  "ex_data = [''param'' \<mapsto> Par ex_param]"

text \<open>A point grid: one cell, no face.\<close>

definition pt_grid :: grid where
  "pt_grid =
     \<lparr>dim = 0, num_cells = 1, num_faces = 0,
      cell_faces = \<lparr>nrows = 0, ncols = 1, trip = []\<rparr>,
      face_normals = [], face_centers = [], cell_centers = [(1, 0, 0)],
      face_areas = [], boundary_faces = []\<rparr>"

text \<open>The record of the small grid after \<^verbatim>\<open>discretize\<close>, with the default policy.\<close>

definition ex_discretized :: data where
  "ex_discretized =
     ex_data(''flux'' \<mapsto> Mat (flux_m ex_grid ex_param None False),
             ''bound_flux'' \<mapsto> Mat (bound_flux_m ex_grid ex_param False),
             ''bound_pressure_cell'' \<mapsto> Mat (bound_pressure_cell_m ex_grid ex_param),
             ''bound_pressure_face'' \<mapsto> Mat (bound_pressure_face_m ex_grid ex_param False))"

text \<open>
  The small grid with no permeability in the second cell and Dirichlet faces at both
  ends. The half-transmissibilities of the second cell are zero; their reciprocals are
  \<^verbatim>\<open>inf\<close>, and so are the sums at the faces 1 and 2, whose transmissibilities are the
  reciprocal of \<^verbatim>\<open>inf\<close>, zero. The record after \<^verbatim>\<open>discretize\<close> holds finite operators.
\<close>

definition tight_param :: param where
  "tight_param =
     \<lparr>perm = [((1, 0, 0), (0, 1, 0), (0, 0, 1)), ((0, 0, 0), (0, 0, 0), (0, 0, 0))],
      is_dir = [True, False, True],
      is_neu = [False, False, False],
      aperture = Some [1, 1],
      bc_val = [1, 0, 2]\<rparr>"

definition tight_data :: data where
  "tight_data = [''param'' \<mapsto> Par tight_param]"

definition tight_discretized :: data where
  "tight_discretized =
     tight_data(
       ''flux'' \<mapsto>
         Mat \<lparr>nrows = 3, ncols = 2, trip = [(0, 0, - 2), (1, 0, 0), (1, 1, 0), (2, 1, 0)]\<rparr>,
       ''bound_flux'' \<mapsto> Mat \<lparr>nrows = 3, ncols = 3, trip = [(0, 0, 2), (2, 2, 0)]\<rparr>,
       ''bound_pressure_cell'' \<mapsto>
         Mat \<lparr>nrows = 3, ncols = 2, trip = [(0, 0, 0), (1, 0, 0), (1, 1, 0), (2, 1, 0)]\<rparr>,
       ''bound_pressure_face'' \<mapsto>
         Mat \<lparr>nrows = 3, ncols = 3, trip = [(0, 0, 1), (1, 1, 0), (2, 2, 1)]\<rparr>)"

text \<open>
  The same grid without permeability in the second cell, with the boundary conditions
  of the first example: the right end is a Neumann face whose half-transmissibility is
  zero. The flux and boundary-flux operators are finite; \<^verbatim>\<open>bound_pressure_face\<close> holds
  \<open>- 1 / 0\<close> at that face.
\<close>

definition sealed_param :: param where
  "sealed_param =
     \<lparr>perm = [((1, 0, 0), (0, 1, 0), (0, 0, 1)), ((0, 0, 0), (0, 0, 0), (0, 0, 0))],
      is_dir = [True, False, False],
      is_neu = [False, False, True],
      aperture = Some [1, 1],
      bc_val = [1, 0, 2]\<rparr>"

definition sealed_data :: data where
  "sealed_data = [''param'' \<mapsto> Par sealed_param]"

definition sealed_discretized :: data where
  "sealed_discretized =
     sealed_data(
       ''flux'' \<mapsto>
         Mat \<lparr>nrows = 3, ncols = 2, trip = [(0, 0, - 2), (1, 0, 0), (1, 1, 0), (2, 1, 0)]\<rparr>,
       ''bound_flux'' \<mapsto> Mat \<lparr>nrows = 3, ncols = 3, trip = [(0, 0, 2), (2, 2, 1)]\<rparr>,
       ''bound_pressure_cell'' \<mapsto>
         Mat \<lparr>nrows = 3, ncols = 2, trip = [(0, 0, 0), (1, 0, 0), (1, 1, 0), (2, 1, 1)]\<rparr>,
       ''bound_pressure_face'' \<mapsto> NotFinite 3 3)"

text \<open>
  An interface on the small grid: one mortar cell of volume 2 on the right end face,
  coupled to the cell of the point grid, with normal permeability 1. The matrix
  assembled so far is empty.
\<close>

definition ex_mg :: mortar_grid where
  "ex_mg =
     \<lparr>mg_num_cells = 1, cell_volumes = [2],
      high_to_mortar_avg = \<lparr>nrows = 1, ncols = 3, trip = [(0, 2, 1)]\<rparr>,
      low_to_mortar_avg = \<lparr>nrows = 1, ncols = 1, trip = [(0, 0, 1)]\<rparr>\<rparr>"

definition ex_edge :: data where
  "ex_edge = [''mortar_grid'' \<mapsto> MG ex_mg, ''kn'' \<mapsto> Num 1]"

definition ex_blocks :: "spmat list list" where
  "ex_blocks = create_block_matrix [2, 1, 1]"

text \<open>What lines 305 to 343 compute on this interface.\<close>

definition ex_state :: coupling_state where
  "ex_state =
     \<lparr>cs_mg = ex_mg,
      cs_bound_pressure_cc_h = Mat (bound_pressure_cell_m ex_grid ex_param),
      cs_bound_pressure_face_h = Mat (bound_pressure_face_m ex_grid ex_param False),
      cs_bound_flux_h = Mat (bound_flux_m ex_grid ex_param False),
      cs_div_h = scalar_divergence ex_grid,
      cs_hat_P = high_to_mortar_avg ex_mg, cs_check_P = low_to_mortar_avg ex_mg,
      cs_cc = create_block_matrix [2, 1, 1],
      cs_Eta = diags [1 / 2], cs_M = diags [1 / 2]\<rparr>"

text \<open>What the coupling returns on this interface, and the record afterwards.\<close>

definition ex_weight :: spmat where
  "ex_weight = \<lparr>nrows = 1, ncols = 1, trip = [(0, 0, - (1 / 6)), (0, 0, - (1 / 4))]\<rparr>"

definition ex_coupled :: "spmat list list" where
  "ex_coupled =
     [[zeros_m 2 2, zeros_m 2 1, \<lparr>nrows = 2, ncols = 1, trip = [(0, 0, 0), (1, 0, 1)]\<rparr>],
      [zeros_m 1 2, zeros_m 1 1, \<lparr>nrows = 1, ncols = 1, trip = [(0, 0, - 1)]\<rparr>],
      [\<lparr>nrows = 1, ncols = 2, trip = [(0, 0, 0), (0, 1, 1)]\<rparr>,
       \<lparr>nrows = 1, ncols = 1, trip = [(0, 0, - 1)]\<rparr>, ex_weight]]"

definition ex_edge_after :: data where
  "ex_edge_after =
     ex_edge(''mortar_to_bc'' \<mapsto>
               Mat \<lparr>nrows = 3, ncols = 1, trip = [(0, 0, 0), (1, 0, 0), (2, 0, 1)]\<rparr>,
             ''jump'' \<mapsto> Mat \<lparr>nrows = 1, ncols = 1, trip = [(0, 0, - 1)]\<rparr>,
             ''hat_P_to_mortar'' \<mapsto> Mat \<lparr>nrows = 1, ncols = 2, trip = [(0, 0, 0), (0, 1, 1)]\<rparr>,
             ''check_P_to_mortar'' \<mapsto> Mat \<lparr>nrows = 1, ncols = 1, trip = [(0, 0, 1)]\<rparr>,
             ''mortar_weight'' \<mapsto> Mat ex_weight)"

text \<open>
  The small grid as the higher-dimensional grid of a fracture network: its right end
  face is coupled to the cell of the point grid.
\<close>

definition ex_dfn_edge :: data where
  "ex_dfn_edge = [''face_cells'' \<mapsto> Mat \<lparr>nrows = 1, ncols = 3, trip = [(0, 2, 1)]\<rparr>]"

text \<open>What the coupling of the fracture network returns on the small grid.\<close>

definition ex_dfn_cc :: "spmat list list" where
  "ex_dfn_cc =
     [[\<lparr>nrows = 2, ncols = 2, trip = [(1, 1, 6)]\<rparr>,
       \<lparr>nrows = 2, ncols = 1, trip = [(1, 0, - 6)]\<rparr>],
      [\<lparr>nrows = 1, ncols = 2, trip = [(0, 1, - 6)]\<rparr>,
       \<lparr>nrows = 1, ncols = 1, trip = [(0, 0, 6)]\<rparr>]]"

definition ex_dfn_edge_after :: data where
  "ex_dfn_edge_after =
     ex_dfn_edge(''coupling_flux'' \<mapsto>
                   Mat \<lparr>nrows = 3, ncols = 3,
                        trip = [(0, 0, 0), (0, 1, 0), (1, 0, 0), (1, 1, 0), (2, 0, 0), (2, 1, 6),
                                (0, 2, 0), (1, 2, 0), (2, 2, - 6)]\<rparr>,
                 ''coupling_discretization'' \<mapsto> Blocks ex_dfn_cc)"

text \<open>
  A skewed cell: one cell with its centre at the origin and one face, with normal
  along the first axis and face centre at \<open>(1, - 1, 0)\<close>, coupled to the cell of the
  point grid. The permeability is symmetric and positive definite, with rows
  \<open>(2, 3, 0)\<close>, \<open>(3, 5, 0)\<close> and \<open>(0, 0, 1)\<close>.
\<close>

definition skew_grid :: grid where
  "skew_grid =
     \<lparr>dim = 2, num_cells = 1, num_faces = 1,
      cell_faces = \<lparr>nrows = 1, ncols = 1, trip = [(0, 0, 1)]\<rparr>,
      face_normals = [(1, 0, 0)],
      face_centers = [(1, - 1, 0)],
      cell_centers = [(0, 0, 0)],
      face_areas = [1],
      boundary_faces = [0]\<rparr>"

definition skew_param :: param where
  "skew_param =
     \<lparr>perm = [((2, 3, 0), (3, 5, 0), (0, 0, 1))],
      is_dir = [False], is_neu = [True], aperture = Some [1], bc_val = [0]\<rparr>"

definition skew_data :: data where
  "skew_data = [''param'' \<mapsto> Par skew_param]"

definition skew_edge :: data where
  "skew_edge = [''face_cells'' \<mapsto> Mat \<lparr>nrows = 1, ncols = 1, trip = [(0, 0, 1)]\<rparr>]"

text \<open>What the coupling of the fracture network returns on the skewed cell.\<close>

definition skew_cc :: "spmat list list" where
  "skew_cc =
     [[\<lparr>nrows = 1, ncols = 1, trip = [(0, 0, - (1 / 2))]\<rparr>,
       \<lparr>nrows = 1, ncols = 1, trip = [(0, 0, 1 / 2)]\<rparr>],
      [\<lparr>nrows = 1, ncols = 1, trip = [(0, 0, 1 / 2)]\<rparr>,
       \<lparr>nrows = 1, ncols = 1, trip = [(0, 0, - (1 / 2))]\<rparr>]]"

definition skew_edge_after :: data where
  "skew_edge_after =
     skew_edge(''coupling_flux'' \<mapsto>
                 Mat \<lparr>nrows = 1, ncols = 2, trip = [(0, 0, - (1 / 2)), (0, 1, 1 / 2)]\<rparr>,
               ''coupling_discretization'' \<mapsto> Blocks skew_cc)"

section \<open>Properties\<close>

lemma thenE_Inr [simp]: "thenE (Inr x) f = f x"
  by (simp add: thenE_def)

lemma thenE_Inl [simp]: "thenE (Inl e) f = Inl e"
  by (simp add: thenE_def)

lemma lookup_Some [simp]: "d key = Some v \<Longrightarrow> lookup d key = Inr v"
  by (simp add: lookup_def)

lemma lookup_None [simp]: "d key = None \<Longrightarrow> lookup d key = Inl (KeyError key)"
  by (simp add: lookup_def)

subsection \<open>Extended numbers\<close>

lemma is_fin_conv: "is_fin x \<longleftrightarrow> (\<exists>v. x = Fin v)"
  by (cases x) simp_all

lemma x_add_zero [simp]: "x_add (Fin 0) y = y"
  by (cases y) simp_all

lemma x_sum_simps [simp]:
  "x_sum [] = Fin 0" "x_sum [a] = a" "x_sum [a, b] = x_add a b"
  by (simp_all add: x_sum_def)

lemma is_fin_x_times:
  assumes "is_fin (x_times x s)"
  shows "is_fin x"
  using assms by (cases x) (simp_all split: if_splits)

lemma is_fin_x_uminus [simp]: "is_fin (x_uminus x) = is_fin x"
  by (cases x) simp_all

lemma x_recip_recip:
  assumes "is_fin (x_recip (x_recip x))"
  shows "x_recip (x_recip x) = x"
  using assms by (cases x) (simp_all add: x_div_def)

lemma x_neg_recip_recip:
  assumes "is_fin (x_neg_recip (x_recip (x_recip x)))"
  shows "x \<noteq> NaN \<and> x \<noteq> Fin 0 \<and>
         fin_of (x_neg_recip (x_recip (x_recip x))) = (case x of Fin v \<Rightarrow> - 1 / v | _ \<Rightarrow> 0)"
  using assms by (cases x) (simp_all add: x_div_def split: if_splits)

lemma fin_of_x_times:
  assumes "is_fin x"
  shows "fin_of (x_times x s) = fin_of x * s"
  using assms by (cases x) simp_all

subsection \<open>The stages of \<^verbatim>\<open>Tpfa.discretize\<close>\<close>

lemma discretize_dim0:
  assumes "d ''param'' = Some (Par p)" "dim g = 0"
  shows "discretize g d faces = Inr (d(''flux'' \<mapsto> Mat (zeros_m 1 1), ''bound_flux'' \<mapsto> Num 0))"
  using assms by (simp add: discretize_def)

lemma store_m_Mat [simp]: "store_m vs M = Mat F \<longleftrightarrow> list_all is_fin vs \<and> F = M"
  by (auto simp add: store_m_def)

lemma store_m_fin: "list_all is_fin vs \<Longrightarrow> store_m vs M = Mat M"
  by (simp add: store_m_def)

lemma discretize_InrD:
  assumes "discretize g d faces = Inr d'" "dim g \<noteq> 0"
  shows "\<exists>p aav. d ''param'' = Some (Par p) \<and>
           get_flag d ''Aavatsmark_transmissibilities'' = Inr aav \<and>
           index_fit g p faces \<and> mask_fit g p \<and>
           d' = d(''flux'' \<mapsto> store_m (flux_data g p faces aav) (flux_m g p faces aav),
                  ''bound_flux'' \<mapsto> store_m (bound_flux_data g p aav) (bound_flux_m g p aav),
                  ''bound_pressure_cell'' \<mapsto> Mat (bound_pressure_cell_m g p),
                  ''bound_pressure_face'' \<mapsto>
                    store_m (v_face g p aav) (bound_pressure_face_m g p aav))"
  using assms
  by (auto simp add: discretize_def lookup_def thenE_def
      split: option.splits val.splits sum.splits if_splits)

lemma dot3_eq: "sum3 (mul3 u v) = dot3 u v"
  by (cases u, cases v) simp

lemma sq3_eq: "sum3 (sq3 v) = dot3 v v"
  by (cases v) (simp add: power2_eq_square)

lemma contract_eq: "contract K n = mat3_vec K n"
  by (cases K, cases n) (simp add: dot3_eq)

lemma t_face_nth:
  assumes "k < length (incid g)"
  shows "t_face g p aav ! k =
    (if aav
     then x_div
            (sqrt (dot3 (mat3_vec (perm p ! fst (snd (incid g ! k))) (scaled_normal g p (incid g ! k)))
                     (mat3_vec (perm p ! fst (snd (incid g ! k))) (scaled_normal g p (incid g ! k)))))
            (sqrt (dot3 (fc_cc g (incid g ! k)) (fc_cc g (incid g ! k))))
     else x_div
            (dot3 (mat3_vec (perm p ! fst (snd (incid g ! k))) (scaled_normal g p (incid g ! k)))
               (fc_cc g (incid g ! k)))
            (dot3 (fc_cc g (incid g ! k)) (fc_cc g (incid g ! k))))"
  using assms
  by (cases "incid g ! k")
     (simp add: t_face_def t_face_num_def dist_face_cell_def nk_def norm3_def dot3_eq sq3_eq
        contract_eq)

lemma bincount_nth:
  assumes "f < bincount_len idx"
  shows "bincount idx w ! f = x_sum (map (\<lambda>k. w ! k) (positions idx f))"
  using assms by (simp add: bincount_def positions_def)

lemma positions_mem: "k \<in> set (positions idx f) \<longleftrightarrow> k < length idx \<and> idx ! k = f"
  by (auto simp add: positions_def)

lemma lt_bincount_len:
  assumes "k < length idx"
  shows "idx ! k < bincount_len idx"
proof -
  have "idx ! k \<in> set idx" using assms by simp
  then have "idx ! k \<le> Max (set idx)" by simp
  moreover have "idx \<noteq> []" using assms by auto
  ultimately show ?thesis by (simp add: bincount_len_def)
qed

lemma length_incid_lists [simp]:
  "length (fi g) = length (incid g)" "length (ci g) = length (incid g)"
  "length (sgn_of g) = length (incid g)" "length (t_face g p aav) = length (incid g)"
  by (simp_all add: fi_def ci_def sgn_of_def t_face_def rows_of_def cols_of_def vals_of_def)

lemma length_t_full [simp]: "length (t_full g p aav) = bincount_len (fi g)"
  by (simp add: t_full_def bincount_def)

lemma t_full_nth:
  assumes "f < bincount_len (fi g)"
  shows "t_full g p aav ! f =
           x_recip (x_sum (map (\<lambda>k. x_recip (t_face g p aav ! k)) (positions (fi g) f)))"
proof -
  let ?w = "map x_recip (t_face g p aav)"
  have e1: "t_full g p aav ! f = x_recip (bincount (fi g) ?w ! f)"
    using assms by (simp add: t_full_def bincount_def)
  have e2: "bincount (fi g) ?w ! f = x_sum (map (\<lambda>k. ?w ! k) (positions (fi g) f))"
    using assms by (rule bincount_nth)
  have e3: "map (\<lambda>k. ?w ! k) (positions (fi g) f) =
            map (\<lambda>k. x_recip (t_face g p aav ! k)) (positions (fi g) f)"
    by (rule map_cong) (auto simp add: positions_mem)
  show ?thesis by (simp only: e1 e2 e3)
qed

lemma t_full_single:
  assumes "positions (fi g) f = [k]"
  shows "t_full g p aav ! f = x_recip (x_recip (t_face g p aav ! k))"
proof -
  have "k \<in> set (positions (fi g) f)" using assms by simp
  then have "k < length (fi g)" "fi g ! k = f" by (simp_all add: positions_mem)
  then have "f < bincount_len (fi g)" using lt_bincount_len [of k "fi g"] by simp
  then show ?thesis using t_full_nth [of f g p aav] assms by simp
qed

lemma length_is_not_active [simp]: "length (is_not_active g faces) = num_faces g"
  by (simp add: is_not_active_def set_idx_def split: option.splits)

lemma t_flux_nth:
  assumes "f < bincount_len (fi g)" "bincount_len (fi g) = num_faces g"
    "length (is_neu p) = num_faces g"
  shows "t_flux g p faces aav ! f =
           (if is_neu p ! f \<or> is_not_active g faces ! f then Fin 0 else t_full g p aav ! f)"
  using assms by (simp add: t_flux_def set_mask_def)

lemma length_t_flux [simp]: "length (t_flux g p faces aav) = bincount_len (fi g)"
  by (simp add: t_flux_def set_mask_def)

lemma length_flux_data [simp]: "length (flux_data g p faces aav) = length (incid g)"
  by (simp add: flux_data_def take_idx_def)

lemma flux_data_nth:
  assumes "k < length (incid g)"
  shows "flux_data g p faces aav ! k = x_times (t_flux g p faces aav ! (fi g ! k)) (sgn_of g ! k)"
  using assms by (simp add: flux_data_def take_idx_def)

lemma trip_flux_nth:
  assumes "k < length (incid g)"
  shows "trip (flux_m g p faces aav) ! k =
           (fi g ! k, ci g ! k, fin_of (flux_data g p faces aav ! k))"
  using assms by (simp add: flux_m_def coo_matrix_infer_def coo_matrix_def)

lemma list_all_nth:
  assumes "list_all P xs" "k < length xs"
  shows "P (xs ! k)"
  using assms by (simp add: list_all_length)

lemma t_b_nth:
  assumes "j < length (boundary_faces g)" "boundary_faces g ! j < num_faces g"
    "bincount_len (fi g) = num_faces g"
  shows "t_b g p aav ! j =
           (if is_neu p ! (boundary_faces g ! j) then Fin 1
            else if is_dir p ! (boundary_faces g ! j)
                 then x_uminus (t_full g p aav ! (boundary_faces g ! j)) else Fin 0)"
  using assms by (simp add: t_b_def take_idx_def set_mask_def set_mask_from_def)

lemma length_t_b [simp]: "length (t_b g p aav) = length (boundary_faces g)"
  by (simp add: t_b_def take_idx_def)

lemma v_face_nth:
  assumes "f < num_faces g" "bincount_len (fi g) = num_faces g"
  shows "v_face g p aav ! f =
           (if is_neu p ! f then x_neg_recip (t_full g p aav ! f)
            else if is_dir p ! f then Fin 1 else Fin 0)"
  using assms by (simp add: v_face_def set_mask_from_def set_mask_def)

lemma length_v_face [simp]: "length (v_face g p aav) = num_faces g"
  by (simp add: v_face_def set_mask_from_def set_mask_def)

subsection \<open>The small grid, evaluated\<close>

lemma ex_incid: "incid ex_grid = [(0, 0, - 1), (1, 0, 1), (1, 1, - 1), (2, 1, 1)]"
  by (simp add: incid_def find_nz_def ex_grid_def)

lemma ex_fi: "fi ex_grid = [0, 1, 1, 2]"
  by (simp add: fi_def ex_incid rows_of_def)

lemma ex_ci: "ci ex_grid = [0, 0, 1, 1]"
  by (simp add: ci_def ex_incid cols_of_def)

lemma ex_sgn: "sgn_of ex_grid = [- 1, 1, - 1, 1]"
  by (simp add: sgn_of_def ex_incid vals_of_def)

lemma ex_t_face: "t_face ex_grid ex_param False = [Fin 2, Fin 2, Fin 6, Fin 6]"
  by (simp add: t_face_def ex_incid)
     (simp add: t_face_num_def dist_face_cell_def nk_def fc_cc_def x_div_def
      scaled_normal_def ex_grid_def ex_param_def power2_eq_square)

lemma ex_t_face_aav: "t_face ex_grid ex_param True = [Fin 2, Fin 2, Fin 6, Fin 6]"
  by (simp add: t_face_def ex_incid)
     (simp add: t_face_num_def dist_face_cell_def nk_def fc_cc_def x_div_def
      scaled_normal_def ex_grid_def ex_param_def norm3_def real_sqrt_divide)

lemma upt4: "[0..<4] = [0, 1, 2, 3]" by (simp add: upt_rec)
lemma upt3: "[0..<3] = [0, 1, 2]" by (simp add: upt_rec)
lemma upt2: "[0..<2] = [0, 1]" by (simp add: upt_rec)

lemma ex_bincount:
  "bincount (fi ex_grid) [Fin (1 / 2), Fin (1 / 2), Fin (1 / 6), Fin (1 / 6)] =
     [Fin (1 / 2), Fin (2 / 3), Fin (1 / 6)]"
  by (simp add: bincount_def bincount_len_def ex_fi upt4 upt3)

lemma ex_t_full: "t_full ex_grid ex_param False = [Fin 2, Fin (3 / 2), Fin 6]"
  by (simp add: t_full_def ex_t_face x_div_def ex_bincount)

lemma ex_bndr_sgn: "bndr_sgn ex_grid = [- 1, 1]"
  by (simp add: bndr_sgn_def row_select_def positions_def argsort_def rows_of_def vals_of_def
      take_idx_def ex_grid_def upt2)

lemma ex_t_flux: "t_flux ex_grid ex_param None False = [Fin 2, Fin (3 / 2), Fin 0]"
  by (simp add: t_flux_def ex_t_full set_mask_def is_not_active_def upt3)
     (simp add: ex_param_def ex_grid_def)

lemma ex_t_flux_faces: "t_flux ex_grid ex_param (Some [0, 2]) False = [Fin 2, Fin 0, Fin 0]"
  by (simp add: t_flux_def ex_t_full set_mask_def is_not_active_def set_idx_def upt3)
     (simp add: ex_param_def ex_grid_def upt3)

lemma ex_flux_data:
  "flux_data ex_grid ex_param None False = [Fin (- 2), Fin (3 / 2), Fin (- (3 / 2)), Fin 0]"
  by (simp add: flux_data_def ex_t_flux ex_fi ex_sgn take_idx_def)

lemma ex_flux_data_faces:
  "flux_data ex_grid ex_param (Some [0, 2]) False = [Fin (- 2), Fin 0, Fin 0, Fin 0]"
  by (simp add: flux_data_def ex_t_flux_faces ex_fi ex_sgn take_idx_def)

lemma ex_flux_m:
  "flux_m ex_grid ex_param None False =
     \<lparr>nrows = 3, ncols = 2, trip = [(0, 0, - 2), (1, 0, 3 / 2), (1, 1, - (3 / 2)), (2, 1, 0)]\<rparr>"
  by (simp add: flux_m_def coo_matrix_infer_def coo_matrix_def ex_flux_data ex_fi ex_ci
      bincount_len_def)

lemma ex_t_b: "t_b ex_grid ex_param False = [Fin (- 2), Fin 1]"
  by (simp add: t_b_def ex_t_full set_mask_def set_mask_from_def take_idx_def)
     (simp add: ex_param_def ex_grid_def upt3)

lemma ex_bound_flux_data: "bound_flux_data ex_grid ex_param False = [Fin 2, Fin 1]"
  by (simp add: bound_flux_data_def ex_t_b ex_bndr_sgn)

lemma ex_bound_flux_m:
  "bound_flux_m ex_grid ex_param False = \<lparr>nrows = 3, ncols = 3, trip = [(0, 0, 2), (2, 2, 1)]\<rparr>"
  by (simp add: bound_flux_m_def coo_matrix_def ex_bound_flux_data) (simp add: ex_grid_def)

lemma ex_v_face: "v_face ex_grid ex_param False = [Fin 1, Fin 0, Fin (- (1 / 6))]"
  by (simp add: v_face_def ex_t_full set_mask_def set_mask_from_def x_div_def)
     (simp add: ex_param_def ex_grid_def upt3)

lemma ex_index_fit: "index_fit ex_grid ex_param None"
  by (simp add: index_fit_def ex_incid) (simp add: ex_grid_def ex_param_def)

lemma ex_finite:
  "list_all is_fin (flux_data ex_grid ex_param None False)"
  "list_all is_fin (flux_data ex_grid ex_param (Some [0, 2]) False)"
  "list_all is_fin (bound_flux_data ex_grid ex_param False)"
  "list_all is_fin (v_face ex_grid ex_param False)"
  by (simp_all add: ex_flux_data ex_flux_data_faces ex_bound_flux_data ex_v_face)

lemma ex_mask_fit: "mask_fit ex_grid ex_param"
  apply (simp add: mask_fit_def ex_incid ex_bndr_sgn ex_fi ex_ci bincount_len_def)
  apply (simp add: ex_grid_def ex_param_def)
  done

lemma ex_get_flag: "get_flag ex_data ''Aavatsmark_transmissibilities'' = Inr False"
  by (simp add: get_flag_def ex_data_def)

lemma ex_discretize:
  "discretize ex_grid ex_data None =
     Inr ex_discretized"
proof -
  have "ex_data ''param'' = Some (Par ex_param)" by (simp add: ex_data_def)
  moreover have "dim ex_grid \<noteq> 0" by (simp add: ex_grid_def)
  ultimately show ?thesis
    by (simp add: discretize_def ex_index_fit ex_finite store_m_fin ex_mask_fit ex_get_flag
        ex_discretized_def)
qed

subsection \<open>A cell without permeability\<close>

lemma tight_t_face: "t_face ex_grid tight_param False = [Fin 2, Fin 2, Fin 0, Fin 0]"
  by (simp add: t_face_def ex_incid)
     (simp add: t_face_num_def dist_face_cell_def nk_def fc_cc_def x_div_def
      scaled_normal_def ex_grid_def tight_param_def power2_eq_square)

lemma tight_bincount:
  "bincount (fi ex_grid) [Fin (1 / 2), Fin (1 / 2), PInf, PInf] = [Fin (1 / 2), PInf, PInf]"
  by (simp add: bincount_def bincount_len_def ex_fi upt4 upt3)

lemma tight_t_full: "t_full ex_grid tight_param False = [Fin 2, Fin 0, Fin 0]"
  by (simp add: t_full_def tight_t_face x_div_def tight_bincount)

lemma tight_flux_data:
  "flux_data ex_grid tight_param None False = [Fin (- 2), Fin 0, Fin 0, Fin 0]"
proof -
  have "t_flux ex_grid tight_param None False = [Fin 2, Fin 0, Fin 0]"
    by (simp add: t_flux_def tight_t_full set_mask_def is_not_active_def upt3)
       (simp add: tight_param_def ex_grid_def)
  then show ?thesis
    by (simp add: flux_data_def ex_fi ex_sgn take_idx_def)
qed

lemma tight_bound_flux_data: "bound_flux_data ex_grid tight_param False = [Fin 2, Fin 0]"
proof -
  have "t_b ex_grid tight_param False = [Fin (- 2), Fin 0]"
    by (simp add: t_b_def tight_t_full set_mask_def set_mask_from_def take_idx_def)
       (simp add: tight_param_def ex_grid_def upt3)
  then show ?thesis
    by (simp add: bound_flux_data_def ex_bndr_sgn)
qed

lemma tight_v_face: "v_face ex_grid tight_param False = [Fin 1, Fin 0, Fin 1]"
  by (simp add: v_face_def tight_t_full set_mask_def set_mask_from_def x_div_def)
     (simp add: tight_param_def ex_grid_def upt3)

lemma tight_finite:
  "list_all is_fin (flux_data ex_grid tight_param None False)"
  "list_all is_fin (bound_flux_data ex_grid tight_param False)"
  "list_all is_fin (v_face ex_grid tight_param False)"
  by (simp_all add: tight_flux_data tight_bound_flux_data tight_v_face)

lemma tight_fit:
  "index_fit ex_grid tight_param None" "mask_fit ex_grid tight_param"
  "get_flag tight_data ''Aavatsmark_transmissibilities'' = Inr False"
proof -
  show "index_fit ex_grid tight_param None"
    by (simp add: index_fit_def ex_incid) (simp add: ex_grid_def tight_param_def)
  show "mask_fit ex_grid tight_param"
    by (simp add: mask_fit_def ex_incid ex_bndr_sgn ex_fi ex_ci bincount_len_def)
       (simp add: ex_grid_def tight_param_def)
  show "get_flag tight_data ''Aavatsmark_transmissibilities'' = Inr False"
    by (simp add: get_flag_def tight_data_def)
qed

lemma tight_discretize: "discretize ex_grid tight_data None = Inr tight_discretized"
proof -
  have p: "tight_data ''param'' = Some (Par tight_param)" by (simp add: tight_data_def)
  have d: "dim ex_grid \<noteq> 0" by (simp add: ex_grid_def)
  have F: "flux_m ex_grid tight_param None False =
      \<lparr>nrows = 3, ncols = 2, trip = [(0, 0, - 2), (1, 0, 0), (1, 1, 0), (2, 1, 0)]\<rparr>"
    by (simp add: flux_m_def coo_matrix_infer_def coo_matrix_def tight_flux_data ex_fi ex_ci
        bincount_len_def)
  have B: "bound_flux_m ex_grid tight_param False =
      \<lparr>nrows = 3, ncols = 3, trip = [(0, 0, 2), (2, 2, 0)]\<rparr>"
    by (simp add: bound_flux_m_def coo_matrix_def tight_bound_flux_data) (simp add: ex_grid_def)
  have C: "bound_pressure_cell_m ex_grid tight_param =
      \<lparr>nrows = 3, ncols = 2, trip = [(0, 0, 0), (1, 0, 0), (1, 1, 0), (2, 1, 0)]\<rparr>"
    by (simp add: bound_pressure_cell_m_def coo_matrix_def v_cell_def set_mask_def take_idx_def
        ex_fi ex_ci upt4)
       (simp add: ex_grid_def tight_param_def)
  have V: "bound_pressure_face_m ex_grid tight_param False =
      \<lparr>nrows = 3, ncols = 3, trip = [(0, 0, 1), (1, 1, 0), (2, 2, 1)]\<rparr>"
    by (simp add: bound_pressure_face_m_def diags_def tight_v_face upt3)
  show ?thesis
    by (simp add: discretize_def p d tight_fit tight_finite store_m_fin F B C V
        tight_discretized_def)
qed

subsection \<open>A Neumann face without transmissibility\<close>

lemma sealed_t_face: "t_face ex_grid sealed_param False = [Fin 2, Fin 2, Fin 0, Fin 0]"
  by (simp add: t_face_def ex_incid)
     (simp add: t_face_num_def dist_face_cell_def nk_def fc_cc_def x_div_def
      scaled_normal_def ex_grid_def sealed_param_def power2_eq_square)

lemma sealed_t_full: "t_full ex_grid sealed_param False = [Fin 2, Fin 0, Fin 0]"
  by (simp add: t_full_def sealed_t_face x_div_def tight_bincount)

lemma sealed_flux_data:
  "flux_data ex_grid sealed_param None False = [Fin (- 2), Fin 0, Fin 0, Fin 0]"
proof -
  have "t_flux ex_grid sealed_param None False = [Fin 2, Fin 0, Fin 0]"
    by (simp add: t_flux_def sealed_t_full set_mask_def is_not_active_def upt3)
       (simp add: sealed_param_def ex_grid_def)
  then show ?thesis
    by (simp add: flux_data_def ex_fi ex_sgn take_idx_def)
qed

lemma sealed_bound_flux_data: "bound_flux_data ex_grid sealed_param False = [Fin 2, Fin 1]"
proof -
  have "t_b ex_grid sealed_param False = [Fin (- 2), Fin 1]"
    by (simp add: t_b_def sealed_t_full set_mask_def set_mask_from_def take_idx_def)
       (simp add: sealed_param_def ex_grid_def upt3)
  then show ?thesis
    by (simp add: bound_flux_data_def ex_bndr_sgn)
qed

lemma sealed_v_face: "v_face ex_grid sealed_param False = [Fin 1, Fin 0, MInf]"
  by (simp add: v_face_def sealed_t_full set_mask_def set_mask_from_def x_div_def)
     (simp add: sealed_param_def ex_grid_def upt3)

lemma sealed_fit:
  "index_fit ex_grid sealed_param None" "mask_fit ex_grid sealed_param"
  "get_flag sealed_data ''Aavatsmark_transmissibilities'' = Inr False"
proof -
  show "index_fit ex_grid sealed_param None"
    by (simp add: index_fit_def ex_incid) (simp add: ex_grid_def sealed_param_def)
  show "mask_fit ex_grid sealed_param"
    by (simp add: mask_fit_def ex_incid ex_bndr_sgn ex_fi ex_ci bincount_len_def)
       (simp add: ex_grid_def sealed_param_def)
  show "get_flag sealed_data ''Aavatsmark_transmissibilities'' = Inr False"
    by (simp add: get_flag_def sealed_data_def)
qed

lemma sealed_discretize: "discretize ex_grid sealed_data None = Inr sealed_discretized"
proof -
  have p: "sealed_data ''param'' = Some (Par sealed_param)" by (simp add: sealed_data_def)
  have d: "dim ex_grid \<noteq> 0" by (simp add: ex_grid_def)
  have F: "store_m (flux_data ex_grid sealed_param None False)
        (flux_m ex_grid sealed_param None False) =
      Mat \<lparr>nrows = 3, ncols = 2, trip = [(0, 0, - 2), (1, 0, 0), (1, 1, 0), (2, 1, 0)]\<rparr>"
    by (simp add: store_m_def flux_m_def coo_matrix_infer_def coo_matrix_def sealed_flux_data
        ex_fi ex_ci bincount_len_def)
  have B: "store_m (bound_flux_data ex_grid sealed_param False)
        (bound_flux_m ex_grid sealed_param False) =
      Mat \<lparr>nrows = 3, ncols = 3, trip = [(0, 0, 2), (2, 2, 1)]\<rparr>"
    by (simp add: store_m_def bound_flux_m_def coo_matrix_def sealed_bound_flux_data)
       (simp add: ex_grid_def)
  have C: "bound_pressure_cell_m ex_grid sealed_param =
      \<lparr>nrows = 3, ncols = 2, trip = [(0, 0, 0), (1, 0, 0), (1, 1, 0), (2, 1, 1)]\<rparr>"
    by (simp add: bound_pressure_cell_m_def coo_matrix_def v_cell_def set_mask_def take_idx_def
        ex_fi ex_ci upt4)
       (simp add: ex_grid_def sealed_param_def)
  have V: "store_m (v_face ex_grid sealed_param False)
        (bound_pressure_face_m ex_grid sealed_param False) = NotFinite 3 3"
    by (simp add: store_m_def sealed_v_face bound_pressure_face_m_def diags_def)
  show ?thesis
    by (simp add: discretize_def p d sealed_fit F B C V sealed_discretized_def)
qed

subsection \<open>Point grids\<close>

text \<open>
  Claim C9. On a grid of dimension zero, \<^verbatim>\<open>Tpfa.discretize\<close> returns at once, whatever
  the geometry holds: it stores the one-by-one zero matrix under \<^verbatim>\<open>flux\<close> and the scalar
  0 under \<^verbatim>\<open>bound_flux\<close>, and leaves every other key of the record as it was; in
  particular it writes neither \<^verbatim>\<open>bound_pressure_cell\<close> nor \<^verbatim>\<open>bound_pressure_face\<close>. The
  record holds the parameters under \<^verbatim>\<open>param\<close>, which the function reads first.
\<close>

theorem discretize_point_grid:
  assumes "dim g = 0" and "d ''param'' = Some (Par p)"
  shows "\<exists>d'. discretize g d faces = Inr d' \<and>
           d' ''flux'' = Some (Mat \<lparr>nrows = 1, ncols = 1, trip = []\<rparr>) \<and>
           d' ''bound_flux'' = Some (Num 0) \<and>
           d' ''bound_pressure_cell'' = d ''bound_pressure_cell'' \<and>
           d' ''bound_pressure_face'' = d ''bound_pressure_face'' \<and>
           (\<forall>key. key \<noteq> ''flux'' \<and> key \<noteq> ''bound_flux'' \<longrightarrow> d' key = d key)"
  using assms by (simp add: discretize_dim0 zeros_m_def)

theorem discretize_point_grid_witness:
  "dim pt_grid = 0 \<and> ex_data ''param'' = Some (Par ex_param) \<and>
   (\<exists>d'. discretize pt_grid ex_data None = Inr d' \<and>
      d' ''flux'' = Some (Mat \<lparr>nrows = 1, ncols = 1, trip = []\<rparr>) \<and>
      d' ''bound_flux'' = Some (Num 0) \<and>
      d' ''bound_pressure_cell'' = None \<and>
      d' ''bound_pressure_face'' = None)"
proof -
  have h1: "dim pt_grid = 0" by (simp add: pt_grid_def)
  have h2: "ex_data ''param'' = Some (Par ex_param)" by (simp add: ex_data_def)
  have h3: "ex_data ''bound_pressure_cell'' = None" "ex_data ''bound_pressure_face'' = None"
    by (simp_all add: ex_data_def)
  from discretize_point_grid [of pt_grid ex_data ex_param None] h1 h2 h3 show ?thesis by auto
qed

subsection \<open>Half-transmissibilities\<close>

text \<open>
  Claim C7. For every incidence \<open>(f, c, s)\<close> of the grid, with \<open>n\<close> the normal of \<open>f\<close>
  scaled by the aperture of \<open>c\<close> and by \<open>s\<close>, \<open>kn\<close> the permeability of \<open>c\<close> applied to
  \<open>n\<close>, and \<open>dv\<close> the vector from the centre of \<open>c\<close> to the centre of \<open>f\<close>, the
  half-transmissibility is: by default the scalar product of \<open>kn\<close> and \<open>dv\<close> divided
  by the squared length of \<open>dv\<close>; under the Aavatsmark policy the length of \<open>kn\<close>
  divided by the length of \<open>dv\<close>. The division is the one of numpy: with a
  displacement of length zero the value is \<^verbatim>\<open>inf\<close>, \<^verbatim>\<open>-inf\<close> or \<^verbatim>\<open>nan\<close>. The policy is the
  truth value of the key \<^verbatim>\<open>Aavatsmark_transmissibilities\<close>: on when it is \<^verbatim>\<open>True\<close>, off
  when the key is absent. Whenever the index arrays and masks fit, \<^verbatim>\<open>Tpfa.discretize\<close>
  on a grid of dimension at least one returns, and it stores the operators built from
  the half-transmissibilities of this policy.
\<close>

theorem half_transmissibility_policy:
  assumes "d ''param'' = Some (Par p)" and "dim g \<noteq> 0"
  shows "(d ''Aavatsmark_transmissibilities'' = None \<longrightarrow>
            get_flag d ''Aavatsmark_transmissibilities'' = Inr False) \<and>
         (d ''Aavatsmark_transmissibilities'' = Some (Flag True) \<longrightarrow>
            get_flag d ''Aavatsmark_transmissibilities'' = Inr True) \<and>
         (\<forall>aav k f c s. k < length (incid g) \<and> incid g ! k = (f, c, s) \<longrightarrow>
            t_face g p aav ! k =
              (let n = scale3 (case aperture p of
                                 None \<Rightarrow> face_normals g ! f
                               | Some a \<Rightarrow> scale3 (face_normals g ! f) (a ! c)) s;
                   dv = sub3 (face_centers g ! f) (cell_centers g ! c);
                   kn = mat3_vec (perm p ! c) n
               in if aav then x_div (sqrt (dot3 kn kn)) (sqrt (dot3 dv dv))
                  else x_div (dot3 kn dv) (dot3 dv dv))) \<and>
         (\<forall>aav. get_flag d ''Aavatsmark_transmissibilities'' = Inr aav \<and>
              index_fit g p faces \<and> mask_fit g p \<longrightarrow>
            discretize g d faces =
              Inr (d(''flux'' \<mapsto> store_m (flux_data g p faces aav) (flux_m g p faces aav),
                     ''bound_flux'' \<mapsto>
                       store_m (bound_flux_data g p aav) (bound_flux_m g p aav),
                     ''bound_pressure_cell'' \<mapsto> Mat (bound_pressure_cell_m g p),
                     ''bound_pressure_face'' \<mapsto>
                       store_m (v_face g p aav) (bound_pressure_face_m g p aav)))) \<and>
         (\<forall>d'. discretize g d faces = Inr d' \<longrightarrow>
            (\<exists>aav. get_flag d ''Aavatsmark_transmissibilities'' = Inr aav \<and>
               d' ''flux'' =
                 Some (store_m (flux_data g p faces aav) (flux_m g p faces aav)) \<and>
               d' ''bound_flux'' =
                 Some (store_m (bound_flux_data g p aav) (bound_flux_m g p aav)) \<and>
               d' ''bound_pressure_face'' =
                 Some (store_m (v_face g p aav) (bound_pressure_face_m g p aav))))"
proof -
  have a: "d ''Aavatsmark_transmissibilities'' = None \<longrightarrow>
            get_flag d ''Aavatsmark_transmissibilities'' = Inr False"
    by (simp add: get_flag_def)
  have b: "d ''Aavatsmark_transmissibilities'' = Some (Flag True) \<longrightarrow>
            get_flag d ''Aavatsmark_transmissibilities'' = Inr True"
    by (simp add: get_flag_def truthy_def)
  have c: "t_face g p aav ! k =
                (let n = scale3 (case aperture p of
                                   None \<Rightarrow> face_normals g ! f
                                 | Some a \<Rightarrow> scale3 (face_normals g ! f) (a ! c)) s;
                     dv = sub3 (face_centers g ! f) (cell_centers g ! c);
                     kn = mat3_vec (perm p ! c) n
                 in if aav then x_div (sqrt (dot3 kn kn)) (sqrt (dot3 dv dv))
                    else x_div (dot3 kn dv) (dot3 dv dv))"
    if "k < length (incid g)" "incid g ! k = (f, c, s)" for aav k f c s
    using t_face_nth [OF that(1), of p aav] that(2)
    by (simp add: scaled_normal_def fc_cc_def Let_def)
  have e: "discretize g d faces =
              Inr (d(''flux'' \<mapsto> store_m (flux_data g p faces aav) (flux_m g p faces aav),
                     ''bound_flux'' \<mapsto>
                       store_m (bound_flux_data g p aav) (bound_flux_m g p aav),
                     ''bound_pressure_cell'' \<mapsto> Mat (bound_pressure_cell_m g p),
                     ''bound_pressure_face'' \<mapsto>
                       store_m (v_face g p aav) (bound_pressure_face_m g p aav)))"
    if "get_flag d ''Aavatsmark_transmissibilities'' = Inr aav" "index_fit g p faces"
      "mask_fit g p" for aav
    using assms that by (simp add: discretize_def)
  have f: "\<exists>aav. get_flag d ''Aavatsmark_transmissibilities'' = Inr aav \<and>
               d' ''flux'' =
                 Some (store_m (flux_data g p faces aav) (flux_m g p faces aav)) \<and>
               d' ''bound_flux'' =
                 Some (store_m (bound_flux_data g p aav) (bound_flux_m g p aav)) \<and>
               d' ''bound_pressure_face'' =
                 Some (store_m (v_face g p aav) (bound_pressure_face_m g p aav))"
    if "discretize g d faces = Inr d'" for d'
  proof -
    from discretize_InrD [OF that assms(2)] assms(1) obtain aav where
      fl: "get_flag d ''Aavatsmark_transmissibilities'' = Inr aav" and
      d': "d' = d(''flux'' \<mapsto> store_m (flux_data g p faces aav) (flux_m g p faces aav),
                  ''bound_flux'' \<mapsto> store_m (bound_flux_data g p aav) (bound_flux_m g p aav),
                  ''bound_pressure_cell'' \<mapsto> Mat (bound_pressure_cell_m g p),
                  ''bound_pressure_face'' \<mapsto>
                    store_m (v_face g p aav) (bound_pressure_face_m g p aav))"
      by auto
    show ?thesis using fl by (intro exI [of _ aav]) (simp add: d')
  qed
  have C: "\<forall>aav k f c s. k < length (incid g) \<and> incid g ! k = (f, c, s) \<longrightarrow>
            t_face g p aav ! k =
              (let n = scale3 (case aperture p of
                                 None \<Rightarrow> face_normals g ! f
                               | Some a \<Rightarrow> scale3 (face_normals g ! f) (a ! c)) s;
                   dv = sub3 (face_centers g ! f) (cell_centers g ! c);
                   kn = mat3_vec (perm p ! c) n
               in if aav then x_div (sqrt (dot3 kn kn)) (sqrt (dot3 dv dv))
                  else x_div (dot3 kn dv) (dot3 dv dv))"
    using c by blast
  have E: "\<forall>aav. get_flag d ''Aavatsmark_transmissibilities'' = Inr aav \<and>
              index_fit g p faces \<and> mask_fit g p \<longrightarrow>
            discretize g d faces =
              Inr (d(''flux'' \<mapsto> store_m (flux_data g p faces aav) (flux_m g p faces aav),
                     ''bound_flux'' \<mapsto>
                       store_m (bound_flux_data g p aav) (bound_flux_m g p aav),
                     ''bound_pressure_cell'' \<mapsto> Mat (bound_pressure_cell_m g p),
                     ''bound_pressure_face'' \<mapsto>
                       store_m (v_face g p aav) (bound_pressure_face_m g p aav)))"
    using e by blast
  have F: "\<forall>d'. discretize g d faces = Inr d' \<longrightarrow>
            (\<exists>aav. get_flag d ''Aavatsmark_transmissibilities'' = Inr aav \<and>
               d' ''flux'' =
                 Some (store_m (flux_data g p faces aav) (flux_m g p faces aav)) \<and>
               d' ''bound_flux'' =
                 Some (store_m (bound_flux_data g p aav) (bound_flux_m g p aav)) \<and>
               d' ''bound_pressure_face'' =
                 Some (store_m (v_face g p aav) (bound_pressure_face_m g p aav)))"
    using f by blast
  show ?thesis using a b C E F by (intro conjI)
qed

theorem half_transmissibility_policy_witness:
  "tight_data ''param'' = Some (Par tight_param) \<and> dim ex_grid \<noteq> 0 \<and>
   tight_data ''Aavatsmark_transmissibilities'' = None \<and>
   get_flag tight_data ''Aavatsmark_transmissibilities'' = Inr False \<and>
   incid ex_grid ! 1 = (1, 0, 1) \<and> t_face ex_grid tight_param False ! 1 = Fin 2 \<and>
   incid ex_grid ! 3 = (2, 1, 1) \<and> t_face ex_grid tight_param False ! 3 = Fin 0 \<and>
   t_face ex_grid tight_param True ! 1 = Fin 2 \<and>
   index_fit ex_grid tight_param None \<and> mask_fit ex_grid tight_param \<and>
   discretize ex_grid tight_data None = Inr tight_discretized \<and>
   tight_discretized ''flux'' =
     Some (store_m (flux_data ex_grid tight_param None False)
             (flux_m ex_grid tight_param None False))"
proof -
  have h1: "tight_data ''param'' = Some (Par tight_param)" by (simp add: tight_data_def)
  have h2: "dim ex_grid \<noteq> 0" by (simp add: ex_grid_def)
  have h3: "tight_data ''Aavatsmark_transmissibilities'' = None" by (simp add: tight_data_def)
  note t = half_transmissibility_policy [of tight_data tight_param ex_grid None, OF h1 h2]
  from t h3 have fl: "get_flag tight_data ''Aavatsmark_transmissibilities'' = Inr False"
    by blast
  have i1: "1 < length (incid ex_grid) \<and> incid ex_grid ! 1 = (1, 0, 1)"
    and i3: "3 < length (incid ex_grid) \<and> incid ex_grid ! 3 = (2, 1, 1)"
    by (simp_all add: ex_incid)
  from t have c: "\<forall>aav k f c s. k < length (incid ex_grid) \<and> incid ex_grid ! k = (f, c, s) \<longrightarrow>
            t_face ex_grid tight_param aav ! k =
              (let n = scale3 (case aperture tight_param of
                                 None \<Rightarrow> face_normals ex_grid ! f
                               | Some a \<Rightarrow> scale3 (face_normals ex_grid ! f) (a ! c)) s;
                   dv = sub3 (face_centers ex_grid ! f) (cell_centers ex_grid ! c);
                   kn = mat3_vec (perm tight_param ! c) n
               in if aav then x_div (sqrt (dot3 kn kn)) (sqrt (dot3 dv dv))
                  else x_div (dot3 kn dv) (dot3 dv dv))"
    by (elim conjE)
  from c i1 have "t_face ex_grid tight_param False ! 1 =
              (let n = scale3 (case aperture tight_param of
                                 None \<Rightarrow> face_normals ex_grid ! 1
                               | Some a \<Rightarrow> scale3 (face_normals ex_grid ! 1) (a ! 0)) 1;
                   dv = sub3 (face_centers ex_grid ! 1) (cell_centers ex_grid ! 0);
                   kn = mat3_vec (perm tight_param ! 0) n
               in if False then x_div (sqrt (dot3 kn kn)) (sqrt (dot3 dv dv))
                  else x_div (dot3 kn dv) (dot3 dv dv))"
    by blast
  then have t1: "t_face ex_grid tight_param False ! 1 = Fin 2"
    by (simp add: ex_grid_def tight_param_def x_div_def)
  from c i3 have "t_face ex_grid tight_param False ! 3 =
              (let n = scale3 (case aperture tight_param of
                                 None \<Rightarrow> face_normals ex_grid ! 2
                               | Some a \<Rightarrow> scale3 (face_normals ex_grid ! 2) (a ! 1)) 1;
                   dv = sub3 (face_centers ex_grid ! 2) (cell_centers ex_grid ! 1);
                   kn = mat3_vec (perm tight_param ! 1) n
               in if False then x_div (sqrt (dot3 kn kn)) (sqrt (dot3 dv dv))
                  else x_div (dot3 kn dv) (dot3 dv dv))"
    by blast
  then have t3: "t_face ex_grid tight_param False ! 3 = Fin 0"
    by (simp add: ex_grid_def tight_param_def x_div_def)
  from c i1 have "t_face ex_grid tight_param True ! 1 =
              (let n = scale3 (case aperture tight_param of
                                 None \<Rightarrow> face_normals ex_grid ! 1
                               | Some a \<Rightarrow> scale3 (face_normals ex_grid ! 1) (a ! 0)) 1;
                   dv = sub3 (face_centers ex_grid ! 1) (cell_centers ex_grid ! 0);
                   kn = mat3_vec (perm tight_param ! 0) n
               in if True then x_div (sqrt (dot3 kn kn)) (sqrt (dot3 dv dv))
                  else x_div (dot3 kn dv) (dot3 dv dv))"
    by blast
  then have t1a: "t_face ex_grid tight_param True ! 1 = Fin 2"
    by (simp add: ex_grid_def tight_param_def x_div_def real_sqrt_divide)
  from t have "\<forall>aav. get_flag tight_data ''Aavatsmark_transmissibilities'' = Inr aav \<and>
              index_fit ex_grid tight_param None \<and> mask_fit ex_grid tight_param \<longrightarrow>
            discretize ex_grid tight_data None =
              Inr (tight_data(''flux'' \<mapsto>
                       store_m (flux_data ex_grid tight_param None aav)
                         (flux_m ex_grid tight_param None aav),
                     ''bound_flux'' \<mapsto>
                       store_m (bound_flux_data ex_grid tight_param aav)
                         (bound_flux_m ex_grid tight_param aav),
                     ''bound_pressure_cell'' \<mapsto> Mat (bound_pressure_cell_m ex_grid tight_param),
                     ''bound_pressure_face'' \<mapsto>
                       store_m (v_face ex_grid tight_param aav)
                         (bound_pressure_face_m ex_grid tight_param aav)))"
    by (elim conjE)
  with fl tight_fit(1,2) have run: "discretize ex_grid tight_data None =
              Inr (tight_data(''flux'' \<mapsto>
                       store_m (flux_data ex_grid tight_param None False)
                         (flux_m ex_grid tight_param None False),
                     ''bound_flux'' \<mapsto>
                       store_m (bound_flux_data ex_grid tight_param False)
                         (bound_flux_m ex_grid tight_param False),
                     ''bound_pressure_cell'' \<mapsto> Mat (bound_pressure_cell_m ex_grid tight_param),
                     ''bound_pressure_face'' \<mapsto>
                       store_m (v_face ex_grid tight_param False)
                         (bound_pressure_face_m ex_grid tight_param False)))"
    by blast
  then have "tight_discretized =
              tight_data(''flux'' \<mapsto>
                       store_m (flux_data ex_grid tight_param None False)
                         (flux_m ex_grid tight_param None False),
                     ''bound_flux'' \<mapsto>
                       store_m (bound_flux_data ex_grid tight_param False)
                         (bound_flux_m ex_grid tight_param False),
                     ''bound_pressure_cell'' \<mapsto> Mat (bound_pressure_cell_m ex_grid tight_param),
                     ''bound_pressure_face'' \<mapsto>
                       store_m (v_face ex_grid tight_param False)
                         (bound_pressure_face_m ex_grid tight_param False))"
    by (simp add: tight_discretize)
  then have st: "tight_discretized ''flux'' =
     Some (store_m (flux_data ex_grid tight_param None False)
             (flux_m ex_grid tight_param None False))"
    by (rule ssubst) simp
  show ?thesis
    using h1 h2 h3 fl i1 i3 t1 t3 t1a tight_fit(1,2) tight_discretize st
    by (intro conjI) simp_all
qed

subsection \<open>The harmonic average\<close>

text \<open>
  Claim C2. When the face \<open>f\<close> has exactly two incidences, at the positions \<open>k1\<close> and
  \<open>k2\<close> of the incidence list, with half-transmissibilities \<open>t1\<close> and \<open>t2\<close>, both
  nonzero, the transmissibility that line 226 of \<^verbatim>\<open>Tpfa.discretize\<close> assigns to \<open>f\<close> is
  \<open>1 / (1 / t1 + 1 / t2)\<close>: the reciprocals are grouped by face index and added, and the
  division is the one of numpy (the value is \<^verbatim>\<open>inf\<close> when the two reciprocals cancel).
  Nothing is assumed about the other faces. Line 238 then puts zero on a Neumann face
  and on a face that is not active; so a finite flux matrix stores for both incidences
  of \<open>f\<close> the sign of the incidence times the harmonic combination, or times zero on
  such a face.
\<close>

theorem harmonic_average:
  assumes "positions (fi g) f = [k1, k2]"
    and "t_face g p aav ! k1 = Fin t1" and "t_face g p aav ! k2 = Fin t2"
    and "t1 \<noteq> 0" and "t2 \<noteq> 0"
  shows "t_full g p aav ! f = x_div 1 (1 / t1 + 1 / t2) \<and>
         (1 / t1 + 1 / t2 \<noteq> 0 \<longrightarrow> t_full g p aav ! f = Fin (1 / (1 / t1 + 1 / t2))) \<and>
         (\<forall>d d' faces F. d ''param'' = Some (Par p) \<and> dim g \<noteq> 0 \<and>
              get_flag d ''Aavatsmark_transmissibilities'' = Inr aav \<and>
              discretize g d faces = Inr d' \<and> d' ''flux'' = Some (Mat F) \<longrightarrow>
            trip F ! k1 =
              (f, ci g ! k1,
               (if is_neu p ! f \<or> is_not_active g faces ! f then 0
                else 1 / (1 / t1 + 1 / t2)) * sgn_of g ! k1) \<and>
            trip F ! k2 =
              (f, ci g ! k2,
               (if is_neu p ! f \<or> is_not_active g faces ! f then 0
                else 1 / (1 / t1 + 1 / t2)) * sgn_of g ! k2))"
proof -
  have "k1 \<in> set (positions (fi g) f)" "k2 \<in> set (positions (fi g) f)"
    using assms(1) by simp_all
  then have k: "k1 < length (incid g)" "fi g ! k1 = f" "k2 < length (incid g)" "fi g ! k2 = f"
    by (simp_all add: positions_mem)
  then have f: "f < bincount_len (fi g)"
    using lt_bincount_len [of k1 "fi g"] by simp
  have h: "t_full g p aav ! f = x_div 1 (1 / t1 + 1 / t2)"
    using t_full_nth [OF f, of p aav] assms by (simp add: x_div_def)
  then have h': "1 / t1 + 1 / t2 \<noteq> 0 \<longrightarrow> t_full g p aav ! f = Fin (1 / (1 / t1 + 1 / t2))"
    by (simp add: x_div_def)
  have st: "trip F ! k1 =
              (f, ci g ! k1,
               (if is_neu p ! f \<or> is_not_active g faces ! f then 0
                else 1 / (1 / t1 + 1 / t2)) * sgn_of g ! k1) \<and>
            trip F ! k2 =
              (f, ci g ! k2,
               (if is_neu p ! f \<or> is_not_active g faces ! f then 0
                else 1 / (1 / t1 + 1 / t2)) * sgn_of g ! k2)"
    if "d ''param'' = Some (Par p)" "dim g \<noteq> 0"
      "get_flag d ''Aavatsmark_transmissibilities'' = Inr aav"
      "discretize g d faces = Inr d'" "d' ''flux'' = Some (Mat F)" for d d' faces F
  proof -
    from discretize_InrD [OF that(4,2)] that(1,3) have
      msk: "mask_fit g p" and
      d': "d' = d(''flux'' \<mapsto> store_m (flux_data g p faces aav) (flux_m g p faces aav),
                  ''bound_flux'' \<mapsto> store_m (bound_flux_data g p aav) (bound_flux_m g p aav),
                  ''bound_pressure_cell'' \<mapsto> Mat (bound_pressure_cell_m g p),
                  ''bound_pressure_face'' \<mapsto>
                    store_m (v_face g p aav) (bound_pressure_face_m g p aav))"
      by auto
    have "store_m (flux_data g p faces aav) (flux_m g p faces aav) = Mat F"
      using that(5) by (simp add: d')
    then have fin: "list_all is_fin (flux_data g p faces aav)"
      and F: "F = flux_m g p faces aav"
      by simp_all
    have len: "bincount_len (fi g) = num_faces g" "length (is_neu p) = num_faces g"
      using msk by (simp_all add: mask_fit_def)
    let ?h = "if is_neu p ! f \<or> is_not_active g faces ! f then 0 else 1 / (1 / t1 + 1 / t2)"
    have val: "fin_of (flux_data g p faces aav ! k) = ?h * sgn_of g ! k"
      if kk: "k < length (incid g)" "fi g ! k = f" for k
    proof (cases "is_neu p ! f \<or> is_not_active g faces ! f")
      case True
      then have "t_flux g p faces aav ! f = Fin 0"
        by (simp add: t_flux_nth [OF f len])
      then show ?thesis using True kk by (simp add: flux_data_nth)
    next
      case False
      then have tf: "t_flux g p faces aav ! f = x_div 1 (1 / t1 + 1 / t2)"
        by (simp add: t_flux_nth [OF f len] h)
      have "is_fin (flux_data g p faces aav ! k)"
        using fin kk(1) by (simp add: list_all_length)
      then have "is_fin (x_times (x_div 1 (1 / t1 + 1 / t2)) (sgn_of g ! k))"
        using kk by (simp add: flux_data_nth tf)
      then have "is_fin (x_div 1 (1 / t1 + 1 / t2))" by (rule is_fin_x_times)
      then have "1 / t1 + 1 / t2 \<noteq> 0"
        by (auto simp add: x_div_def split: if_splits)
      then have "x_div 1 (1 / t1 + 1 / t2) = Fin (1 / (1 / t1 + 1 / t2))"
        by (simp add: x_div_def)
      then show ?thesis using False kk by (simp add: flux_data_nth tf)
    qed
    have "trip (flux_m g p faces aav) ! k1 = (f, ci g ! k1, ?h * sgn_of g ! k1)"
      using trip_flux_nth [OF k(1), of p faces aav] val [OF k(1,2)] k(2) by simp
    moreover have "trip (flux_m g p faces aav) ! k2 = (f, ci g ! k2, ?h * sgn_of g ! k2)"
      using trip_flux_nth [OF k(3), of p faces aav] val [OF k(3,4)] k(4) by simp
    ultimately show ?thesis
      by (simp add: F)
  qed
  have S: "\<forall>d d' faces F. d ''param'' = Some (Par p) \<and> dim g \<noteq> 0 \<and>
              get_flag d ''Aavatsmark_transmissibilities'' = Inr aav \<and>
              discretize g d faces = Inr d' \<and> d' ''flux'' = Some (Mat F) \<longrightarrow>
            trip F ! k1 =
              (f, ci g ! k1,
               (if is_neu p ! f \<or> is_not_active g faces ! f then 0
                else 1 / (1 / t1 + 1 / t2)) * sgn_of g ! k1) \<and>
            trip F ! k2 =
              (f, ci g ! k2,
               (if is_neu p ! f \<or> is_not_active g faces ! f then 0
                else 1 / (1 / t1 + 1 / t2)) * sgn_of g ! k2)"
    using st by blast
  show ?thesis using h h' S by (intro conjI)
qed

lemma ex_positions_1: "positions (fi ex_grid) 1 = [1, 2]"
  by (simp add: positions_def ex_fi upt4)

lemma ex_index_fit_faces: "index_fit ex_grid ex_param (Some [0, 2])"
  by (simp add: index_fit_def ex_incid) (simp add: ex_grid_def ex_param_def)

lemma ex_discretize_faces:
  "discretize ex_grid ex_data (Some [0, 2]) =
     Inr (ex_data(''flux'' \<mapsto> Mat (flux_m ex_grid ex_param (Some [0, 2]) False),
                  ''bound_flux'' \<mapsto> Mat (bound_flux_m ex_grid ex_param False),
                  ''bound_pressure_cell'' \<mapsto> Mat (bound_pressure_cell_m ex_grid ex_param),
                  ''bound_pressure_face'' \<mapsto> Mat (bound_pressure_face_m ex_grid ex_param False)))"
proof -
  have "ex_data ''param'' = Some (Par ex_param)" by (simp add: ex_data_def)
  moreover have "dim ex_grid \<noteq> 0" by (simp add: ex_grid_def)
  ultimately show ?thesis
    by (simp add: discretize_def ex_index_fit_faces ex_finite store_m_fin ex_mask_fit
        ex_get_flag)
qed

theorem harmonic_average_witness:
  "positions (fi ex_grid) 1 = [1, 2] \<and>
   t_face ex_grid ex_param False ! 1 = Fin 2 \<and> t_face ex_grid ex_param False ! 2 = Fin 6 \<and>
   t_full ex_grid ex_param False ! 1 = Fin (3 / 2) \<and>
   ex_data ''param'' = Some (Par ex_param) \<and> dim ex_grid \<noteq> 0 \<and>
   get_flag ex_data ''Aavatsmark_transmissibilities'' = Inr False \<and>
   discretize ex_grid ex_data None = Inr ex_discretized \<and>
   ex_discretized ''flux'' = Some (Mat (flux_m ex_grid ex_param None False)) \<and>
   trip (flux_m ex_grid ex_param None False) ! 1 = (1, 0, 3 / 2) \<and>
   trip (flux_m ex_grid ex_param None False) ! 2 = (1, 1, - (3 / 2)) \<and>
   discretize ex_grid ex_data (Some [0, 2]) =
     Inr (ex_data(''flux'' \<mapsto> Mat (flux_m ex_grid ex_param (Some [0, 2]) False),
                  ''bound_flux'' \<mapsto> Mat (bound_flux_m ex_grid ex_param False),
                  ''bound_pressure_cell'' \<mapsto> Mat (bound_pressure_cell_m ex_grid ex_param),
                  ''bound_pressure_face'' \<mapsto> Mat (bound_pressure_face_m ex_grid ex_param False))) \<and>
   trip (flux_m ex_grid ex_param (Some [0, 2]) False) ! 1 = (1, 0, 0)"
proof -
  let ?d2 = "ex_data(''flux'' \<mapsto> Mat (flux_m ex_grid ex_param (Some [0, 2]) False),
                  ''bound_flux'' \<mapsto> Mat (bound_flux_m ex_grid ex_param False),
                  ''bound_pressure_cell'' \<mapsto> Mat (bound_pressure_cell_m ex_grid ex_param),
                  ''bound_pressure_face'' \<mapsto> Mat (bound_pressure_face_m ex_grid ex_param False))"
  have h2: "dim ex_grid \<noteq> 0" by (simp add: ex_grid_def)
  have h3: "ex_data ''param'' = Some (Par ex_param)" by (simp add: ex_data_def)
  have t12: "t_face ex_grid ex_param False ! 1 = Fin 2" "t_face ex_grid ex_param False ! 2 = Fin 6"
    by (simp_all add: ex_t_face)
  have nz: "(2 :: real) \<noteq> 0" "(6 :: real) \<noteq> 0" by simp_all
  note t = harmonic_average [of ex_grid 1 1 2 ex_param False 2 6, OF ex_positions_1 t12 nz]
  from t have a: "t_full ex_grid ex_param False ! 1 = x_div 1 (1 / 2 + 1 / 6)"
    by (elim conjE)
  then have a': "t_full ex_grid ex_param False ! 1 = Fin (3 / 2)"
    by (simp add: x_div_def)
  from t have s: "\<forall>d d' faces F. d ''param'' = Some (Par ex_param) \<and> dim ex_grid \<noteq> 0 \<and>
              get_flag d ''Aavatsmark_transmissibilities'' = Inr False \<and>
              discretize ex_grid d faces = Inr d' \<and> d' ''flux'' = Some (Mat F) \<longrightarrow>
            trip F ! 1 =
              (1, ci ex_grid ! 1,
               (if is_neu ex_param ! 1 \<or> is_not_active ex_grid faces ! 1 then 0
                else 1 / (1 / 2 + 1 / 6)) * sgn_of ex_grid ! 1) \<and>
            trip F ! 2 =
              (1, ci ex_grid ! 2,
               (if is_neu ex_param ! 1 \<or> is_not_active ex_grid faces ! 1 then 0
                else 1 / (1 / 2 + 1 / 6)) * sgn_of ex_grid ! 2)"
    by (elim conjE)
  have act: "\<not> is_neu ex_param ! 1" "\<not> is_not_active ex_grid None ! 1"
    "is_not_active ex_grid (Some [0, 2]) ! 1"
    by (simp_all add: ex_param_def is_not_active_def set_idx_def ex_grid_def upt3)
  have k1: "ex_discretized ''flux'' = Some (Mat (flux_m ex_grid ex_param None False))"
    by (simp add: ex_discretized_def)
  have k2: "?d2 ''flux'' = Some (Mat (flux_m ex_grid ex_param (Some [0, 2]) False))"
    by simp
  from s h3 h2 ex_get_flag ex_discretize k1 have
    F: "trip (flux_m ex_grid ex_param None False) ! 1 =
              (1, ci ex_grid ! 1,
               (if is_neu ex_param ! 1 \<or> is_not_active ex_grid None ! 1 then 0
                else 1 / (1 / 2 + 1 / 6)) * sgn_of ex_grid ! 1) \<and>
        trip (flux_m ex_grid ex_param None False) ! 2 =
              (1, ci ex_grid ! 2,
               (if is_neu ex_param ! 1 \<or> is_not_active ex_grid None ! 1 then 0
                else 1 / (1 / 2 + 1 / 6)) * sgn_of ex_grid ! 2)"
    by blast
  have F': "trip (flux_m ex_grid ex_param None False) ! 1 = (1, 0, 3 / 2)"
    "trip (flux_m ex_grid ex_param None False) ! 2 = (1, 1, - (3 / 2))"
    using F act by (simp_all add: ex_ci ex_sgn)
  from s h3 h2 ex_get_flag ex_discretize_faces k2 have
    "trip (flux_m ex_grid ex_param (Some [0, 2]) False) ! 1 =
              (1, ci ex_grid ! 1,
               (if is_neu ex_param ! 1 \<or> is_not_active ex_grid (Some [0, 2]) ! 1 then 0
                else 1 / (1 / 2 + 1 / 6)) * sgn_of ex_grid ! 1) \<and>
     trip (flux_m ex_grid ex_param (Some [0, 2]) False) ! 2 =
              (1, ci ex_grid ! 2,
               (if is_neu ex_param ! 1 \<or> is_not_active ex_grid (Some [0, 2]) ! 1 then 0
                else 1 / (1 / 2 + 1 / 6)) * sgn_of ex_grid ! 2)"
    by blast
  then have F2': "trip (flux_m ex_grid ex_param (Some [0, 2]) False) ! 1 = (1, 0, 0)"
    using act by (simp add: ex_ci)
  show ?thesis
    using ex_positions_1 t12 a' h3 h2 ex_get_flag ex_discretize k1 F' ex_discretize_faces F2'
    by (intro conjI)
qed

lemma filter_upt_eq: "filter (\<lambda>k. k = i) [0..<n] = (if i < n then [i] else [])"
  by (induction n) auto

lemma entry_diags: "entry (diags v) i j = (if i = j \<and> i < length v then v ! i else 0)"
proof -
  have "filter (\<lambda>(r, c, x). r = i \<and> c = j) (map (\<lambda>k. (k, k, v ! k)) [0..<length v]) =
        map (\<lambda>k. (k, k, v ! k)) (filter (\<lambda>k. k = i \<and> k = j) [0..<length v])"
    by (simp add: filter_map comp_def)
  also have "filter (\<lambda>k. k = i \<and> k = j) [0..<length v] =
             (if i = j then filter (\<lambda>k. k = i) [0..<length v] else [])"
    by (auto intro: filter_cong simp add: filter_empty_conv)
  finally show ?thesis
    by (simp add: entry_def diags_def filter_upt_eq)
qed

lemma sum_list_delta:
  fixes a :: "nat \<Rightarrow> real"
  assumes "i < n"
  shows "sum_list (map (\<lambda>k. (if i = k then a k else 0)) [0..<n]) = a i"
  using assms by (simp add: interv_sum_list_conv_sum_set_nat)

lemma zip3_conv:
  assumes "length rs = n" "length cs = n" "length d = n"
  shows "zip rs (zip cs d) = map (\<lambda>k. (rs ! k, cs ! k, d ! k)) [0..<n]"
  using assms by (simp add: list_eq_iff_nth_eq)

lemma entry_coo:
  assumes "length cs = length rs" "length d = length rs"
  shows "entry (coo_matrix d rs cs m n) i j =
           sum_list (map (\<lambda>k. d ! k) (filter (\<lambda>k. rs ! k = i \<and> cs ! k = j) [0..<length rs]))"
  using assms
  by (simp add: entry_def coo_matrix_def zip3_conv [of rs "length rs" cs d] filter_map comp_def)

lemma filter_nth_upt:
  "map (\<lambda>k. xs ! k) (filter (\<lambda>k. P (xs ! k)) [0..<length xs]) = filter P xs"
proof -
  have "filter P xs = filter P (map (\<lambda>k. xs ! k) [0..<length xs])"
    by (simp add: map_nth)
  then show ?thesis by (simp add: filter_map comp_def)
qed

lemma length_filter_nth_upt:
  "length (filter (\<lambda>k. P (xs ! k)) [0..<length xs]) = length (filter P xs)"
  using arg_cong [OF filter_nth_upt [of xs P], of length] by simp

lemma distinct_filter_key:
  assumes "distinct (map g xs)"
  shows "length (filter (\<lambda>x. g x = a) xs) = (if a \<in> g ` set xs then 1 else 0)"
  using assms by (induction xs) (auto simp add: filter_empty_conv image_iff)

lemma incid_nth_split:
  assumes "k < length (incid g)"
  shows "incid g ! k = (fi g ! k, ci g ! k, sgn_of g ! k)"
  using assms
  by (cases "incid g ! k") (simp add: fi_def ci_def sgn_of_def rows_of_def cols_of_def vals_of_def)

lemma count_incid_pos:
  assumes "distinct (map (\<lambda>(f, c, s). (f, c)) (incid g))"
  shows "length (filter (\<lambda>k. fi g ! k = f \<and> ci g ! k = c) [0..<length (incid g)]) =
           (if \<exists>s. (f, c, s) \<in> set (incid g) then 1 else 0)"
proof -
  let ?P = "\<lambda>x. (\<lambda>(f, c, s). (f, c)) x = (f, c)"
  have "filter (\<lambda>k. fi g ! k = f \<and> ci g ! k = c) [0..<length (incid g)] =
        filter (\<lambda>k. ?P (incid g ! k)) [0..<length (incid g)]"
    by (rule filter_cong) (auto simp add: incid_nth_split)
  then have "length (filter (\<lambda>k. fi g ! k = f \<and> ci g ! k = c) [0..<length (incid g)]) =
             length (filter ?P (incid g))"
    using length_filter_nth_upt [of ?P "incid g"] by simp
  also have "\<dots> = (if (f, c) \<in> (\<lambda>(f, c, s). (f, c)) ` set (incid g) then 1 else 0)"
    using assms by (rule distinct_filter_key)
  also have "(f, c) \<in> (\<lambda>(f, c, s). (f, c)) ` set (incid g) \<longleftrightarrow> (\<exists>s. (f, c, s) \<in> set (incid g))"
    by (auto simp add: image_iff) force
  finally show ?thesis .
qed

lemma v_cell_nth:
  assumes "k < length (incid g)"
  shows "v_cell g p ! k = (if is_neu p ! (fi g ! k) then 1 else 0)"
  using assms by (simp add: v_cell_def set_mask_def take_idx_def)

lemma entry_bound_pressure_cell:
  assumes "distinct (map (\<lambda>(f, c, s). (f, c)) (incid g))"
  shows "entry (bound_pressure_cell_m g p) f c =
           (if (\<exists>s. (f, c, s) \<in> set (incid g)) \<and> is_neu p ! f then 1 else 0)"
proof -
  let ?ks = "filter (\<lambda>k. fi g ! k = f \<and> ci g ! k = c) [0..<length (incid g)]"
  have len: "length (v_cell g p) = length (incid g)"
    by (simp add: v_cell_def set_mask_def)
  have "entry (bound_pressure_cell_m g p) f c = sum_list (map (\<lambda>k. v_cell g p ! k) ?ks)"
    using entry_coo [of "ci g" "fi g" "v_cell g p"] len by (simp add: bound_pressure_cell_m_def)
  also have "map (\<lambda>k. v_cell g p ! k) ?ks = map (\<lambda>k. if is_neu p ! f then 1 else 0) ?ks"
    by (rule map_cong) (auto simp add: v_cell_nth)
  also have "sum_list \<dots> = of_nat (length ?ks) * (if is_neu p ! f then 1 else 0)"
    by (rule sum_list_triv)
  finally show ?thesis
    by (simp add: count_incid_pos [OF assms])
qed

lemma mat_vec_nth:
  assumes "ncols A = length x"
  shows "\<exists>y. mat_vec A x = Inr y \<and> length y = nrows A \<and>
           (\<forall>i < nrows A. y ! i = sum_list (map (\<lambda>k. entry A i k * x ! k) [0..<ncols A]))"
  using assms by (simp add: mat_vec_def)

subsection \<open>Reconstruction of the boundary pressure\<close>

text \<open>
  Claim C6. When \<^verbatim>\<open>Tpfa.discretize\<close> returns on a grid of dimension at least one whose
  incidence matrix stores no position twice: \<^verbatim>\<open>bound_pressure_cell\<close> has the entry 1 at
  the incidences \<open>(f, c)\<close> of Neumann faces and 0 everywhere else; and
  \<^verbatim>\<open>bound_pressure_face\<close>, when it is finite, is diagonal, with 1 on a Dirichlet face
  and \<open>- 1 / t\<close> on a Neumann face whose single half-transmissibility is \<open>t\<close> (which is
  then not zero and not \<^verbatim>\<open>nan\<close>; \<open>- 1 / t\<close> is zero when \<open>t\<close> is infinite), and for every
  vector \<open>pv\<close> of cell pressures and every vector \<open>b\<close> of boundary values, the sum of
  the two products at a Dirichlet face \<open>f\<close> is \<open>b ! f\<close>. A Dirichlet face is one marked
  \<^verbatim>\<open>is_dir\<close> and not \<^verbatim>\<open>is_neu\<close>: the boundary condition gives a face one label. Whether
  the other operators are finite does not matter.
\<close>

theorem boundary_pressure_reconstruction:
  assumes "discretize g d faces = Inr d'" and "dim g \<noteq> 0" and "d ''param'' = Some (Par p)"
    and "distinct (map (\<lambda>(f, c, s). (f, c)) (incid g))"
  shows "\<exists>aav C. get_flag d ''Aavatsmark_transmissibilities'' = Inr aav \<and>
           d' ''bound_pressure_cell'' = Some (Mat C) \<and>
           d' ''bound_pressure_face'' =
             Some (store_m (v_face g p aav) (bound_pressure_face_m g p aav)) \<and>
           (\<forall>f c. entry C f c =
              (if (\<exists>s. (f, c, s) \<in> set (incid g)) \<and> is_neu p ! f then 1 else 0)) \<and>
           (\<forall>Fm. d' ''bound_pressure_face'' = Some (Mat Fm) \<longrightarrow>
              (\<forall>f f'. f \<noteq> f' \<longrightarrow> entry Fm f f' = 0) \<and>
              (\<forall>f. f < num_faces g \<and> is_dir p ! f \<and> \<not> is_neu p ! f \<longrightarrow> entry Fm f f = 1) \<and>
              (\<forall>f k. f < num_faces g \<and> is_neu p ! f \<and> positions (fi g) f = [k] \<longrightarrow>
                 t_face g p aav ! k \<noteq> NaN \<and> t_face g p aav ! k \<noteq> Fin 0 \<and>
                 entry Fm f f = (case t_face g p aav ! k of Fin t \<Rightarrow> - 1 / t | _ \<Rightarrow> 0)) \<and>
              (\<forall>f pv b. f < num_faces g \<and> is_dir p ! f \<and> \<not> is_neu p ! f \<and>
                   length pv = num_cells g \<and> length b = num_faces g \<longrightarrow>
                 (\<exists>x y. mat_vec C pv = Inr x \<and> mat_vec Fm b = Inr y \<and>
                    x ! f + y ! f = b ! f)))"
proof -
  from discretize_InrD [OF assms(1,2)] assms(3) obtain aav where
    fl: "get_flag d ''Aavatsmark_transmissibilities'' = Inr aav" and
    msk: "mask_fit g p" and
    d': "d' = d(''flux'' \<mapsto> store_m (flux_data g p faces aav) (flux_m g p faces aav),
                ''bound_flux'' \<mapsto> store_m (bound_flux_data g p aav) (bound_flux_m g p aav),
                ''bound_pressure_cell'' \<mapsto> Mat (bound_pressure_cell_m g p),
                ''bound_pressure_face'' \<mapsto>
                  store_m (v_face g p aav) (bound_pressure_face_m g p aav))"
    by auto
  let ?C = "bound_pressure_cell_m g p"
  let ?F = "bound_pressure_face_m g p aav"
  have len: "bincount_len (fi g) = num_faces g"
    using msk by (simp add: mask_fit_def)
  have eC: "entry ?C f c = (if (\<exists>s. (f, c, s) \<in> set (incid g)) \<and> is_neu p ! f then 1 else 0)"
    for f c
    by (rule entry_bound_pressure_cell [OF assms(4)])
  have eF: "entry ?F f f' =
      (if f = f' \<and> f < num_faces g then fin_of (v_face g p aav ! f) else 0)"
    for f f'
    by (simp add: bound_pressure_face_m_def entry_diags)
  have off: "f \<noteq> f' \<longrightarrow> entry ?F f f' = 0" for f f'
    by (simp add: eF)
  have dir: "entry ?F f f = 1" if "f < num_faces g" "is_dir p ! f" "\<not> is_neu p ! f" for f
    using that by (simp add: eF v_face_nth [OF that(1) len])
  have neu: "t_face g p aav ! k \<noteq> NaN \<and> t_face g p aav ! k \<noteq> Fin 0 \<and>
      entry ?F f f = (case t_face g p aav ! k of Fin t \<Rightarrow> - 1 / t | _ \<Rightarrow> 0)"
    if "list_all is_fin (v_face g p aav)"
      "f < num_faces g" "is_neu p ! f" "positions (fi g) f = [k]" for f k
  proof -
    have v: "v_face g p aav ! f = x_neg_recip (x_recip (x_recip (t_face g p aav ! k)))"
      using that by (simp add: v_face_nth [OF that(2) len] t_full_single [OF that(4)])
    have "is_fin (v_face g p aav ! f)"
      using that(1,2) by (simp add: list_all_length)
    then have "is_fin (x_neg_recip (x_recip (x_recip (t_face g p aav ! k))))"
      by (simp only: v)
    from x_neg_recip_recip [OF this] show ?thesis
      using that(2) by (simp add: eF v)
  qed
  have rt: "\<exists>x y. mat_vec ?C pv = Inr x \<and> mat_vec ?F b = Inr y \<and> x ! f + y ! f = b ! f"
    if "f < num_faces g" "is_dir p ! f" "\<not> is_neu p ! f"
       "length pv = num_cells g" "length b = num_faces g" for f pv b
  proof -
    have "ncols ?C = length pv"
      using that(4) by (simp add: bound_pressure_cell_m_def coo_matrix_def)
    from mat_vec_nth [OF this] obtain x where
      x: "mat_vec ?C pv = Inr x"
         "\<forall>i < nrows ?C. x ! i = sum_list (map (\<lambda>k. entry ?C i k * pv ! k) [0..<ncols ?C])"
      by blast
    have "ncols ?F = length b"
      using that(5) by (simp add: bound_pressure_face_m_def diags_def)
    from mat_vec_nth [OF this] obtain y where
      y: "mat_vec ?F b = Inr y"
         "\<forall>i < nrows ?F. y ! i = sum_list (map (\<lambda>k. entry ?F i k * b ! k) [0..<ncols ?F])"
      by blast
    have "f < nrows ?C"
      using that(1) by (simp add: bound_pressure_cell_m_def coo_matrix_def)
    then have "x ! f = sum_list (map (\<lambda>k. entry ?C f k * pv ! k) [0..<ncols ?C])"
      using x(2) by blast
    also have "\<dots> = 0"
      using that(3) by (simp add: eC)
    finally have x0: "x ! f = 0" .
    have nF: "nrows ?F = num_faces g" "ncols ?F = num_faces g"
      by (simp_all add: bound_pressure_face_m_def diags_def)
    then have "y ! f = sum_list (map (\<lambda>k. entry ?F f k * b ! k) [0..<num_faces g])"
      using y(2) that(1) by simp
    also have "map (\<lambda>k. entry ?F f k * b ! k) [0..<num_faces g] =
               map (\<lambda>k. if f = k then b ! k else 0) [0..<num_faces g]"
      using that(1,2,3) by (intro map_cong) (auto simp add: eF v_face_nth [OF that(1) len])
    also have "sum_list \<dots> = b ! f"
      using that(1) by (rule sum_list_delta)
    finally have "y ! f = b ! f" .
    with x0 x(1) y(1) show ?thesis by simp
  qed
  have key: "d' ''bound_pressure_cell'' = Some (Mat ?C)"
    "d' ''bound_pressure_face'' = Some (store_m (v_face g p aav) ?F)"
    using d' by simp_all
  have A: "\<forall>f c. entry ?C f c =
              (if (\<exists>s. (f, c, s) \<in> set (incid g)) \<and> is_neu p ! f then 1 else 0)"
    using eC by blast
  have P: "(\<forall>f f'. f \<noteq> f' \<longrightarrow> entry Fm f f' = 0) \<and>
              (\<forall>f. f < num_faces g \<and> is_dir p ! f \<and> \<not> is_neu p ! f \<longrightarrow> entry Fm f f = 1) \<and>
              (\<forall>f k. f < num_faces g \<and> is_neu p ! f \<and> positions (fi g) f = [k] \<longrightarrow>
                 t_face g p aav ! k \<noteq> NaN \<and> t_face g p aav ! k \<noteq> Fin 0 \<and>
                 entry Fm f f = (case t_face g p aav ! k of Fin t \<Rightarrow> - 1 / t | _ \<Rightarrow> 0)) \<and>
              (\<forall>f pv b. f < num_faces g \<and> is_dir p ! f \<and> \<not> is_neu p ! f \<and>
                   length pv = num_cells g \<and> length b = num_faces g \<longrightarrow>
                 (\<exists>x y. mat_vec ?C pv = Inr x \<and> mat_vec Fm b = Inr y \<and>
                    x ! f + y ! f = b ! f))"
    if "d' ''bound_pressure_face'' = Some (Mat Fm)" for Fm
  proof -
    have "store_m (v_face g p aav) ?F = Mat Fm"
      using that key(2) by simp
    then have fin: "list_all is_fin (v_face g p aav)" and Fm: "Fm = ?F"
      by simp_all
    have B: "\<forall>f f'. f \<noteq> f' \<longrightarrow> entry ?F f f' = 0"
      using off by blast
    have C: "\<forall>f. f < num_faces g \<and> is_dir p ! f \<and> \<not> is_neu p ! f \<longrightarrow> entry ?F f f = 1"
      using dir by blast
    have D: "\<forall>f k. f < num_faces g \<and> is_neu p ! f \<and> positions (fi g) f = [k] \<longrightarrow>
                t_face g p aav ! k \<noteq> NaN \<and> t_face g p aav ! k \<noteq> Fin 0 \<and>
                entry ?F f f = (case t_face g p aav ! k of Fin t \<Rightarrow> - 1 / t | _ \<Rightarrow> 0)"
      using neu [OF fin] by blast
    have E: "\<forall>f pv b. f < num_faces g \<and> is_dir p ! f \<and> \<not> is_neu p ! f \<and>
                  length pv = num_cells g \<and> length b = num_faces g \<longrightarrow>
                (\<exists>x y. mat_vec ?C pv = Inr x \<and> mat_vec ?F b = Inr y \<and> x ! f + y ! f = b ! f)"
      using rt by blast
    show ?thesis unfolding Fm using B C D E by (intro conjI)
  qed
  then have Q: "\<forall>Fm. d' ''bound_pressure_face'' = Some (Mat Fm) \<longrightarrow>
              (\<forall>f f'. f \<noteq> f' \<longrightarrow> entry Fm f f' = 0) \<and>
              (\<forall>f. f < num_faces g \<and> is_dir p ! f \<and> \<not> is_neu p ! f \<longrightarrow> entry Fm f f = 1) \<and>
              (\<forall>f k. f < num_faces g \<and> is_neu p ! f \<and> positions (fi g) f = [k] \<longrightarrow>
                 t_face g p aav ! k \<noteq> NaN \<and> t_face g p aav ! k \<noteq> Fin 0 \<and>
                 entry Fm f f = (case t_face g p aav ! k of Fin t \<Rightarrow> - 1 / t | _ \<Rightarrow> 0)) \<and>
              (\<forall>f pv b. f < num_faces g \<and> is_dir p ! f \<and> \<not> is_neu p ! f \<and>
                   length pv = num_cells g \<and> length b = num_faces g \<longrightarrow>
                 (\<exists>x y. mat_vec ?C pv = Inr x \<and> mat_vec Fm b = Inr y \<and>
                    x ! f + y ! f = b ! f))"
    by blast
  show ?thesis
    apply (rule exI [of _ aav], rule exI [of _ ?C])
    using fl key A Q by (intro conjI)
qed

lemma ex_positions_2: "positions (fi ex_grid) 2 = [3]"
  by (simp add: positions_def ex_fi upt4)

lemma ex_distinct_incid: "distinct (map (\<lambda>(f, c, s). (f, c)) (incid ex_grid))"
  by (simp add: ex_incid)

theorem boundary_pressure_reconstruction_witness:
  "discretize ex_grid ex_data None = Inr ex_discretized \<and> dim ex_grid \<noteq> 0 \<and>
   ex_data ''param'' = Some (Par ex_param) \<and>
   distinct (map (\<lambda>(f, c, s). (f, c)) (incid ex_grid)) \<and>
   (\<exists>C Fm. ex_discretized ''bound_pressure_cell'' = Some (Mat C) \<and>
      ex_discretized ''bound_pressure_face'' = Some (Mat Fm) \<and>
      entry C 2 1 = 1 \<and> entry C 0 0 = 0 \<and> entry Fm 0 0 = 1 \<and> entry Fm 2 2 = - 1 / 6 \<and>
      (\<exists>x y. mat_vec C [5, 7] = Inr x \<and> mat_vec Fm [1, 0, 2] = Inr y \<and> x ! 0 + y ! 0 = 1)) \<and>
   discretize ex_grid tight_data None = Inr tight_discretized \<and>
   tight_data ''param'' = Some (Par tight_param) \<and>
   (\<exists>C Fm. tight_discretized ''bound_pressure_cell'' = Some (Mat C) \<and>
      tight_discretized ''bound_pressure_face'' = Some (Mat Fm) \<and> entry Fm 2 2 = 1 \<and>
      (\<exists>x y. mat_vec C [5, 7] = Inr x \<and> mat_vec Fm [1, 0, 2] = Inr y \<and> x ! 2 + y ! 2 = 2))"
proof -
  have h2: "dim ex_grid \<noteq> 0" by (simp add: ex_grid_def)
  have h3: "ex_data ''param'' = Some (Par ex_param)" by (simp add: ex_data_def)
  let ?Fm = "bound_pressure_face_m ex_grid ex_param False"
  have kF: "ex_discretized ''bound_pressure_face'' = Some (Mat ?Fm)"
    by (simp add: ex_discretized_def)
  from boundary_pressure_reconstruction [of ex_grid ex_data None ex_discretized ex_param,
      OF ex_discretize h2 h3 ex_distinct_incid]
  obtain aav C where
    a: "get_flag ex_data ''Aavatsmark_transmissibilities'' = Inr aav"
       "ex_discretized ''bound_pressure_cell'' = Some (Mat C)" and
    c: "\<forall>f c. entry C f c =
          (if (\<exists>s. (f, c, s) \<in> set (incid ex_grid)) \<and> is_neu ex_param ! f then 1 else 0)" and
    q: "\<forall>Fm. ex_discretized ''bound_pressure_face'' = Some (Mat Fm) \<longrightarrow>
          (\<forall>f f'. f \<noteq> f' \<longrightarrow> entry Fm f f' = 0) \<and>
          (\<forall>f. f < num_faces ex_grid \<and> is_dir ex_param ! f \<and> \<not> is_neu ex_param ! f \<longrightarrow>
             entry Fm f f = 1) \<and>
          (\<forall>f k. f < num_faces ex_grid \<and> is_neu ex_param ! f \<and>
               positions (fi ex_grid) f = [k] \<longrightarrow>
             t_face ex_grid ex_param aav ! k \<noteq> NaN \<and> t_face ex_grid ex_param aav ! k \<noteq> Fin 0 \<and>
             entry Fm f f = (case t_face ex_grid ex_param aav ! k of Fin t \<Rightarrow> - 1 / t | _ \<Rightarrow> 0)) \<and>
          (\<forall>f pv b. f < num_faces ex_grid \<and> is_dir ex_param ! f \<and> \<not> is_neu ex_param ! f \<and>
               length pv = num_cells ex_grid \<and> length b = num_faces ex_grid \<longrightarrow>
             (\<exists>x y. mat_vec C pv = Inr x \<and> mat_vec Fm b = Inr y \<and> x ! f + y ! f = b ! f))"
    by (elim exE conjE) (rule that, assumption+)
  from q kF have
    dir: "\<forall>f. f < num_faces ex_grid \<and> is_dir ex_param ! f \<and> \<not> is_neu ex_param ! f \<longrightarrow>
            entry ?Fm f f = 1" and
    neu: "\<forall>f k. f < num_faces ex_grid \<and> is_neu ex_param ! f \<and> positions (fi ex_grid) f = [k] \<longrightarrow>
            t_face ex_grid ex_param aav ! k \<noteq> NaN \<and> t_face ex_grid ex_param aav ! k \<noteq> Fin 0 \<and>
            entry ?Fm f f = (case t_face ex_grid ex_param aav ! k of Fin t \<Rightarrow> - 1 / t | _ \<Rightarrow> 0)" and
    rt: "\<forall>f pv b. f < num_faces ex_grid \<and> is_dir ex_param ! f \<and> \<not> is_neu ex_param ! f \<and>
            length pv = num_cells ex_grid \<and> length b = num_faces ex_grid \<longrightarrow>
            (\<exists>x y. mat_vec C pv = Inr x \<and> mat_vec ?Fm b = Inr y \<and> x ! f + y ! f = b ! f)"
    by blast+
  have na: "aav = False" using a(1) by (simp add: ex_get_flag)
  have f0: "0 < num_faces ex_grid \<and> is_dir ex_param ! 0 \<and> \<not> is_neu ex_param ! 0"
    by (simp add: ex_grid_def ex_param_def)
  have "2 < num_faces ex_grid" "is_neu ex_param ! 2"
    by (simp_all add: ex_grid_def ex_param_def)
  with ex_positions_2
  have f2: "2 < num_faces ex_grid \<and> is_neu ex_param ! 2 \<and> positions (fi ex_grid) 2 = [3]"
    by blast
  have len: "length [5, 7 :: real] = num_cells ex_grid \<and> length [1, 0, 2 :: real] = num_faces ex_grid"
    by (simp add: ex_grid_def)
  have c1: "entry C 2 1 = 1" and c2: "entry C 0 0 = 0"
    using c by (simp_all add: ex_incid ex_param_def)
  have d1: "entry ?Fm 0 0 = 1" using dir f0 by blast
  have "entry ?Fm 2 2 = (case t_face ex_grid ex_param aav ! 3 of Fin t \<Rightarrow> - 1 / t | _ \<Rightarrow> 0)"
    using neu f2 by blast
  then have n1: "entry ?Fm 2 2 = - 1 / 6" by (simp add: na ex_t_face)
  have "\<exists>x y. mat_vec C [5, 7] = Inr x \<and> mat_vec ?Fm [1, 0, 2] = Inr y \<and>
          x ! 0 + y ! 0 = [1, 0, 2] ! 0"
    using rt f0 len by blast
  then have r1: "\<exists>x y. mat_vec C [5, 7] = Inr x \<and> mat_vec ?Fm [1, 0, 2] = Inr y \<and>
      x ! 0 + y ! 0 = 1"
    by simp
  have E1: "\<exists>C Fm. ex_discretized ''bound_pressure_cell'' = Some (Mat C) \<and>
      ex_discretized ''bound_pressure_face'' = Some (Mat Fm) \<and>
      entry C 2 1 = 1 \<and> entry C 0 0 = 0 \<and> entry Fm 0 0 = 1 \<and> entry Fm 2 2 = - 1 / 6 \<and>
      (\<exists>x y. mat_vec C [5, 7] = Inr x \<and> mat_vec Fm [1, 0, 2] = Inr y \<and> x ! 0 + y ! 0 = 1)"
    using a(2) kF c1 c2 d1 n1 r1 by blast
  have g3: "tight_data ''param'' = Some (Par tight_param)" by (simp add: tight_data_def)
  let ?Gm = "\<lparr>nrows = 3, ncols = 3, trip = [(0, 0, 1), (1, 1, 0), (2, 2, 1)]\<rparr> :: spmat"
  have kG: "tight_discretized ''bound_pressure_face'' = Some (Mat ?Gm)"
    by (simp add: tight_discretized_def)
  from boundary_pressure_reconstruction [of ex_grid tight_data None tight_discretized tight_param,
      OF tight_discretize h2 g3 ex_distinct_incid]
  obtain aav' C' where
    a': "tight_discretized ''bound_pressure_cell'' = Some (Mat C')" and
    q': "\<forall>Fm. tight_discretized ''bound_pressure_face'' = Some (Mat Fm) \<longrightarrow>
          (\<forall>f f'. f \<noteq> f' \<longrightarrow> entry Fm f f' = 0) \<and>
          (\<forall>f. f < num_faces ex_grid \<and> is_dir tight_param ! f \<and> \<not> is_neu tight_param ! f \<longrightarrow>
             entry Fm f f = 1) \<and>
          (\<forall>f k. f < num_faces ex_grid \<and> is_neu tight_param ! f \<and>
               positions (fi ex_grid) f = [k] \<longrightarrow>
             t_face ex_grid tight_param aav' ! k \<noteq> NaN \<and>
             t_face ex_grid tight_param aav' ! k \<noteq> Fin 0 \<and>
             entry Fm f f =
               (case t_face ex_grid tight_param aav' ! k of Fin t \<Rightarrow> - 1 / t | _ \<Rightarrow> 0)) \<and>
          (\<forall>f pv b. f < num_faces ex_grid \<and> is_dir tight_param ! f \<and>
               \<not> is_neu tight_param ! f \<and>
               length pv = num_cells ex_grid \<and> length b = num_faces ex_grid \<longrightarrow>
             (\<exists>x y. mat_vec C' pv = Inr x \<and> mat_vec Fm b = Inr y \<and> x ! f + y ! f = b ! f))"
    by (elim exE conjE) (rule that, assumption+)
  from q' kG have
    dir': "\<forall>f. f < num_faces ex_grid \<and> is_dir tight_param ! f \<and> \<not> is_neu tight_param ! f \<longrightarrow>
            entry ?Gm f f = 1" and
    rt': "\<forall>f pv b. f < num_faces ex_grid \<and> is_dir tight_param ! f \<and> \<not> is_neu tight_param ! f \<and>
            length pv = num_cells ex_grid \<and> length b = num_faces ex_grid \<longrightarrow>
            (\<exists>x y. mat_vec C' pv = Inr x \<and> mat_vec ?Gm b = Inr y \<and> x ! f + y ! f = b ! f)"
    by blast+
  have g2: "2 < num_faces ex_grid \<and> is_dir tight_param ! 2 \<and> \<not> is_neu tight_param ! 2"
    by (simp add: ex_grid_def tight_param_def)
  have d2: "entry ?Gm 2 2 = 1" using dir' g2 by blast
  have "\<exists>x y. mat_vec C' [5, 7] = Inr x \<and> mat_vec ?Gm [1, 0, 2] = Inr y \<and>
          x ! 2 + y ! 2 = [1, 0, 2] ! 2"
    using rt' g2 len by blast
  then have r2: "\<exists>x y. mat_vec C' [5, 7] = Inr x \<and> mat_vec ?Gm [1, 0, 2] = Inr y \<and>
      x ! 2 + y ! 2 = 2"
    by simp
  have E2: "\<exists>C Fm. tight_discretized ''bound_pressure_cell'' = Some (Mat C) \<and>
      tight_discretized ''bound_pressure_face'' = Some (Mat Fm) \<and> entry Fm 2 2 = 1 \<and>
      (\<exists>x y. mat_vec C [5, 7] = Inr x \<and> mat_vec Fm [1, 0, 2] = Inr y \<and> x ! 2 + y ! 2 = 2)"
    using a' kG d2 r2 by blast
  show ?thesis
    using ex_discretize h2 h3 ex_distinct_incid E1 tight_discretize g3 E2 by (intro conjI)
qed

subsection \<open>The boundary faces\<close>

lemma filter_single_unique:
  assumes "length (filter P xs) = 1" "x \<in> set xs" "P x" "y \<in> set xs" "P y"
  shows "x = y"
proof -
  from assms(1) obtain z where z: "filter P xs = [z]"
    by (cases "filter P xs") auto
  have "x \<in> set (filter P xs)" "y \<in> set (filter P xs)"
    using assms by simp_all
  then show ?thesis by (simp add: z)
qed

lemma distinct_if_count_le_1:
  assumes "\<And>a. length (filter (\<lambda>x. x = a) xs) \<le> 1"
  shows "distinct xs"
  using assms
proof (induction xs)
  case Nil
  then show ?case by simp
next
  case (Cons x xs)
  have "length (filter (\<lambda>y. y = a) xs) \<le> 1" for a
    using Cons.prems [of a] by (simp split: if_splits)
  then have "distinct xs" by (rule Cons.IH)
  moreover have "x \<notin> set xs"
  proof
    assume "x \<in> set xs"
    then have "filter (\<lambda>y. y = x) xs \<noteq> []" by (simp add: filter_empty_conv)
    then have "length (filter (\<lambda>y. y = x) xs) \<ge> 1"
      by (cases "filter (\<lambda>y. y = x) xs") simp_all
    with Cons.prems [of x] show False by simp
  qed
  ultimately show ?case by simp
qed

lemma positions_filter_eq:
  "filter (\<lambda>k. k = j) (positions idx r) = (if j < length idx \<and> idx ! j = r then [j] else [])"
proof -
  have "filter (\<lambda>k. k = j) (positions idx r) =
        filter (\<lambda>k. idx ! k = r) (filter (\<lambda>k. k = j) [0..<length idx])"
    by (simp add: positions_def conj_commute)
  then show ?thesis by (simp add: filter_upt_eq)
qed

lemma row_select_count:
  "length (filter (\<lambda>t. fst t = j) (trip (row_select M idx))) =
     (if j < length idx then length (filter (\<lambda>t. fst t = idx ! j) (trip M)) else 0)"
proof -
  have "length (filter (\<lambda>t. fst t = j)
          (concat (map (\<lambda>(r, c, v). map (\<lambda>k. (k, c, v)) (positions idx r)) ts))) =
        (if j < length idx then length (filter (\<lambda>t. fst t = idx ! j) ts) else 0)" for ts
  proof (induction ts)
    case Nil
    then show ?case by simp
  next
    case (Cons t ts)
    obtain r c v where t: "t = (r, c, v)" by (cases t)
    have "length (filter (\<lambda>t. fst t = j) (map (\<lambda>k. (k, c, v)) (positions idx r))) =
          (if j < length idx \<and> idx ! j = r then 1 else 0)"
      by (simp add: filter_map comp_def positions_filter_eq)
    with Cons.IH show ?case
      by (simp add: t del: filter_map)
  qed
  from this [of "trip M"] show ?thesis
    by (simp only: row_select_def spmat.select_convs)
qed

lemma row_select_mem:
  assumes "(k, c, v) \<in> set (trip (row_select M idx))"
  shows "k < length idx \<and> (idx ! k, c, v) \<in> set (trip M)"
  using assms by (auto simp add: row_select_def positions_mem)


lemma argsort_perm:
  assumes "distinct ks" "set ks = {0..<n}" "j < n"
  shows "length (argsort ks) = n \<and> argsort ks ! j < length ks \<and> ks ! (argsort ks ! j) = j"
proof -
  let ?z = "zip ks [0..<length ks]"
  let ?l = "sort_key fst ?z"
  have mz: "map fst ?z = ks" by simp
  have dz: "distinct ?z" by (simp add: distinct_zipI2)
  have "distinct (map fst ?z)"
    using assms(1) by (simp only: mz)
  then have inj: "inj_on fst (set ?z)"
    unfolding distinct_map by blast
  have sl: "set ?l = set ?z" by (rule set_sort)
  have "distinct ?l" using dz by (simp only: distinct_sort)
  then have "distinct (map fst ?l)"
    using inj unfolding distinct_map sl by blast
  moreover have "sorted (map fst ?l)" by (rule sorted_sort_key)
  moreover have "set (map fst ?l) = set [0..<n]"
  proof -
    have "set (map fst ?l) = fst ` set ?z" by (simp only: set_map sl)
    also have "\<dots> = set (map fst ?z)" by (simp only: set_map)
    also have "\<dots> = set [0..<n]" using assms(2) by (simp only: mz) simp
    finally show ?thesis .
  qed
  ultimately have keys: "map fst ?l = [0..<n]"
    by (intro sorted_distinct_set_unique) simp_all
  have "length (map fst ?l) = length [0..<n]" by (simp only: keys)
  then have len: "length ?l = n" by simp
  have "j < length ?l" using assms(3) by (simp only: len)
  then have "?l ! j \<in> set ?l" by (rule nth_mem)
  then have "?l ! j \<in> set ?z" by (simp only: sl)
  then obtain i where i: "i < length ks" "?l ! j = (ks ! i, i)"
    by (auto simp add: in_set_zip)
  have "fst (?l ! j) = map fst ?l ! j" using len assms(3) by simp
  then have "fst (?l ! j) = j" using keys assms(3) by simp
  with i have "ks ! i = j" by simp
  moreover have "argsort ks ! j = i"
    using len assms(3) i(2) by (simp add: argsort_def)
  ultimately show ?thesis
    using i(1) len by (simp add: argsort_def)
qed

lemma bndr_sgn_nth:
  assumes "\<forall>b \<in> set (boundary_faces g). length (filter (\<lambda>t. fst t = b) (trip (cell_faces g))) = 1"
    and "j < length (boundary_faces g)"
  shows "\<exists>c v. (boundary_faces g ! j, c, v) \<in> set (trip (cell_faces g)) \<and> bndr_sgn g ! j = v"
proof -
  let ?idx = "boundary_faces g"
  let ?B = "trip (row_select (cell_faces g) ?idx)"
  let ?ks = "rows_of ?B"
  have ks: "?ks = map fst ?B"
    by (simp add: rows_of_def case_prod_beta)
  have cnt: "length (filter (\<lambda>t. fst t = k) ?B) = (if k < length ?idx then 1 else 0)" for k
    using assms(1) by (simp add: row_select_count)
  have cnt': "length (filter (\<lambda>x. x = k) ?ks) = (if k < length ?idx then 1 else 0)" for k
    using cnt [of k] by (simp add: ks filter_map comp_def)
  have dk: "distinct ?ks"
    by (rule distinct_if_count_le_1) (simp add: cnt')
  have sk: "set ?ks = {0..<length ?idx}"
  proof -
    have "k \<in> set ?ks \<longleftrightarrow> k < length ?idx" for k
    proof -
      have "k \<in> set ?ks \<longleftrightarrow> filter (\<lambda>x. x = k) ?ks \<noteq> []"
        by (auto simp add: filter_empty_conv)
      also have "\<dots> \<longleftrightarrow> length (filter (\<lambda>x. x = k) ?ks) \<noteq> 0" by simp
      also have "\<dots> \<longleftrightarrow> k < length ?idx" by (simp only: cnt') simp
      finally show ?thesis .
    qed
    then show ?thesis by (intro set_eqI) simp
  qed
  have a: "argsort ?ks ! j < length ?ks" "?ks ! (argsort ?ks ! j) = j"
    "length (argsort ?ks) = length ?idx"
    using argsort_perm [OF dk sk assms(2)] by blast+
  let ?i = "argsort ?ks ! j"
  have i: "?i < length ?B" using a(1) by (simp add: ks)
  obtain k c v where t: "?B ! ?i = (k, c, v)" by (cases "?B ! ?i")
  have "k = j" using a(2) i t by (simp add: ks)
  moreover have "?B ! ?i \<in> set ?B" using i by (rule nth_mem)
  ultimately have "(j, c, v) \<in> set ?B" using t by simp
  then have "(?idx ! j, c, v) \<in> set (trip (cell_faces g))"
    using row_select_mem by blast
  moreover have "bndr_sgn g ! j = v"
    using a(3) assms(2) i t by (simp add: bndr_sgn_def Let_def take_idx_def vals_of_def)
  ultimately show ?thesis by blast
qed


lemma distinct_filter_nth:
  assumes "distinct xs" "j < length xs"
  shows "filter (\<lambda>k. xs ! k = xs ! j) [0..<length xs] = [j]"
proof -
  have "filter (\<lambda>k. xs ! k = xs ! j) [0..<length xs] = filter (\<lambda>k. k = j) [0..<length xs]"
    using assms by (intro filter_cong) (auto simp add: nth_eq_iff_index_eq)
  then show ?thesis using assms(2) by (simp add: filter_upt_eq)
qed

lemma length_bound_flux_data:
  assumes "length (bndr_sgn g) = length (boundary_faces g)"
  shows "length (bound_flux_data g p aav) = length (boundary_faces g)"
  using assms by (simp add: bound_flux_data_def)

lemma bound_flux_data_nth:
  assumes "length (bndr_sgn g) = length (boundary_faces g)" "j < length (boundary_faces g)"
  shows "bound_flux_data g p aav ! j = x_times (t_b g p aav ! j) (bndr_sgn g ! j)"
  using assms by (simp add: bound_flux_data_def)

lemma entry_bound_flux:
  assumes "distinct (boundary_faces g)" "length (bndr_sgn g) = length (boundary_faces g)"
    "j < length (boundary_faces g)"
  shows "entry (bound_flux_m g p aav) (boundary_faces g ! j) (boundary_faces g ! j) =
           fin_of (bound_flux_data g p aav ! j)"
proof -
  let ?b = "boundary_faces g"
  let ?d = "map fin_of (bound_flux_data g p aav)"
  have ld: "length ?d = length ?b"
    using length_bound_flux_data [OF assms(2)] by simp
  have "entry (bound_flux_m g p aav) (?b ! j) (?b ! j) =
        sum_list (map (\<lambda>k. ?d ! k)
          (filter (\<lambda>k. ?b ! k = ?b ! j \<and> ?b ! k = ?b ! j) [0..<length ?b]))"
    unfolding bound_flux_m_def using ld by (intro entry_coo) simp_all
  also have "\<dots> = ?d ! j"
    using distinct_filter_nth [OF assms(1,3)] by simp
  also have "\<dots> = fin_of (bound_flux_data g p aav ! j)"
    using assms(3) length_bound_flux_data [OF assms(2), of p aav] by simp
  finally show ?thesis .
qed

lemma entry_flux_zero:
  assumes "t_flux g p faces aav ! f = Fin 0"
  shows "entry (flux_m g p faces aav) f c = 0"
proof -
  let ?d = "map fin_of (flux_data g p faces aav)"
  let ?ks = "filter (\<lambda>k. fi g ! k = f \<and> ci g ! k = c) [0..<length (fi g)]"
  have "entry (flux_m g p faces aav) f c = sum_list (map (\<lambda>k. ?d ! k) ?ks)"
    unfolding flux_m_def coo_matrix_infer_def by (intro entry_coo) simp_all
  also have "map (\<lambda>k. ?d ! k) ?ks = map (\<lambda>k. 0) ?ks"
    using assms by (intro map_cong) (auto simp add: flux_data_nth)
  finally show ?thesis by simp
qed

lemma incid_subset: "set (incid g) \<subseteq> set (trip (cell_faces g))"
  by (auto simp add: incid_def find_nz_def)

lemma positions_single:
  assumes "length (filter (\<lambda>t. fst t = f) (trip (cell_faces g))) = 1"
    and "k < length (incid g)" "fi g ! k = f"
  shows "positions (fi g) f = [k]"
proof -
  have "filter (\<lambda>k. fi g ! k = f) [0..<length (incid g)] =
        filter (\<lambda>k. fst (incid g ! k) = f) [0..<length (incid g)]"
    by (intro filter_cong) (simp_all add: incid_nth_split)
  then have "length (positions (fi g) f) = length (filter (\<lambda>t. fst t = f) (incid g))"
    using length_filter_nth_upt [of "\<lambda>t. fst t = f" "incid g"] by (simp add: positions_def)
  also have "filter (\<lambda>t. fst t = f) (incid g) =
             filter (\<lambda>(r, c, v). v \<noteq> 0) (filter (\<lambda>t. fst t = f) (trip (cell_faces g)))"
    by (simp add: incid_def find_nz_def conj_commute)
  also have "length \<dots> \<le> 1"
    using length_filter_le [of "\<lambda>(r, c, v). v \<noteq> 0" "filter (\<lambda>t. fst t = f) (trip (cell_faces g))"]
    by (simp only: assms(1))
  finally have le: "length (positions (fi g) f) \<le> 1" .
  have mem: "k \<in> set (positions (fi g) f)"
    using assms(2,3) by (simp add: positions_mem)
  show ?thesis
  proof (cases "positions (fi g) f")
    case Nil
    with mem show ?thesis by simp
  next
    case (Cons x xs)
    with le have "xs = []" by simp
    with Cons mem show ?thesis by simp
  qed
qed

lemma is_not_active_nth:
  assumes "f < num_faces g"
  shows "is_not_active g faces ! f \<longleftrightarrow> (\<exists>fs. faces = Some fs \<and> f \<notin> set fs)"
  using assms by (cases faces) (simp_all add: is_not_active_def set_idx_def)

text \<open>
  Claim C3. When \<^verbatim>\<open>Tpfa.discretize\<close> returns on a grid of dimension at least one whose
  boundary faces are listed once each and have one stored incidence each. If
  \<^verbatim>\<open>bound_flux\<close> is finite: on a Dirichlet boundary face the half-transmissibility of the
  face's incidence is finite, and the diagonal entry of \<^verbatim>\<open>bound_flux\<close> is minus that
  half-transmissibility, times the sign of that incidence; on a Neumann boundary face
  it is 1 times that sign. If \<^verbatim>\<open>flux\<close> is finite: the row of a Neumann boundary face in
  \<^verbatim>\<open>flux\<close> is zero, and so is the row of every face that is not active, where the
  faces that are not active are those outside the index array \<^verbatim>\<open>faces\<close>, when one is
  given. A half-transmissibility of zero is a finite one.
\<close>

theorem boundary_policy:
  assumes "discretize g d faces = Inr d'" and "dim g \<noteq> 0" and "d ''param'' = Some (Par p)"
    and "distinct (boundary_faces g)"
    and "\<forall>b \<in> set (boundary_faces g).
           length (filter (\<lambda>t. fst t = b) (trip (cell_faces g))) = 1"
  shows "\<exists>aav. get_flag d ''Aavatsmark_transmissibilities'' = Inr aav \<and>
           d' ''flux'' = Some (store_m (flux_data g p faces aav) (flux_m g p faces aav)) \<and>
           d' ''bound_flux'' =
             Some (store_m (bound_flux_data g p aav) (bound_flux_m g p aav)) \<and>
           (\<forall>B. d' ''bound_flux'' = Some (Mat B) \<longrightarrow>
              (\<forall>f k. f \<in> set (boundary_faces g) \<and> k < length (incid g) \<and> fi g ! k = f \<and>
                   is_dir p ! f \<and> \<not> is_neu p ! f \<longrightarrow>
                 (\<exists>t. t_face g p aav ! k = Fin t \<and> entry B f f = - t * sgn_of g ! k)) \<and>
              (\<forall>f k. f \<in> set (boundary_faces g) \<and> k < length (incid g) \<and> fi g ! k = f \<and>
                   is_neu p ! f \<longrightarrow>
                 entry B f f = 1 * sgn_of g ! k)) \<and>
           (\<forall>F. d' ''flux'' = Some (Mat F) \<longrightarrow>
              (\<forall>f c. f \<in> set (boundary_faces g) \<and> is_neu p ! f \<longrightarrow> entry F f c = 0) \<and>
              (\<forall>f c. f < num_faces g \<and> is_not_active g faces ! f \<longrightarrow> entry F f c = 0)) \<and>
           (\<forall>fs f. faces = Some fs \<and> f < num_faces g \<and> f \<notin> set fs \<longrightarrow>
              is_not_active g faces ! f)"
proof -
  from discretize_InrD [OF assms(1,2)] assms(3) obtain aav where
    fl: "get_flag d ''Aavatsmark_transmissibilities'' = Inr aav" and
    msk: "mask_fit g p" and
    d': "d' = d(''flux'' \<mapsto> store_m (flux_data g p faces aav) (flux_m g p faces aav),
                ''bound_flux'' \<mapsto> store_m (bound_flux_data g p aav) (bound_flux_m g p aav),
                ''bound_pressure_cell'' \<mapsto> Mat (bound_pressure_cell_m g p),
                ''bound_pressure_face'' \<mapsto>
                  store_m (v_face g p aav) (bound_pressure_face_m g p aav))"
    by auto
  let ?F = "flux_m g p faces aav"
  let ?B = "bound_flux_m g p aav"
  let ?bf = "boundary_faces g"
  have len: "bincount_len (fi g) = num_faces g" "length (is_neu p) = num_faces g"
    "length (bndr_sgn g) = length ?bf"
    using msk by (simp_all add: mask_fit_def)
  have bnd: "b < num_faces g" if "b \<in> set ?bf" for b
    using msk that by (simp add: mask_fit_def)
  have key: "d' ''flux'' = Some (store_m (flux_data g p faces aav) ?F)"
    "d' ''bound_flux'' = Some (store_m (bound_flux_data g p aav) ?B)"
    using d' by simp_all
  have zero: "entry ?F f c = 0" if "f < num_faces g" "is_neu p ! f \<or> is_not_active g faces ! f"
    for f c
  proof -
    have "f < bincount_len (fi g)" using that(1) by (simp only: len)
    then have "t_flux g p faces aav ! f = Fin 0"
      using that(2) by (simp add: t_flux_nth [OF _ len(1,2)])
    then show ?thesis by (rule entry_flux_zero)
  qed
  have face: "(is_neu p ! f \<longrightarrow> entry ?B f f = 1 * sgn_of g ! k) \<and>
      (is_dir p ! f \<and> \<not> is_neu p ! f \<longrightarrow>
         (\<exists>t. t_face g p aav ! k = Fin t \<and> entry ?B f f = - t * sgn_of g ! k))"
    if fin: "list_all is_fin (bound_flux_data g p aav)"
      and "f \<in> set ?bf" "k < length (incid g)" "fi g ! k = f" for f k
  proof -
    from that(2) obtain j where j: "j < length ?bf" "?bf ! j = f"
      by (auto simp add: in_set_conv_nth)
    have one: "length (filter (\<lambda>t. fst t = f) (trip (cell_faces g))) = 1"
      using assms(5) that(2) by blast
    from bndr_sgn_nth [OF assms(5) j(1)] obtain c v where
      cv: "(f, c, v) \<in> set (trip (cell_faces g))" "bndr_sgn g ! j = v"
      using j(2) by auto
    have "incid g ! k \<in> set (trip (cell_faces g))"
      using that(3) incid_subset nth_mem by blast
    then have "(f, ci g ! k, sgn_of g ! k) \<in> set (trip (cell_faces g))"
      using that(3,4) by (simp add: incid_nth_split)
    then have "(f, ci g ! k, sgn_of g ! k) = (f, c, v)"
      using cv(1) by (intro filter_single_unique [OF one]) simp_all
    then have sg: "bndr_sgn g ! j = sgn_of g ! k" using cv(2) by simp
    have tf: "t_full g p aav ! f = x_recip (x_recip (t_face g p aav ! k))"
      using positions_single [OF one that(3,4)] by (rule t_full_single)
    have e: "entry ?B f f = fin_of (x_times (t_b g p aav ! j) (sgn_of g ! k))"
      using entry_bound_flux [OF assms(4) len(3) j(1), of p aav]
        bound_flux_data_nth [OF len(3) j(1), of p aav]
      by (simp add: j(2) sg)
    have "is_fin (bound_flux_data g p aav ! j)"
      using fin j(1) length_bound_flux_data [OF len(3), of p aav]
      by (simp add: list_all_length)
    then have "is_fin (x_times (t_b g p aav ! j) (bndr_sgn g ! j))"
      by (simp only: bound_flux_data_nth [OF len(3) j(1)])
    then have fb: "is_fin (t_b g p aav ! j)" by (rule is_fin_x_times)
    have tb: "t_b g p aav ! j =
        (if is_neu p ! f then Fin 1
         else if is_dir p ! f then x_uminus (t_full g p aav ! f) else Fin 0)"
      using t_b_nth [OF j(1) _ len(1), of p aav] bnd [OF that(2)] by (simp add: j(2))
    have n: "entry ?B f f = 1 * sgn_of g ! k" if "is_neu p ! f"
      using that e tb by simp
    have dd: "\<exists>t. t_face g p aav ! k = Fin t \<and> entry ?B f f = - t * sgn_of g ! k"
      if "is_dir p ! f" "\<not> is_neu p ! f"
    proof -
      have tb': "t_b g p aav ! j = x_uminus (x_recip (x_recip (t_face g p aav ! k)))"
        using that tb tf by simp
      then have ff: "is_fin (x_recip (x_recip (t_face g p aav ! k)))"
        using fb by simp
      then have rr: "x_recip (x_recip (t_face g p aav ! k)) = t_face g p aav ! k"
        by (rule x_recip_recip)
      with ff have "is_fin (t_face g p aav ! k)" by simp
      then obtain t where t: "t_face g p aav ! k = Fin t"
        by (auto simp add: is_fin_conv)
      have "t_b g p aav ! j = Fin (- t)"
        using tb' rr by (simp add: t)
      then have "entry ?B f f = - t * sgn_of g ! k"
        using e by simp
      with t show ?thesis by blast
    qed
    show ?thesis using n dd by blast
  qed
  have PB: "(\<forall>f k. f \<in> set ?bf \<and> k < length (incid g) \<and> fi g ! k = f \<and>
                   is_dir p ! f \<and> \<not> is_neu p ! f \<longrightarrow>
                 (\<exists>t. t_face g p aav ! k = Fin t \<and> entry B f f = - t * sgn_of g ! k)) \<and>
              (\<forall>f k. f \<in> set ?bf \<and> k < length (incid g) \<and> fi g ! k = f \<and>
                   is_neu p ! f \<longrightarrow>
                 entry B f f = 1 * sgn_of g ! k)"
    if "d' ''bound_flux'' = Some (Mat B)" for B
  proof -
    have "store_m (bound_flux_data g p aav) ?B = Mat B"
      using that key(2) by simp
    then have fin: "list_all is_fin (bound_flux_data g p aav)" and B: "B = ?B"
      by simp_all
    have A1: "\<forall>f k. f \<in> set ?bf \<and> k < length (incid g) \<and> fi g ! k = f \<and>
                is_dir p ! f \<and> \<not> is_neu p ! f \<longrightarrow>
              (\<exists>t. t_face g p aav ! k = Fin t \<and> entry ?B f f = - t * sgn_of g ! k)"
    proof (intro allI impI)
      fix f k
      assume h: "f \<in> set ?bf \<and> k < length (incid g) \<and> fi g ! k = f \<and>
                  is_dir p ! f \<and> \<not> is_neu p ! f"
      then have "(is_neu p ! f \<longrightarrow> entry ?B f f = 1 * sgn_of g ! k) \<and>
        (is_dir p ! f \<and> \<not> is_neu p ! f \<longrightarrow>
           (\<exists>t. t_face g p aav ! k = Fin t \<and> entry ?B f f = - t * sgn_of g ! k))"
        by (intro face [OF fin]) simp_all
      with h show "\<exists>t. t_face g p aav ! k = Fin t \<and> entry ?B f f = - t * sgn_of g ! k"
        by blast
    qed
    have A2: "\<forall>f k. f \<in> set ?bf \<and> k < length (incid g) \<and> fi g ! k = f \<and> is_neu p ! f \<longrightarrow>
              entry ?B f f = 1 * sgn_of g ! k"
    proof (intro allI impI)
      fix f k
      assume h: "f \<in> set ?bf \<and> k < length (incid g) \<and> fi g ! k = f \<and> is_neu p ! f"
      then have "(is_neu p ! f \<longrightarrow> entry ?B f f = 1 * sgn_of g ! k) \<and>
        (is_dir p ! f \<and> \<not> is_neu p ! f \<longrightarrow>
           (\<exists>t. t_face g p aav ! k = Fin t \<and> entry ?B f f = - t * sgn_of g ! k))"
        by (intro face [OF fin]) simp_all
      with h show "entry ?B f f = 1 * sgn_of g ! k" by blast
    qed
    show ?thesis unfolding B using A1 A2 by (intro conjI)
  qed
  then have QB: "\<forall>B. d' ''bound_flux'' = Some (Mat B) \<longrightarrow>
              (\<forall>f k. f \<in> set ?bf \<and> k < length (incid g) \<and> fi g ! k = f \<and>
                   is_dir p ! f \<and> \<not> is_neu p ! f \<longrightarrow>
                 (\<exists>t. t_face g p aav ! k = Fin t \<and> entry B f f = - t * sgn_of g ! k)) \<and>
              (\<forall>f k. f \<in> set ?bf \<and> k < length (incid g) \<and> fi g ! k = f \<and>
                   is_neu p ! f \<longrightarrow>
                 entry B f f = 1 * sgn_of g ! k)"
    by blast
  have PF: "(\<forall>f c. f \<in> set ?bf \<and> is_neu p ! f \<longrightarrow> entry F f c = 0) \<and>
              (\<forall>f c. f < num_faces g \<and> is_not_active g faces ! f \<longrightarrow> entry F f c = 0)"
    if "d' ''flux'' = Some (Mat F)" for F
  proof -
    have "store_m (flux_data g p faces aav) ?F = Mat F"
      using that key(1) by simp
    then have F: "F = ?F" by simp
    have C1: "\<forall>f c. f \<in> set ?bf \<and> is_neu p ! f \<longrightarrow> entry ?F f c = 0"
      using zero bnd by blast
    have C2: "\<forall>f c. f < num_faces g \<and> is_not_active g faces ! f \<longrightarrow> entry ?F f c = 0"
      using zero by blast
    show ?thesis unfolding F using C1 C2 by (intro conjI)
  qed
  then have QF: "\<forall>F. d' ''flux'' = Some (Mat F) \<longrightarrow>
              (\<forall>f c. f \<in> set ?bf \<and> is_neu p ! f \<longrightarrow> entry F f c = 0) \<and>
              (\<forall>f c. f < num_faces g \<and> is_not_active g faces ! f \<longrightarrow> entry F f c = 0)"
    by blast
  have D: "\<forall>fs f. faces = Some fs \<and> f < num_faces g \<and> f \<notin> set fs \<longrightarrow>
              is_not_active g faces ! f"
    by (simp add: is_not_active_nth)
  show ?thesis
    apply (rule exI [of _ aav])
    using fl key QB QF D by (intro conjI)
qed

lemma ex_single_incidence:
  "length (filter (\<lambda>t. fst t = 0) (trip (cell_faces ex_grid))) = 1"
  "length (filter (\<lambda>t. fst t = 2) (trip (cell_faces ex_grid))) = 1"
  by (simp_all add: ex_grid_def)

theorem boundary_policy_witness:
  "dim ex_grid \<noteq> 0 \<and> ex_data ''param'' = Some (Par ex_param) \<and>
   distinct (boundary_faces ex_grid) \<and> boundary_faces ex_grid = [0, 2] \<and>
   length (filter (\<lambda>t. fst t = 0) (trip (cell_faces ex_grid))) = 1 \<and>
   length (filter (\<lambda>t. fst t = 2) (trip (cell_faces ex_grid))) = 1 \<and>
   (\<exists>d' F B. discretize ex_grid ex_data (Some [0, 2]) = Inr d' \<and>
      d' ''flux'' = Some (Mat F) \<and> d' ''bound_flux'' = Some (Mat B) \<and>
      entry B 0 0 = 2 \<and> entry B 2 2 = 1 \<and> entry F 2 1 = 0 \<and>
      entry F 1 0 = 0 \<and> entry F 1 1 = 0) \<and>
   sealed_data ''param'' = Some (Par sealed_param) \<and>
   discretize ex_grid sealed_data None = Inr sealed_discretized \<and>
   sealed_discretized ''bound_pressure_face'' = Some (NotFinite 3 3) \<and>
   t_face ex_grid sealed_param False ! 3 = Fin 0 \<and>
   (\<exists>B F. sealed_discretized ''bound_flux'' = Some (Mat B) \<and>
      sealed_discretized ''flux'' = Some (Mat F) \<and>
      entry B 0 0 = 2 \<and> entry B 2 2 = 1 \<and> entry F 2 1 = 0) \<and>
   tight_data ''param'' = Some (Par tight_param) \<and>
   discretize ex_grid tight_data None = Inr tight_discretized \<and>
   t_face ex_grid tight_param False ! 3 = Fin 0 \<and>
   (\<exists>B. tight_discretized ''bound_flux'' = Some (Mat B) \<and> entry B 0 0 = 2 \<and> entry B 2 2 = 0)"
proof -
  let ?d' = "ex_data(''flux'' \<mapsto> Mat (flux_m ex_grid ex_param (Some [0, 2]) False),
                  ''bound_flux'' \<mapsto> Mat (bound_flux_m ex_grid ex_param False),
                  ''bound_pressure_cell'' \<mapsto> Mat (bound_pressure_cell_m ex_grid ex_param),
                  ''bound_pressure_face'' \<mapsto> Mat (bound_pressure_face_m ex_grid ex_param False))"
  let ?F = "flux_m ex_grid ex_param (Some [0, 2]) False"
  let ?B = "bound_flux_m ex_grid ex_param False"
  have h2: "dim ex_grid \<noteq> 0" by (simp add: ex_grid_def)
  have h3: "ex_data ''param'' = Some (Par ex_param)" by (simp add: ex_data_def)
  have bf: "boundary_faces ex_grid = [0, 2]" by (simp add: ex_grid_def)
  have h4: "distinct (boundary_faces ex_grid)" by (simp add: bf)
  have h5: "\<forall>b \<in> set (boundary_faces ex_grid).
              length (filter (\<lambda>t. fst t = b) (trip (cell_faces ex_grid))) = 1"
    using ex_single_incidence by (simp add: bf)
  have kF: "?d' ''flux'' = Some (Mat ?F)" and kB: "?d' ''bound_flux'' = Some (Mat ?B)"
    by simp_all
  from boundary_policy [of ex_grid ex_data "Some [0, 2]" ?d' ex_param,
      OF ex_discretize_faces h2 h3 h4 h5]
  obtain aav where
    a: "get_flag ex_data ''Aavatsmark_transmissibilities'' = Inr aav" and
    qb: "\<forall>B. ?d' ''bound_flux'' = Some (Mat B) \<longrightarrow>
          (\<forall>f k. f \<in> set (boundary_faces ex_grid) \<and> k < length (incid ex_grid) \<and>
               fi ex_grid ! k = f \<and> is_dir ex_param ! f \<and> \<not> is_neu ex_param ! f \<longrightarrow>
             (\<exists>t. t_face ex_grid ex_param aav ! k = Fin t \<and>
                entry B f f = - t * sgn_of ex_grid ! k)) \<and>
          (\<forall>f k. f \<in> set (boundary_faces ex_grid) \<and> k < length (incid ex_grid) \<and>
               fi ex_grid ! k = f \<and> is_neu ex_param ! f \<longrightarrow>
             entry B f f = 1 * sgn_of ex_grid ! k)" and
    qf: "\<forall>F. ?d' ''flux'' = Some (Mat F) \<longrightarrow>
          (\<forall>f c. f \<in> set (boundary_faces ex_grid) \<and> is_neu ex_param ! f \<longrightarrow> entry F f c = 0) \<and>
          (\<forall>f c. f < num_faces ex_grid \<and> is_not_active ex_grid (Some [0, 2]) ! f \<longrightarrow>
             entry F f c = 0)" and
    act: "\<forall>fs f. Some [0, 2] = Some fs \<and> f < num_faces ex_grid \<and> f \<notin> set fs \<longrightarrow>
            is_not_active ex_grid (Some [0, 2]) ! f"
    by (elim exE conjE) (rule that, assumption+)
  from qb kB have
    dir: "\<forall>f k. f \<in> set (boundary_faces ex_grid) \<and> k < length (incid ex_grid) \<and>
            fi ex_grid ! k = f \<and> is_dir ex_param ! f \<and> \<not> is_neu ex_param ! f \<longrightarrow>
            (\<exists>t. t_face ex_grid ex_param aav ! k = Fin t \<and>
               entry ?B f f = - t * sgn_of ex_grid ! k)" and
    neu: "\<forall>f k. f \<in> set (boundary_faces ex_grid) \<and> k < length (incid ex_grid) \<and>
            fi ex_grid ! k = f \<and> is_neu ex_param ! f \<longrightarrow>
            entry ?B f f = 1 * sgn_of ex_grid ! k"
    by blast+
  from qf kF have
    nrow: "\<forall>f c. f \<in> set (boundary_faces ex_grid) \<and> is_neu ex_param ! f \<longrightarrow> entry ?F f c = 0" and
    ina: "\<forall>f c. f < num_faces ex_grid \<and> is_not_active ex_grid (Some [0, 2]) ! f \<longrightarrow>
            entry ?F f c = 0"
    by blast+
  have na: "aav = False" using a by (simp add: ex_get_flag)
  have "0 \<in> set (boundary_faces ex_grid) \<and> 0 < length (incid ex_grid) \<and>
        fi ex_grid ! 0 = 0 \<and> is_dir ex_param ! 0 \<and> \<not> is_neu ex_param ! 0"
    by (simp add: bf ex_incid ex_fi) (simp add: ex_param_def)
  with dir obtain t where
    "t_face ex_grid ex_param aav ! 0 = Fin t" "entry ?B 0 0 = - t * sgn_of ex_grid ! 0"
    by blast
  then have b0: "entry ?B 0 0 = 2" by (simp add: na ex_t_face ex_sgn)
  have n2: "2 \<in> set (boundary_faces ex_grid) \<and> 3 < length (incid ex_grid) \<and>
        fi ex_grid ! 3 = 2 \<and> is_neu ex_param ! 2"
    by (simp add: bf ex_incid ex_fi) (simp add: ex_param_def)
  with neu have "entry ?B 2 2 = 1 * sgn_of ex_grid ! 3" by blast
  then have b2: "entry ?B 2 2 = 1" by (simp add: ex_sgn)
  have f2: "entry ?F 2 1 = 0" using nrow n2 by blast
  have "1 < num_faces ex_grid \<and> 1 \<notin> set [0, 2 :: nat]" by (simp add: ex_grid_def)
  with act have "is_not_active ex_grid (Some [0, 2]) ! 1" by blast
  moreover have "1 < num_faces ex_grid" by (simp add: ex_grid_def)
  ultimately have f1: "entry ?F 1 0 = 0" "entry ?F 1 1 = 0" using ina by blast+
  have E1: "\<exists>d' F B. discretize ex_grid ex_data (Some [0, 2]) = Inr d' \<and>
      d' ''flux'' = Some (Mat F) \<and> d' ''bound_flux'' = Some (Mat B) \<and>
      entry B 0 0 = 2 \<and> entry B 2 2 = 1 \<and> entry F 2 1 = 0 \<and>
      entry F 1 0 = 0 \<and> entry F 1 1 = 0"
    using ex_discretize_faces kF kB b0 b2 f2 f1 by blast
  have s3: "sealed_data ''param'' = Some (Par sealed_param)" by (simp add: sealed_data_def)
  let ?SB = "\<lparr>nrows = 3, ncols = 3, trip = [(0, 0, 2), (2, 2, 1)]\<rparr> :: spmat"
  let ?SF = "\<lparr>nrows = 3, ncols = 2,
               trip = [(0, 0, - 2), (1, 0, 0), (1, 1, 0), (2, 1, 0)]\<rparr> :: spmat"
  have sk: "sealed_discretized ''bound_flux'' = Some (Mat ?SB)"
    "sealed_discretized ''flux'' = Some (Mat ?SF)"
    "sealed_discretized ''bound_pressure_face'' = Some (NotFinite 3 3)"
    by (simp_all add: sealed_discretized_def)
  from boundary_policy [of ex_grid sealed_data None sealed_discretized sealed_param,
      OF sealed_discretize h2 s3 h4 h5]
  obtain aavs where
    sa: "get_flag sealed_data ''Aavatsmark_transmissibilities'' = Inr aavs" and
    sqb: "\<forall>B. sealed_discretized ''bound_flux'' = Some (Mat B) \<longrightarrow>
          (\<forall>f k. f \<in> set (boundary_faces ex_grid) \<and> k < length (incid ex_grid) \<and>
               fi ex_grid ! k = f \<and> is_dir sealed_param ! f \<and> \<not> is_neu sealed_param ! f \<longrightarrow>
             (\<exists>t. t_face ex_grid sealed_param aavs ! k = Fin t \<and>
                entry B f f = - t * sgn_of ex_grid ! k)) \<and>
          (\<forall>f k. f \<in> set (boundary_faces ex_grid) \<and> k < length (incid ex_grid) \<and>
               fi ex_grid ! k = f \<and> is_neu sealed_param ! f \<longrightarrow>
             entry B f f = 1 * sgn_of ex_grid ! k)" and
    sqf: "\<forall>F. sealed_discretized ''flux'' = Some (Mat F) \<longrightarrow>
          (\<forall>f c. f \<in> set (boundary_faces ex_grid) \<and> is_neu sealed_param ! f \<longrightarrow>
             entry F f c = 0) \<and>
          (\<forall>f c. f < num_faces ex_grid \<and> is_not_active ex_grid None ! f \<longrightarrow> entry F f c = 0)"
    by (elim exE conjE) (rule that, assumption+)
  from sqb sk(1) have
    sdir: "\<forall>f k. f \<in> set (boundary_faces ex_grid) \<and> k < length (incid ex_grid) \<and>
            fi ex_grid ! k = f \<and> is_dir sealed_param ! f \<and> \<not> is_neu sealed_param ! f \<longrightarrow>
            (\<exists>t. t_face ex_grid sealed_param aavs ! k = Fin t \<and>
               entry ?SB f f = - t * sgn_of ex_grid ! k)" and
    sneu: "\<forall>f k. f \<in> set (boundary_faces ex_grid) \<and> k < length (incid ex_grid) \<and>
            fi ex_grid ! k = f \<and> is_neu sealed_param ! f \<longrightarrow>
            entry ?SB f f = 1 * sgn_of ex_grid ! k"
    by blast+
  from sqf sk(2) have
    snrow: "\<forall>f c. f \<in> set (boundary_faces ex_grid) \<and> is_neu sealed_param ! f \<longrightarrow>
      entry ?SF f c = 0"
    by blast
  have nas: "aavs = False" using sa by (simp add: sealed_fit)
  have "0 \<in> set (boundary_faces ex_grid) \<and> 0 < length (incid ex_grid) \<and>
        fi ex_grid ! 0 = 0 \<and> is_dir sealed_param ! 0 \<and> \<not> is_neu sealed_param ! 0"
    by (simp add: bf ex_incid ex_fi) (simp add: sealed_param_def)
  with sdir obtain ts where
    "t_face ex_grid sealed_param aavs ! 0 = Fin ts" "entry ?SB 0 0 = - ts * sgn_of ex_grid ! 0"
    by blast
  then have sb0: "entry ?SB 0 0 = 2" by (simp add: nas sealed_t_face ex_sgn)
  have sn2: "2 \<in> set (boundary_faces ex_grid) \<and> 3 < length (incid ex_grid) \<and>
        fi ex_grid ! 3 = 2 \<and> is_neu sealed_param ! 2"
    by (simp add: bf ex_incid ex_fi) (simp add: sealed_param_def)
  with sneu have "entry ?SB 2 2 = 1 * sgn_of ex_grid ! 3" by blast
  then have sb2: "entry ?SB 2 2 = 1" by (simp add: ex_sgn)
  have sf2: "entry ?SF 2 1 = 0" using snrow sn2 by blast
  have st3: "t_face ex_grid sealed_param False ! 3 = Fin 0" by (simp add: sealed_t_face)
  have ES: "\<exists>B F. sealed_discretized ''bound_flux'' = Some (Mat B) \<and>
      sealed_discretized ''flux'' = Some (Mat F) \<and>
      entry B 0 0 = 2 \<and> entry B 2 2 = 1 \<and> entry F 2 1 = 0"
    using sk(1,2) sb0 sb2 sf2 by blast
  have g3: "tight_data ''param'' = Some (Par tight_param)" by (simp add: tight_data_def)
  let ?TB = "\<lparr>nrows = 3, ncols = 3, trip = [(0, 0, 2), (2, 2, 0)]\<rparr> :: spmat"
  have tk: "tight_discretized ''bound_flux'' = Some (Mat ?TB)"
    by (simp add: tight_discretized_def)
  from boundary_policy [of ex_grid tight_data None tight_discretized tight_param,
      OF tight_discretize h2 g3 h4 h5]
  obtain aav' where
    a': "get_flag tight_data ''Aavatsmark_transmissibilities'' = Inr aav'" and
    tqb: "\<forall>B. tight_discretized ''bound_flux'' = Some (Mat B) \<longrightarrow>
          (\<forall>f k. f \<in> set (boundary_faces ex_grid) \<and> k < length (incid ex_grid) \<and>
               fi ex_grid ! k = f \<and> is_dir tight_param ! f \<and> \<not> is_neu tight_param ! f \<longrightarrow>
             (\<exists>t. t_face ex_grid tight_param aav' ! k = Fin t \<and>
                entry B f f = - t * sgn_of ex_grid ! k)) \<and>
          (\<forall>f k. f \<in> set (boundary_faces ex_grid) \<and> k < length (incid ex_grid) \<and>
               fi ex_grid ! k = f \<and> is_neu tight_param ! f \<longrightarrow>
             entry B f f = 1 * sgn_of ex_grid ! k)"
    by (elim exE conjE) (rule that, assumption+)
  from tqb tk have
    dir': "\<forall>f k. f \<in> set (boundary_faces ex_grid) \<and> k < length (incid ex_grid) \<and>
            fi ex_grid ! k = f \<and> is_dir tight_param ! f \<and> \<not> is_neu tight_param ! f \<longrightarrow>
            (\<exists>t. t_face ex_grid tight_param aav' ! k = Fin t \<and>
               entry ?TB f f = - t * sgn_of ex_grid ! k)"
    by blast
  have na': "aav' = False" using a' by (simp add: tight_fit)
  have "0 \<in> set (boundary_faces ex_grid) \<and> 0 < length (incid ex_grid) \<and>
        fi ex_grid ! 0 = 0 \<and> is_dir tight_param ! 0 \<and> \<not> is_neu tight_param ! 0"
    by (simp add: bf ex_incid ex_fi) (simp add: tight_param_def)
  with dir' obtain t0 where
    "t_face ex_grid tight_param aav' ! 0 = Fin t0" "entry ?TB 0 0 = - t0 * sgn_of ex_grid ! 0"
    by blast
  then have c0: "entry ?TB 0 0 = 2" by (simp add: na' tight_t_face ex_sgn)
  have "2 \<in> set (boundary_faces ex_grid) \<and> 3 < length (incid ex_grid) \<and>
        fi ex_grid ! 3 = 2 \<and> is_dir tight_param ! 2 \<and> \<not> is_neu tight_param ! 2"
    by (simp add: bf ex_incid ex_fi) (simp add: tight_param_def)
  with dir' obtain t2 where
    "t_face ex_grid tight_param aav' ! 3 = Fin t2" "entry ?TB 2 2 = - t2 * sgn_of ex_grid ! 3"
    by blast
  then have c2: "entry ?TB 2 2 = 0" by (simp add: na' tight_t_face ex_sgn)
  have t3: "t_face ex_grid tight_param False ! 3 = Fin 0" by (simp add: tight_t_face)
  have E2: "\<exists>B. tight_discretized ''bound_flux'' = Some (Mat B) \<and> entry B 0 0 = 2 \<and>
      entry B 2 2 = 0"
    using tk c0 c2 by blast
  show ?thesis
    using h2 h3 h4 bf ex_single_incidence E1 s3 sealed_discretize sk(3) st3 ES
      g3 tight_discretize t3 E2
    by (intro conjI)
qed

subsection \<open>Assembly on one grid\<close>

lemma bincount_len_eq:
  assumes "xs \<noteq> []" "\<forall>x \<in> set xs. x < n" "\<forall>c < n. c \<in> set xs"
  shows "bincount_len xs = n"
proof -
  from assms(1) obtain x where "x \<in> set xs" by (cases xs) auto
  with assms(2) have n: "0 < n" by force
  have "Max (set xs) \<in> set xs" using assms(1) by simp
  then have "Max (set xs) < n" using assms(2) by blast
  moreover have "n - 1 \<in> set xs" using assms(3) n by simp
  then have "n - 1 \<le> Max (set xs)" by simp
  ultimately have "Suc (Max (set xs)) = n" by linarith
  then show ?thesis using assms(1) by (simp add: bincount_len_def)
qed

lemma shape_flux_m:
  "nrows (flux_m g p faces aav) = bincount_len (fi g)"
  "ncols (flux_m g p faces aav) = bincount_len (ci g)"
  by (simp_all add: flux_m_def coo_matrix_infer_def coo_matrix_def)

lemma shape_bound_flux_m:
  "nrows (bound_flux_m g p aav) = num_faces g" "ncols (bound_flux_m g p aav) = num_faces g"
  by (simp_all add: bound_flux_m_def coo_matrix_def)

lemma shape_scalar_divergence:
  "nrows (scalar_divergence g) = ncols (cell_faces g)"
  "ncols (scalar_divergence g) = nrows (cell_faces g)"
  "nrows (neg_m A) = nrows A" "ncols (neg_m A) = ncols A"
  by (simp_all add: scalar_divergence_def transpose_m_def neg_m_def)

lemma mat_mul_shape:
  assumes "ncols A = nrows B"
  shows "\<exists>M. mat_mul A B = Inr M \<and> nrows M = nrows A \<and> ncols M = ncols B"
  using assms by (simp add: mat_mul_def tabulate_m_def)

text \<open>
  Claim C1, amended. On a grid of dimension at least one whose incidence matrix has
  the shape faces by cells and in which every cell has a face, with as many boundary
  values as faces, and for which \<^verbatim>\<open>Tpfa.discretize\<close> stores a finite flux operator and
  a finite boundary-flux operator (a zero half-transmissibility does not prevent
  that, and the other operators need not be finite): \<^verbatim>\<open>Tpfa.matrix_rhs\<close>, whether it
  discretizes first or reuses the discretized record, returns the divergence operator
  times the stored flux operator, a square matrix of size \<open>num_cells\<close>, and the
  right-hand side minus the divergence operator (not its transpose) times the
  boundary-flux operator times the boundary values.
\<close>

theorem matrix_rhs_assembly:
  assumes "dim g \<noteq> 0" and "d ''param'' = Some (Par p)" and "discretize g d None = Inr d1"
    and "d1 ''flux'' = Some (Mat F)" and "d1 ''bound_flux'' = Some (Mat B)"
    and "nrows (cell_faces g) = num_faces g" and "ncols (cell_faces g) = num_cells g"
    and "\<forall>c < num_cells g. c \<in> set (ci g)"
    and "length (bc_val p) = num_faces g"
  shows "\<exists>M X r.
           matrix_rhs g d True = Inr (M, r, d1) \<and> matrix_rhs g d1 False = Inr (M, r, d1) \<and>
           mat_mul (scalar_divergence g) F = Inr M \<and>
           nrows M = num_cells g \<and> ncols M = num_cells g \<and>
           mat_mul (neg_m (scalar_divergence g)) B = Inr X \<and>
           mat_vec X (bc_val p) = Inr r \<and> length r = num_cells g"
proof -
  from discretize_InrD [OF assms(3,1)] assms(2) obtain aav where
    msk: "mask_fit g p" and
    d1: "d1 = d(''flux'' \<mapsto> store_m (flux_data g p None aav) (flux_m g p None aav),
                ''bound_flux'' \<mapsto> store_m (bound_flux_data g p aav) (bound_flux_m g p aav),
                ''bound_pressure_cell'' \<mapsto> Mat (bound_pressure_cell_m g p),
                ''bound_pressure_face'' \<mapsto>
                  store_m (v_face g p aav) (bound_pressure_face_m g p aav))"
    by auto
  let ?D = "scalar_divergence g"
  have "store_m (flux_data g p None aav) (flux_m g p None aav) = Mat F"
    using assms(4) by (simp add: d1)
  then have F: "F = flux_m g p None aav" by simp
  have "store_m (bound_flux_data g p aav) (bound_flux_m g p aav) = Mat B"
    using assms(5) by (simp add: d1)
  then have B: "B = bound_flux_m g p aav" by simp
  have key: "d1 ''param'' = Some (Par p)"
    using assms(2) by (simp add: d1)
  have nf: "bincount_len (fi g) = num_faces g"
    using msk by (simp add: mask_fit_def)
  have "ci g \<noteq> []" using msk by (simp add: mask_fit_def ci_def cols_of_def)
  moreover have "\<forall>c \<in> set (ci g). c < num_cells g" using msk by (simp add: mask_fit_def)
  ultimately have nc: "bincount_len (ci g) = num_cells g"
    using assms(8) by (rule bincount_len_eq)
  have "ncols ?D = nrows F"
    by (simp add: F shape_scalar_divergence shape_flux_m nf assms(6))
  from mat_mul_shape [OF this] obtain M where
    M: "mat_mul ?D F = Inr M" "nrows M = nrows ?D" "ncols M = ncols F"
    by blast
  have "ncols (neg_m ?D) = nrows B"
    by (simp add: B shape_scalar_divergence shape_bound_flux_m assms(6))
  from mat_mul_shape [OF this] obtain X where
    X: "mat_mul (neg_m ?D) B = Inr X" "nrows X = nrows (neg_m ?D)" "ncols X = ncols B"
    by blast
  have "ncols X = length (bc_val p)"
    by (simp add: X(3) B shape_bound_flux_m assms(9))
  from mat_vec_nth [OF this] obtain r where
    r: "mat_vec X (bc_val p) = Inr r" "length r = nrows X"
    by blast
  have r': "rhs g (Mat B) (bc_val p) = Inr r"
    using X(1) r(1) by (simp add: rhs_def times_val_def scalar_divergence_def)
  have m1: "matrix_rhs g d1 False = Inr (M, r, d1)"
    using assms(4,5) key M(1) r' by (simp add: matrix_rhs_def times_val_def)
  have m2: "matrix_rhs g d True = Inr (M, r, d1)"
    using assms(3,4,5) key M(1) r' by (simp add: matrix_rhs_def times_val_def)
  have sh: "nrows M = num_cells g" "ncols M = num_cells g" "length r = num_cells g"
    by (simp_all add: M(2,3) r(2) X(2) F shape_scalar_divergence shape_flux_m nc assms(7))
  show ?thesis
    apply (rule exI [of _ M], rule exI [of _ X], rule exI [of _ r])
    using m1 m2 M(1) sh X(1) r(1) by (intro conjI)
qed

lemma ex_divergence:
  "scalar_divergence ex_grid =
     \<lparr>nrows = 2, ncols = 3, trip = [(0, 0, - 1), (0, 1, 1), (1, 1, - 1), (1, 2, 1)]\<rparr>"
  by (simp add: scalar_divergence_def transpose_m_def ex_grid_def)

lemma ex_matrix:
  "mat_mul (scalar_divergence ex_grid) (flux_m ex_grid ex_param None False) =
     Inr \<lparr>nrows = 2, ncols = 2,
          trip = [(0, 0, 7 / 2), (0, 1, - (3 / 2)), (1, 0, - (3 / 2)), (1, 1, 3 / 2)]\<rparr>"
  by (simp add: ex_divergence ex_flux_m mat_mul_def tabulate_m_def entry_def upt2 upt3)

lemma ex_rhs:
  "rhs ex_grid (Mat (bound_flux_m ex_grid ex_param False)) [1, 0, 2] = Inr [2, - 2]"
proof -
  have "transpose_m (cell_faces ex_grid) = scalar_divergence ex_grid"
    by (simp add: scalar_divergence_def)
  then show ?thesis
    by (simp add: rhs_def times_val_def ex_divergence ex_bound_flux_m mat_mul_def mat_vec_def
        neg_m_def tabulate_m_def entry_def upt2 upt3)
qed

lemma ex_matrix_rhs:
  "matrix_rhs ex_grid ex_data True =
     Inr (\<lparr>nrows = 2, ncols = 2,
           trip = [(0, 0, 7 / 2), (0, 1, - (3 / 2)), (1, 0, - (3 / 2)), (1, 1, 3 / 2)]\<rparr>,
          [2, - 2], ex_discretized)"
proof -
  have k: "ex_discretized ''flux'' = Some (Mat (flux_m ex_grid ex_param None False))"
    "ex_discretized ''bound_flux'' = Some (Mat (bound_flux_m ex_grid ex_param False))"
    "ex_discretized ''param'' = Some (Par ex_param)"
    by (simp_all add: ex_discretized_def ex_data_def)
  have b: "bc_val ex_param = [1, 0, 2]" by (simp add: ex_param_def)
  show ?thesis
    by (simp add: matrix_rhs_def ex_discretize k times_val_def ex_matrix b ex_rhs)
qed


lemma sealed_matrix_rhs:
  "matrix_rhs ex_grid sealed_data True =
     Inr (\<lparr>nrows = 2, ncols = 2, trip = [(0, 0, 2), (0, 1, 0), (1, 0, 0), (1, 1, 0)]\<rparr>,
          [2, - 2], sealed_discretized)"
proof -
  have k: "sealed_discretized ''flux'' =
      Some (Mat \<lparr>nrows = 3, ncols = 2, trip = [(0, 0, - 2), (1, 0, 0), (1, 1, 0), (2, 1, 0)]\<rparr>)"
    "sealed_discretized ''bound_flux'' =
      Some (Mat \<lparr>nrows = 3, ncols = 3, trip = [(0, 0, 2), (2, 2, 1)]\<rparr>)"
    "sealed_discretized ''param'' = Some (Par sealed_param)"
    by (simp_all add: sealed_discretized_def sealed_data_def)
  have b: "bc_val sealed_param = [1, 0, 2]" by (simp add: sealed_param_def)
  have t: "transpose_m (cell_faces ex_grid) = scalar_divergence ex_grid"
    by (simp add: scalar_divergence_def)
  have m: "mat_mul (scalar_divergence ex_grid)
      \<lparr>nrows = 3, ncols = 2, trip = [(0, 0, - 2), (1, 0, 0), (1, 1, 0), (2, 1, 0)]\<rparr> =
     Inr \<lparr>nrows = 2, ncols = 2, trip = [(0, 0, 2), (0, 1, 0), (1, 0, 0), (1, 1, 0)]\<rparr>"
    by (simp add: ex_divergence mat_mul_def tabulate_m_def entry_def upt2 upt3)
  have r: "rhs ex_grid (Mat \<lparr>nrows = 3, ncols = 3, trip = [(0, 0, 2), (2, 2, 1)]\<rparr>) [1, 0, 2] =
      Inr [2, - 2]"
    by (simp add: rhs_def times_val_def t ex_divergence mat_mul_def mat_vec_def
        neg_m_def tabulate_m_def entry_def upt2 upt3)
  show ?thesis
    using m r by (simp add: matrix_rhs_def sealed_discretize k times_val_def b)
qed

theorem matrix_rhs_assembly_witness:
  "dim ex_grid \<noteq> 0 \<and> ex_data ''param'' = Some (Par ex_param) \<and>
   discretize ex_grid ex_data None = Inr ex_discretized \<and>
   ex_discretized ''flux'' = Some (Mat (flux_m ex_grid ex_param None False)) \<and>
   ex_discretized ''bound_flux'' = Some (Mat (bound_flux_m ex_grid ex_param False)) \<and>
   nrows (cell_faces ex_grid) = num_faces ex_grid \<and>
   ncols (cell_faces ex_grid) = num_cells ex_grid \<and>
   num_cells ex_grid = 2 \<and> 0 \<in> set (ci ex_grid) \<and> 1 \<in> set (ci ex_grid) \<and>
   length (bc_val ex_param) = num_faces ex_grid \<and>
   (\<exists>M X r. matrix_rhs ex_grid ex_data True = Inr (M, r, ex_discretized) \<and>
      matrix_rhs ex_grid ex_discretized False = Inr (M, r, ex_discretized) \<and>
      nrows M = 2 \<and> ncols M = 2 \<and>
      mat_mul (neg_m (scalar_divergence ex_grid)) (bound_flux_m ex_grid ex_param False) = Inr X \<and>
      mat_vec X [1, 0, 2] = Inr r \<and> r = [2, - 2]) \<and>
   sealed_data ''param'' = Some (Par sealed_param) \<and>
   discretize ex_grid sealed_data None = Inr sealed_discretized \<and>
   sealed_discretized ''bound_pressure_face'' = Some (NotFinite 3 3) \<and>
   length (bc_val sealed_param) = num_faces ex_grid \<and>
   (\<exists>M r. matrix_rhs ex_grid sealed_data True = Inr (M, r, sealed_discretized) \<and>
      matrix_rhs ex_grid sealed_discretized False = Inr (M, r, sealed_discretized) \<and>
      nrows M = 2 \<and> ncols M = 2 \<and> r = [2, - 2])"
proof -
  have h1: "dim ex_grid \<noteq> 0" by (simp add: ex_grid_def)
  have h2: "ex_data ''param'' = Some (Par ex_param)" by (simp add: ex_data_def)
  have h4: "nrows (cell_faces ex_grid) = num_faces ex_grid"
    and h5: "ncols (cell_faces ex_grid) = num_cells ex_grid"
    and nc: "num_cells ex_grid = 2"
    by (simp_all add: ex_grid_def)
  have ci: "0 \<in> set (ci ex_grid)" "1 \<in> set (ci ex_grid)" by (simp_all add: ex_ci)
  have h6: "\<forall>c < num_cells ex_grid. c \<in> set (ci ex_grid)"
    using ci by (simp add: nc less_Suc_eq numeral_2_eq_2)
  have h7: "length (bc_val ex_param) = num_faces ex_grid"
    by (simp add: ex_param_def ex_grid_def)
  have bc: "bc_val ex_param = [1, 0, 2]" by (simp add: ex_param_def)
  have kf: "ex_discretized ''flux'' = Some (Mat (flux_m ex_grid ex_param None False))"
    and kb: "ex_discretized ''bound_flux'' = Some (Mat (bound_flux_m ex_grid ex_param False))"
    by (simp_all add: ex_discretized_def)
  from matrix_rhs_assembly [of ex_grid ex_data ex_param ex_discretized
      "flux_m ex_grid ex_param None False" "bound_flux_m ex_grid ex_param False",
      OF h1 h2 ex_discretize kf kb h4 h5 h6 h7]
  obtain M X r where
    a: "matrix_rhs ex_grid ex_data True = Inr (M, r, ex_discretized)"
       "matrix_rhs ex_grid ex_discretized False = Inr (M, r, ex_discretized)"
       "nrows M = num_cells ex_grid" "ncols M = num_cells ex_grid"
       "mat_mul (neg_m (scalar_divergence ex_grid)) (bound_flux_m ex_grid ex_param False) = Inr X"
       "mat_vec X (bc_val ex_param) = Inr r"
    by (elim exE conjE) (rule that, assumption+)
  have "r = [2, - 2]" using a(1) by (simp add: ex_matrix_rhs)
  then have E1: "\<exists>M X r. matrix_rhs ex_grid ex_data True = Inr (M, r, ex_discretized) \<and>
      matrix_rhs ex_grid ex_discretized False = Inr (M, r, ex_discretized) \<and>
      nrows M = 2 \<and> ncols M = 2 \<and>
      mat_mul (neg_m (scalar_divergence ex_grid)) (bound_flux_m ex_grid ex_param False) = Inr X \<and>
      mat_vec X [1, 0, 2] = Inr r \<and> r = [2, - 2]"
    using a unfolding bc nc by blast
  have g2: "sealed_data ''param'' = Some (Par sealed_param)" by (simp add: sealed_data_def)
  have g7: "length (bc_val sealed_param) = num_faces ex_grid"
    by (simp add: sealed_param_def ex_grid_def)
  have sk: "sealed_discretized ''flux'' =
      Some (Mat \<lparr>nrows = 3, ncols = 2, trip = [(0, 0, - 2), (1, 0, 0), (1, 1, 0), (2, 1, 0)]\<rparr>)"
    "sealed_discretized ''bound_flux'' =
      Some (Mat \<lparr>nrows = 3, ncols = 3, trip = [(0, 0, 2), (2, 2, 1)]\<rparr>)"
    "sealed_discretized ''bound_pressure_face'' = Some (NotFinite 3 3)"
    by (simp_all add: sealed_discretized_def)
  from matrix_rhs_assembly [of ex_grid sealed_data sealed_param sealed_discretized _ _,
      OF h1 g2 sealed_discretize sk(1,2) h4 h5 h6 g7]
  obtain M' X' r' where
    a': "matrix_rhs ex_grid sealed_data True = Inr (M', r', sealed_discretized)"
       "matrix_rhs ex_grid sealed_discretized False = Inr (M', r', sealed_discretized)"
       "nrows M' = num_cells ex_grid" "ncols M' = num_cells ex_grid"
    by (elim exE conjE) (rule that, assumption+)
  have "r' = [2, - 2]" using a'(1) by (simp add: sealed_matrix_rhs)
  then have E2: "\<exists>M r. matrix_rhs ex_grid sealed_data True = Inr (M, r, sealed_discretized) \<and>
      matrix_rhs ex_grid sealed_discretized False = Inr (M, r, sealed_discretized) \<and>
      nrows M = 2 \<and> ncols M = 2 \<and> r = [2, - 2]"
    using a' unfolding nc by blast
  show ?thesis
    using h1 h2 ex_discretize kf kb h4 h5 nc ci h7 E1 g2 sealed_discretize sk(3) g7 E2
    by (intro conjI)
qed

text \<open>
  On the small grid the right-hand side is \<open>[2, - 2]\<close>, while the product that starts
  with the transposed divergence operator does not exist: that operator has two
  columns and the boundary-flux operator three rows.
\<close>

theorem rhs_transposed_counterexample:
  "matrix_rhs ex_grid ex_data True =
     Inr (\<lparr>nrows = 2, ncols = 2,
           trip = [(0, 0, 7 / 2), (0, 1, - (3 / 2)), (1, 0, - (3 / 2)), (1, 1, 3 / 2)]\<rparr>,
          [2, - 2], ex_discretized) \<and>
   ex_discretized ''bound_flux'' = Some (Mat (bound_flux_m ex_grid ex_param False)) \<and>
   spec_rhs ex_grid (bound_flux_m ex_grid ex_param False) (bc_val ex_param) = Inl ValueError"
proof -
  have "spec_rhs ex_grid (bound_flux_m ex_grid ex_param False) (bc_val ex_param) = Inl ValueError"
    by (simp add: spec_rhs_def ex_divergence ex_bound_flux_m mat_mul_def transpose_m_def neg_m_def)
  moreover have "ex_discretized ''bound_flux'' = Some (Mat (bound_flux_m ex_grid ex_param False))"
    by (simp add: ex_discretized_def)
  ultimately show ?thesis using ex_matrix_rhs by simp
qed

subsection \<open>The mortar coupling\<close>

lemma entry_alt:
  "entry M i j =
     sum_list (map (\<lambda>t. snd (snd t)) (filter (\<lambda>t. fst t = i \<and> fst (snd t) = j) (trip M)))"
  by (simp add: entry_def case_prod_unfold)




lemma entry_zeros_m [simp]: "entry (zeros_m m n) i j = 0"
  by (simp add: entry_def zeros_m_def)









lemma lookup_InrD:
  assumes "lookup d key = Inr v"
  shows "d key = Some v"
  using assms by (cases "d key") (simp_all add: lookup_def)

lemma coupling_setup_InrD:
  assumes "coupling_setup g_h g_l data_h data_edge = Inr s"
  shows "\<exists>mg bpc bpf bf kn inv_k p a w eta.
           data_edge ''mortar_grid'' = Some (MG mg) \<and>
           data_h ''bound_pressure_cell'' = Some bpc \<and>
           data_h ''bound_pressure_face'' = Some bpf \<and>
           data_h ''bound_flux'' = Some bf \<and>
           data_edge ''kn'' = Some kn \<and> inv_k_of kn = Inr inv_k \<and>
           data_h ''param'' = Some (Par p) \<and> aperture p = Some a \<and>
           mat_vec (high_to_mortar_avg mg) (take_idx a (cells_of_faces g_h)) = Inr w \<and>
           np_divide inv_k w = Inr eta \<and> 0 \<notin> set (cell_volumes mg) \<and>
           s = \<lparr>cs_mg = mg, cs_bound_pressure_cc_h = bpc, cs_bound_pressure_face_h = bpf,
                cs_bound_flux_h = bf, cs_div_h = scalar_divergence g_h,
                cs_hat_P = high_to_mortar_avg mg, cs_check_P = low_to_mortar_avg mg,
                cs_cc = create_block_matrix [num_cells g_h, num_cells g_l, mg_num_cells mg],
                cs_Eta = diags eta, cs_M = diags (map (\<lambda>x. 1 / x) (cell_volumes mg))\<rparr>"
  using assms unfolding coupling_setup_def Let_def
  by (auto simp add: thenE_def lookup_def
      split: option.splits val.splits sum.splits if_splits)


lemma ex_cells_of_faces: "cells_of_faces ex_grid = [0, 0, 1]"
  by (simp add: cells_of_faces_def unique_index_def first_index_def find_nz_def rows_of_def
      cols_of_def take_idx_def ex_grid_def)

lemma ex_bound_pressure_face_m:
  "bound_pressure_face_m ex_grid ex_param False =
     \<lparr>nrows = 3, ncols = 3, trip = [(0, 0, 1), (1, 1, 0), (2, 2, - (1 / 6))]\<rparr>"
  by (simp add: bound_pressure_face_m_def diags_def ex_v_face upt3)

lemma ex_bound_pressure_cell_m:
  "bound_pressure_cell_m ex_grid ex_param =
     \<lparr>nrows = 3, ncols = 2, trip = [(0, 0, 0), (1, 0, 0), (1, 1, 0), (2, 1, 1)]\<rparr>"
  by (simp add: bound_pressure_cell_m_def coo_matrix_def v_cell_def set_mask_def take_idx_def
      ex_fi ex_ci upt4)
     (simp add: ex_grid_def ex_param_def)

lemma ex_setup: "coupling_setup ex_grid pt_grid ex_discretized ex_edge = Inr ex_state"
proof -
  have k: "ex_edge ''mortar_grid'' = Some (MG ex_mg)" "ex_edge ''kn'' = Some (Num 1)"
    by (simp_all add: ex_edge_def)
  have h: "ex_discretized ''bound_pressure_cell'' = Some (Mat (bound_pressure_cell_m ex_grid ex_param))"
    "ex_discretized ''bound_pressure_face'' = Some (Mat (bound_pressure_face_m ex_grid ex_param False))"
    "ex_discretized ''bound_flux'' = Some (Mat (bound_flux_m ex_grid ex_param False))"
    "ex_discretized ''param'' = Some (Par ex_param)"
    by (simp_all add: ex_discretized_def ex_data_def)
  have a: "aperture ex_param = Some [1, 1]" by (simp add: ex_param_def)
  have w: "mat_vec (high_to_mortar_avg ex_mg) (take_idx [1, 1] [0, 0, 1]) = Inr [1]"
    by (simp add: mat_vec_def ex_mg_def take_idx_def entry_def upt3)
  have n: "num_cells ex_grid = 2" "num_cells pt_grid = 1" "mg_num_cells ex_mg = 1"
    "cell_volumes ex_mg = [2]"
    by (simp_all add: ex_grid_def pt_grid_def ex_mg_def)
  show ?thesis
    using w
    by (simp add: coupling_setup_def Let_def k h a ex_cells_of_faces n inv_k_of_def
        np_divide_def ex_state_def)
qed


lemma ex_mortar_div_mat: "mortar_div_mat ex_state = Inr (diags [1])"
  by (simp add: mortar_div_mat_def ex_state_def ex_mg_def ex_divergence mat_mul_def
      transpose_m_def tabulate_m_def row_sums_def entry_def upt2 upt3)

lemma ex_coupling_blocks:
  "coupling_blocks ex_blocks ex_edge ex_state = Inr (ex_coupled, ex_edge_after)"
proof -
  have 1: "val_times (cs_bound_flux_h ex_state) (transpose_m (cs_hat_P ex_state)) =
           Inr \<lparr>nrows = 3, ncols = 1, trip = [(0, 0, 0), (1, 0, 0), (2, 0, 1)]\<rparr>"
    by (simp add: ex_state_def val_times_def ex_bound_flux_m ex_mg_def transpose_m_def
        mat_mul_def tabulate_m_def entry_def upt3)
  have 2: "mat_mul (cs_div_h ex_state) \<lparr>nrows = 3, ncols = 1, trip = [(0, 0, 0), (1, 0, 0), (2, 0, 1)]\<rparr> =
           Inr \<lparr>nrows = 2, ncols = 1, trip = [(0, 0, 0), (1, 0, 1)]\<rparr>"
    by (simp add: ex_state_def ex_divergence mat_mul_def tabulate_m_def entry_def upt2 upt3)
  have 3: "times_val (cs_hat_P ex_state) (cs_bound_pressure_cc_h ex_state) =
           Inr \<lparr>nrows = 1, ncols = 2, trip = [(0, 0, 0), (0, 1, 1)]\<rparr>"
    by (simp add: ex_state_def times_val_def ex_bound_pressure_cell_m ex_mg_def
        mat_mul_def tabulate_m_def entry_def upt2 upt3)
  have 4: "times_val (cs_hat_P ex_state) (cs_bound_pressure_face_h ex_state) =
           Inr \<lparr>nrows = 1, ncols = 3, trip = [(0, 0, 0), (0, 1, 0), (0, 2, - (1 / 6))]\<rparr>"
    by (simp add: ex_state_def times_val_def ex_bound_pressure_face_m ex_mg_def
        mat_mul_def tabulate_m_def entry_def upt3)
  have 5: "mat_mul \<lparr>nrows = 1, ncols = 3, trip = [(0, 0, 0), (0, 1, 0), (0, 2, - (1 / 6))]\<rparr>
             (transpose_m (cs_hat_P ex_state)) =
           Inr \<lparr>nrows = 1, ncols = 1, trip = [(0, 0, - (1 / 6))]\<rparr>"
    by (simp add: ex_state_def ex_mg_def transpose_m_def mat_mul_def tabulate_m_def entry_def upt3)
  have 6: "add_m (cs_cc ex_state ! 2 ! 2) \<lparr>nrows = 1, ncols = 1, trip = [(0, 0, - (1 / 6))]\<rparr> =
           Inr \<lparr>nrows = 1, ncols = 1, trip = [(0, 0, - (1 / 6))]\<rparr>"
    by (simp add: ex_state_def create_block_matrix_def zeros_m_def add_m_def)
  have 7: "mat_mul (cs_Eta ex_state) (cs_M ex_state) =
           Inr \<lparr>nrows = 1, ncols = 1, trip = [(0, 0, 1 / 4)]\<rparr>"
    by (simp add: ex_state_def diags_def mat_mul_def tabulate_m_def entry_def)
  have 8: "sub_m \<lparr>nrows = 1, ncols = 1, trip = [(0, 0, - (1 / 6))]\<rparr>
             \<lparr>nrows = 1, ncols = 1, trip = [(0, 0, 1 / 4)]\<rparr> =
           Inr \<lparr>nrows = 1, ncols = 1, trip = [(0, 0, - (1 / 6)), (0, 0, - (1 / 4))]\<rparr>"
    by (simp add: sub_m_def add_m_def neg_m_def)
  have cc: "cs_cc ex_state = [[zeros_m 2 2, zeros_m 2 1, zeros_m 2 1],
                              [zeros_m 1 2, zeros_m 1 1, zeros_m 1 1],
                              [zeros_m 1 2, zeros_m 1 1, zeros_m 1 1]]"
    "ex_blocks = [[zeros_m 2 2, zeros_m 2 1, zeros_m 2 1],
                  [zeros_m 1 2, zeros_m 1 1, zeros_m 1 1],
                  [zeros_m 1 2, zeros_m 1 1, zeros_m 1 1]]"
    by (simp_all add: ex_state_def ex_blocks_def create_block_matrix_def)
  have cp: "cs_check_P ex_state = \<lparr>nrows = 1, ncols = 1, trip = [(0, 0, 1)]\<rparr>"
    by (simp add: ex_state_def ex_mg_def)
  show ?thesis
    unfolding coupling_blocks_def 1 2 3 4 5 6 7 8 thenE_Inr Let_def
    by (simp add: cc cp add_blocks_def add_m_def zeros_m_def neg_m_def transpose_m_def
        ex_coupled_def ex_edge_after_def ex_weight_def)
qed



lemma mortar_div_mat_cases:
  "mortar_div_mat s =
     (if ncols (cs_hat_P s) = ncols (cs_div_h s)
      then Inr (diags (map sgn (row_sums (tabulate_m (nrows (cs_hat_P s)) (nrows (cs_div_h s))
             (\<lambda>i j. sum_list (map (\<lambda>k. entry (cs_hat_P s) i k * entry (transpose_m (cs_div_h s)) k j)
                      [0..<ncols (cs_hat_P s)]))))))
      else Inl ValueError)"
  by (simp add: mortar_div_mat_def mat_mul_def transpose_m_def)

subsection \<open>The orientation of the mortar cells\<close>

text \<open>
  Claim C10. The sign matrix of lines 345 and 346 is computed and never used: whenever
  \<^verbatim>\<open>TpfaCoupling.matrix_rhs\<close> returns, the same computation without these two lines
  returns the same block matrix and writes the same record; the two computations
  agree on every input in which the projection to the faces has as many columns as
  the higher-dimensional grid has rows in its incidence matrix; and on any other input
  the only difference is that the product of line 345 raises \<^verbatim>\<open>ValueError\<close>.
\<close>

theorem orientation_not_applied:
  "(\<forall>r. coupling_matrix_rhs matrix g_h g_l data_h data_l data_edge = Inr r \<longrightarrow>
        coupling_without_orientation matrix g_h g_l data_h data_l data_edge = Inr r) \<and>
   (\<forall>mg. data_edge ''mortar_grid'' = Some (MG mg) \<and>
         ncols (high_to_mortar_avg mg) = nrows (cell_faces g_h) \<longrightarrow>
        coupling_matrix_rhs matrix g_h g_l data_h data_l data_edge =
        coupling_without_orientation matrix g_h g_l data_h data_l data_edge) \<and>
   (coupling_matrix_rhs matrix g_h g_l data_h data_l data_edge =
      coupling_without_orientation matrix g_h g_l data_h data_l data_edge \<or>
    coupling_matrix_rhs matrix g_h g_l data_h data_l data_edge = Inl ValueError)"
proof (cases "coupling_setup g_h g_l data_h data_edge")
  case (Inl e)
  then show ?thesis
    by (simp add: coupling_matrix_rhs_def coupling_without_orientation_def)
next
  case (Inr s)
  from coupling_setup_InrD [OF Inr] obtain mg where
    mg: "data_edge ''mortar_grid'' = Some (MG mg)" and
    s: "cs_hat_P s = high_to_mortar_avg mg" "cs_div_h s = scalar_divergence g_h"
    by auto
  have w: "coupling_without_orientation matrix g_h g_l data_h data_l data_edge =
           coupling_blocks matrix data_edge s"
    by (simp add: coupling_without_orientation_def Inr)
  show ?thesis
  proof (cases "ncols (high_to_mortar_avg mg) = nrows (cell_faces g_h)")
    case True
    then have "coupling_matrix_rhs matrix g_h g_l data_h data_l data_edge =
               coupling_blocks matrix data_edge s"
      by (simp add: coupling_matrix_rhs_def Inr mortar_div_mat_cases s shape_scalar_divergence)
    then show ?thesis by (simp add: w)
  next
    case False
    then have "coupling_matrix_rhs matrix g_h g_l data_h data_l data_edge = Inl ValueError"
      by (simp add: coupling_matrix_rhs_def Inr mortar_div_mat_cases s shape_scalar_divergence)
    then show ?thesis using False mg by simp
  qed
qed

theorem orientation_not_applied_witness:
  "ex_edge ''mortar_grid'' = Some (MG ex_mg) \<and>
   ncols (high_to_mortar_avg ex_mg) = nrows (cell_faces ex_grid) \<and>
   coupling_matrix_rhs ex_blocks ex_grid pt_grid ex_discretized Map.empty ex_edge =
     coupling_without_orientation ex_blocks ex_grid pt_grid ex_discretized Map.empty ex_edge \<and>
   (\<exists>r. coupling_matrix_rhs ex_blocks ex_grid pt_grid ex_discretized Map.empty ex_edge = Inr r \<and>
        coupling_without_orientation ex_blocks ex_grid pt_grid ex_discretized Map.empty ex_edge = Inr r)"
proof -
  have h1: "ex_edge ''mortar_grid'' = Some (MG ex_mg)" by (simp add: ex_edge_def)
  have h2: "ncols (high_to_mortar_avg ex_mg) = nrows (cell_faces ex_grid)"
    by (simp add: ex_mg_def ex_grid_def)
  obtain r where
    r: "coupling_blocks ex_blocks ex_edge ex_state = Inr r"
    using ex_coupling_blocks by blast
  have c: "coupling_matrix_rhs ex_blocks ex_grid pt_grid ex_discretized Map.empty ex_edge = Inr r"
    by (simp add: coupling_matrix_rhs_def ex_setup ex_mortar_div_mat r)
  note t = orientation_not_applied [of ex_blocks ex_grid pt_grid ex_discretized Map.empty ex_edge]
  from t c have "coupling_without_orientation ex_blocks ex_grid pt_grid ex_discretized Map.empty
      ex_edge = Inr r"
    by blast
  moreover from t h1 h2
  have "coupling_matrix_rhs ex_blocks ex_grid pt_grid ex_discretized Map.empty ex_edge =
     coupling_without_orientation ex_blocks ex_grid pt_grid ex_discretized Map.empty ex_edge"
    by blast
  ultimately show ?thesis using h1 h2 c by blast
qed





subsection \<open>The mortar block\<close>






subsection \<open>Missing keys\<close>

lemma matrix_rhs_no_flux:
  assumes "d ''flux'' = None"
  shows "matrix_rhs g d False = Inl (KeyError ''flux'')"
  using assms by (simp add: matrix_rhs_def)

lemma matrix_rhs_no_bound_flux:
  assumes "d ''bound_flux'' = None"
  shows "\<exists>e. matrix_rhs g d False = Inl e"
    and "d ''flux'' = Some fl \<Longrightarrow> times_val (scalar_divergence g) fl = Inr M \<Longrightarrow>
         matrix_rhs g d False = Inl (KeyError ''bound_flux'')"
proof -
  show "\<exists>e. matrix_rhs g d False = Inl e"
  proof (cases "d ''flux''")
    case None
    then show ?thesis by (simp add: matrix_rhs_no_flux)
  next
    case (Some fl)
    then show ?thesis
      using assms by (cases "times_val (scalar_divergence g) fl") (simp_all add: matrix_rhs_def)
  qed
  show "matrix_rhs g d False = Inl (KeyError ''bound_flux'')"
    if "d ''flux'' = Some fl" "times_val (scalar_divergence g) fl = Inr M"
    using that assms by (simp add: matrix_rhs_def)
qed

lemma coupling_missing:
  assumes "de ''mortar_grid'' = Some (MG mg)"
  shows "dh ''bound_pressure_cell'' = None \<Longrightarrow>
           coupling_matrix_rhs matrix g_h g_l dh dl de = Inl (KeyError ''bound_pressure_cell'')"
    and "dh ''bound_pressure_cell'' = Some x \<Longrightarrow> dh ''bound_pressure_face'' = None \<Longrightarrow>
           coupling_matrix_rhs matrix g_h g_l dh dl de = Inl (KeyError ''bound_pressure_face'')"
    and "dh ''bound_pressure_cell'' = Some x \<Longrightarrow> dh ''bound_pressure_face'' = Some y \<Longrightarrow>
           dh ''bound_flux'' = None \<Longrightarrow>
           coupling_matrix_rhs matrix g_h g_l dh dl de = Inl (KeyError ''bound_flux'')"
  using assms by (simp_all add: coupling_matrix_rhs_def coupling_setup_def)

lemma coupling_missing_any:
  assumes "dh ''bound_pressure_cell'' = None \<or> dh ''bound_pressure_face'' = None \<or>
           dh ''bound_flux'' = None"
  shows "\<exists>e. coupling_matrix_rhs matrix g_h g_l dh dl de = Inl e"
proof (cases "de ''mortar_grid''")
  case None
  then show ?thesis by (simp add: coupling_matrix_rhs_def coupling_setup_def)
next
  case (Some v)
  show ?thesis
  proof (cases "\<exists>mg. v = MG mg")
    case True
    then obtain mg where mg: "de ''mortar_grid'' = Some (MG mg)" using Some by blast
    show ?thesis
    proof (cases "dh ''bound_pressure_cell''")
      case None
      then show ?thesis using coupling_missing(1) [of de mg dh] mg by blast
    next
      case c: (Some x)
      show ?thesis
      proof (cases "dh ''bound_pressure_face''")
        case None
        then show ?thesis using coupling_missing(2) [of de mg dh x] mg c by blast
      next
        case f: (Some y)
        then have "dh ''bound_flux'' = None" using assms c by simp
        then show ?thesis using coupling_missing(3) [of de mg dh x y] mg c f by blast
      qed
    qed
  next
    case False
    then show ?thesis
      using Some by (cases v) (simp_all add: coupling_matrix_rhs_def coupling_setup_def)
  qed
qed

text \<open>
  Claim C8. A record that is reused without a required key makes the assembly fail;
  nothing is recomputed and no default is taken. \<^verbatim>\<open>Tpfa.matrix_rhs\<close> with
  \<^verbatim>\<open>discretize=False\<close> raises \<^verbatim>\<open>KeyError\<close> for \<^verbatim>\<open>flux\<close> when that key is absent, and
  for \<^verbatim>\<open>bound_flux\<close> when that key is absent and the stored flux fits the divergence
  operator (a stored flux of another shape fails earlier, in the product).
  \<^verbatim>\<open>TpfaCoupling.matrix_rhs\<close>, given the mortar grid in the record of the interface,
  raises \<^verbatim>\<open>KeyError\<close> for the first of \<^verbatim>\<open>bound_pressure_cell\<close>, \<^verbatim>\<open>bound_pressure_face\<close> and
  \<^verbatim>\<open>bound_flux\<close> that the record of the higher-dimensional grid lacks. In every case
  the result is an error.
\<close>

theorem missing_keys_fail:
  "(d ''flux'' = None \<longrightarrow> matrix_rhs g d False = Inl (KeyError ''flux'')) \<and>
   (\<forall>fl M. d ''flux'' = Some fl \<and> times_val (scalar_divergence g) fl = Inr M \<and>
        d ''bound_flux'' = None \<longrightarrow>
      matrix_rhs g d False = Inl (KeyError ''bound_flux'')) \<and>
   (d ''flux'' = None \<or> d ''bound_flux'' = None \<longrightarrow> (\<exists>e. matrix_rhs g d False = Inl e)) \<and>
   (\<forall>mg. de ''mortar_grid'' = Some (MG mg) \<and> dh ''bound_pressure_cell'' = None \<longrightarrow>
      coupling_matrix_rhs matrix g_h g_l dh dl de = Inl (KeyError ''bound_pressure_cell'')) \<and>
   (\<forall>mg x. de ''mortar_grid'' = Some (MG mg) \<and> dh ''bound_pressure_cell'' = Some x \<and>
        dh ''bound_pressure_face'' = None \<longrightarrow>
      coupling_matrix_rhs matrix g_h g_l dh dl de = Inl (KeyError ''bound_pressure_face'')) \<and>
   (\<forall>mg x y. de ''mortar_grid'' = Some (MG mg) \<and> dh ''bound_pressure_cell'' = Some x \<and>
        dh ''bound_pressure_face'' = Some y \<and> dh ''bound_flux'' = None \<longrightarrow>
      coupling_matrix_rhs matrix g_h g_l dh dl de = Inl (KeyError ''bound_flux'')) \<and>
   (dh ''bound_pressure_cell'' = None \<or> dh ''bound_pressure_face'' = None \<or>
    dh ''bound_flux'' = None \<longrightarrow>
      (\<exists>e. coupling_matrix_rhs matrix g_h g_l dh dl de = Inl e))"
proof (intro conjI allI impI)
  show "matrix_rhs g d False = Inl (KeyError ''flux'')" if "d ''flux'' = None"
    using that by (rule matrix_rhs_no_flux)
  show "matrix_rhs g d False = Inl (KeyError ''bound_flux'')"
    if "d ''flux'' = Some fl \<and> times_val (scalar_divergence g) fl = Inr M \<and>
        d ''bound_flux'' = None" for fl M
    using that matrix_rhs_no_bound_flux(2) [of d fl g M] by blast
  show "\<exists>e. matrix_rhs g d False = Inl e" if "d ''flux'' = None \<or> d ''bound_flux'' = None"
    using that matrix_rhs_no_flux [of d g] matrix_rhs_no_bound_flux(1) [of d g] by auto
  show "coupling_matrix_rhs matrix g_h g_l dh dl de = Inl (KeyError ''bound_pressure_cell'')"
    if "de ''mortar_grid'' = Some (MG mg) \<and> dh ''bound_pressure_cell'' = None" for mg
    using that coupling_missing(1) by blast
  show "coupling_matrix_rhs matrix g_h g_l dh dl de = Inl (KeyError ''bound_pressure_face'')"
    if "de ''mortar_grid'' = Some (MG mg) \<and> dh ''bound_pressure_cell'' = Some x \<and>
        dh ''bound_pressure_face'' = None" for mg x
    using that coupling_missing(2) by blast
  show "coupling_matrix_rhs matrix g_h g_l dh dl de = Inl (KeyError ''bound_flux'')"
    if "de ''mortar_grid'' = Some (MG mg) \<and> dh ''bound_pressure_cell'' = Some x \<and>
        dh ''bound_pressure_face'' = Some y \<and> dh ''bound_flux'' = None" for mg x y
    using that coupling_missing(3) by blast
  show "\<exists>e. coupling_matrix_rhs matrix g_h g_l dh dl de = Inl e"
    if "dh ''bound_pressure_cell'' = None \<or> dh ''bound_pressure_face'' = None \<or>
        dh ''bound_flux'' = None"
    using that by (rule coupling_missing_any)
qed

theorem missing_keys_fail_witness:
  "ex_data ''flux'' = None \<and> matrix_rhs ex_grid ex_data False = Inl (KeyError ''flux'') \<and>
   (ex_data(''flux'' \<mapsto> Mat (flux_m ex_grid ex_param None False))) ''bound_flux'' = None \<and>
   matrix_rhs ex_grid (ex_data(''flux'' \<mapsto> Mat (flux_m ex_grid ex_param None False))) False =
     Inl (KeyError ''bound_flux'') \<and>
   ex_edge ''mortar_grid'' = Some (MG ex_mg) \<and> ex_data ''bound_pressure_cell'' = None \<and>
   coupling_matrix_rhs ex_blocks ex_grid pt_grid ex_data Map.empty ex_edge =
     Inl (KeyError ''bound_pressure_cell'') \<and>
   coupling_matrix_rhs ex_blocks ex_grid pt_grid
     (ex_data(''bound_pressure_cell'' \<mapsto> Mat (bound_pressure_cell_m ex_grid ex_param),
              ''bound_pressure_face'' \<mapsto> Mat (bound_pressure_face_m ex_grid ex_param False)))
     Map.empty ex_edge = Inl (KeyError ''bound_flux'')"
proof -
  let ?d2 = "ex_data(''flux'' \<mapsto> Mat (flux_m ex_grid ex_param None False))"
  let ?d3 = "ex_data(''bound_pressure_cell'' \<mapsto> Mat (bound_pressure_cell_m ex_grid ex_param),
              ''bound_pressure_face'' \<mapsto> Mat (bound_pressure_face_m ex_grid ex_param False))"
  have h: "ex_data ''flux'' = None" "ex_data ''bound_pressure_cell'' = None"
    by (simp_all add: ex_data_def)
  have m: "ex_edge ''mortar_grid'' = Some (MG ex_mg)" by (simp add: ex_edge_def)
  have d2: "?d2 ''flux'' = Some (Mat (flux_m ex_grid ex_param None False))"
    "?d2 ''bound_flux'' = None"
    by (simp_all add: ex_data_def)
  have tv: "times_val (scalar_divergence ex_grid) (Mat (flux_m ex_grid ex_param None False)) =
      Inr \<lparr>nrows = 2, ncols = 2,
           trip = [(0, 0, 7 / 2), (0, 1, - (3 / 2)), (1, 0, - (3 / 2)), (1, 1, 3 / 2)]\<rparr>"
    by (simp add: times_val_def ex_matrix)
  have d3: "?d3 ''bound_pressure_cell'' = Some (Mat (bound_pressure_cell_m ex_grid ex_param))"
    "?d3 ''bound_pressure_face'' = Some (Mat (bound_pressure_face_m ex_grid ex_param False))"
    "?d3 ''bound_flux'' = None"
    by (simp_all add: ex_data_def)
  note t1 = missing_keys_fail [of ex_data ex_grid ex_edge ex_data ex_blocks ex_grid pt_grid
      Map.empty]
  note t2 = missing_keys_fail [of ?d2 ex_grid ex_edge ?d3 ex_blocks ex_grid pt_grid Map.empty]
  from t1 h(1) have a: "matrix_rhs ex_grid ex_data False = Inl (KeyError ''flux'')" by blast
  from t1 m h(2)
  have b: "coupling_matrix_rhs ex_blocks ex_grid pt_grid ex_data Map.empty ex_edge =
     Inl (KeyError ''bound_pressure_cell'')" by blast
  from t2 d2 tv have c: "matrix_rhs ex_grid ?d2 False = Inl (KeyError ''bound_flux'')" by blast
  from t2 m d3
  have d: "coupling_matrix_rhs ex_blocks ex_grid pt_grid ?d3 Map.empty ex_edge =
     Inl (KeyError ''bound_flux'')" by blast
  show ?thesis using h m d2(2) a b c d by blast
qed

subsection \<open>The coupling of a fracture network\<close>

lemma dfn_matrix_rhs_InrD:
  assumes "dfn_matrix_rhs g_h g_l data_h data_l data_edge = Inr (cc, de')"
  shows "\<exists>p fc aav a.
           data_h ''param'' = Some (Par p) \<and> data_edge ''face_cells'' = Some (Mat fc) \<and>
           get_flag data_edge ''Aavatsmark_transmissibilities'' = Inr aav \<and>
           aperture p = Some a \<and> dfn_shape_fit g_h g_l fc \<and>
           cc = [[coo_matrix (dfn_t g_h p a fc aav) (dfn_cells_h g_h fc) (dfn_cells_h g_h fc)
                    (num_cells g_h) (num_cells g_h),
                  transpose_m (coo_matrix (map uminus (dfn_t g_h p a fc aav)) (dfn_cells_l fc)
                    (dfn_cells_h g_h fc) (num_cells g_l) (num_cells g_h))],
                 [coo_matrix (map uminus (dfn_t g_h p a fc aav)) (dfn_cells_l fc)
                    (dfn_cells_h g_h fc) (num_cells g_l) (num_cells g_h),
                  coo_matrix (dfn_t g_h p a fc aav) (dfn_cells_l fc) (dfn_cells_l fc)
                    (num_cells g_l) (num_cells g_l)]] \<and>
           de' ''coupling_discretization'' = Some (Blocks cc)"
  using assms unfolding dfn_matrix_rhs_def Let_def
  by (auto simp add: thenE_def lookup_def
      split: option.splits val.splits sum.splits if_splits)

lemma entry_transpose_m: "entry (transpose_m M) i j = entry M j i"
proof -
  have "sum_list (map (\<lambda>t. snd (snd t)) (filter (\<lambda>t. fst t = i \<and> fst (snd t) = j)
          (map (\<lambda>t. (fst (snd t), fst t, snd (snd t))) ts))) =
        sum_list (map (\<lambda>t. snd (snd t)) (filter (\<lambda>t. fst t = j \<and> fst (snd t) = i) ts))"
    for ts :: "(nat \<times> nat \<times> real) list"
    by (induction ts) auto
  then show ?thesis by (simp add: entry_alt transpose_m_def case_prod_unfold)
qed

lemma sum_list_filter_upt:
  fixes f :: "nat \<Rightarrow> real"
  shows "sum_list (map f (filter P [0..<n])) = sum f {k. k < n \<and> P k}"
proof -
  have "sum_list (map f (filter P [0..<n])) = sum f (set (filter P [0..<n]))"
    by (rule sum_list_distinct_conv_sum_set) simp
  also have "set (filter P [0..<n]) = {k. k < n \<and> P k}" by auto
  finally show ?thesis .
qed

lemma regroup:
  fixes d :: "nat \<Rightarrow> real"
  assumes "\<forall>k < n. cs ! k < N"
  shows "sum_list (map (\<lambda>j. sum_list (map d (filter (\<lambda>k. rs ! k = i \<and> cs ! k = j) [0..<n])))
           [0..<N]) =
         sum_list (map d (filter (\<lambda>k. rs ! k = i) [0..<n]))"
proof -
  let ?S = "{k. k < n \<and> rs ! k = i}"
  have "sum_list (map (\<lambda>j. sum_list (map d (filter (\<lambda>k. rs ! k = i \<and> cs ! k = j) [0..<n])))
           [0..<N]) =
        (\<Sum>j \<in> {0..<N}. sum d {k. k < n \<and> (rs ! k = i \<and> cs ! k = j)})"
    by (simp add: sum_list_filter_upt interv_sum_list_conv_sum_set_nat)
  also have "\<dots> = (\<Sum>j \<in> {0..<N}. sum d {k \<in> ?S. cs ! k = j})"
    by (intro sum.cong refl arg_cong2 [where f = sum]) auto
  also have "\<dots> = sum d ?S"
    using assms by (intro sum.group) auto
  also have "\<dots> = sum_list (map d (filter (\<lambda>k. rs ! k = i) [0..<n]))"
    by (simp add: sum_list_filter_upt)
  finally show ?thesis .
qed


lemma coo_row_total:
  assumes "length cs = length rs" "length d = length rs" "\<forall>k < length rs. cs ! k < N"
  shows "sum_list (map (\<lambda>j. entry (coo_matrix d rs cs m n) i j) [0..<N]) =
         entry (coo_matrix d rs rs m' n') i i"
proof -
  have "sum_list (map (\<lambda>j. entry (coo_matrix d rs cs m n) i j) [0..<N]) =
        sum_list (map (\<lambda>j. sum_list (map (\<lambda>k. d ! k)
          (filter (\<lambda>k. rs ! k = i \<and> cs ! k = j) [0..<length rs]))) [0..<N])"
    by (simp only: entry_coo [OF assms(1,2)])
  also have "\<dots> = sum_list (map (\<lambda>k. d ! k) (filter (\<lambda>k. rs ! k = i) [0..<length rs]))"
    using assms(3) by (rule regroup)
  also have "\<dots> = entry (coo_matrix d rs rs m' n') i i"
    using entry_coo [of rs rs d m' n' i i] assms(2) by simp
  finally show ?thesis .
qed

lemma coo_swap:
  assumes "length cs = length rs" "length d = length rs"
  shows "entry (coo_matrix d rs cs m n) i j = entry (coo_matrix d cs rs n m) j i"
proof -
  have "filter (\<lambda>k. rs ! k = i \<and> cs ! k = j) [0..<length rs] =
        filter (\<lambda>k. cs ! k = j \<and> rs ! k = i) [0..<length cs]"
    using assms(1) by (simp add: conj_commute)
  then show ?thesis
    using entry_coo [of cs rs d m n i j] entry_coo [of rs cs d n m j i] assms by simp
qed

lemma sum_list_map_uminus:
  fixes f :: "'a \<Rightarrow> real"
  shows "sum_list (map (\<lambda>x. - f x) xs) = - sum_list (map f xs)"
  by (induction xs) simp_all

lemma coo_uminus:
  assumes "length cs = length rs" "length d = length rs"
  shows "entry (coo_matrix (map uminus d) rs cs m n) i j = - entry (coo_matrix d rs cs m n) i j"
proof -
  have "map (\<lambda>k. map uminus d ! k) (filter (\<lambda>k. rs ! k = i \<and> cs ! k = j) [0..<length rs]) =
        map (\<lambda>k. - d ! k) (filter (\<lambda>k. rs ! k = i \<and> cs ! k = j) [0..<length rs])"
    using assms(2) by (intro map_cong) auto
  then have "sum_list (map (\<lambda>k. map uminus d ! k)
               (filter (\<lambda>k. rs ! k = i \<and> cs ! k = j) [0..<length rs])) =
             - sum_list (map (\<lambda>k. d ! k) (filter (\<lambda>k. rs ! k = i \<and> cs ! k = j) [0..<length rs]))"
    by (simp only: sum_list_map_uminus)
  then show ?thesis
    using entry_coo [of cs rs "map uminus d" m n i j] entry_coo [of cs rs d m n i j] assms
    by simp
qed

lemma coo_nonneg:
  assumes "length cs = length rs" "length d = length rs" "\<forall>k < length rs. 0 \<le> d ! k"
  shows "0 \<le> entry (coo_matrix d rs cs m n) i j"
proof -
  have "0 \<le> sum_list (map (\<lambda>k. d ! k) (filter (\<lambda>k. rs ! k = i \<and> cs ! k = j) [0..<length rs]))"
    using assms(3) by (intro sum_list_nonneg) auto
  then show ?thesis using entry_coo [OF assms(1,2)] by simp
qed

lemma length_dfn [simp]:
  "length (dfn_faces_h fc) = length (dfn_cells_l fc)"
  "length (dfn_cells_h g fc) = length (dfn_cells_l fc)"
  "length (dfn_sgn_h g fc) = length (dfn_cells_l fc)"
  "length (dfn_t g p a fc aav) = length (dfn_cells_l fc)"
  by (simp_all add: dfn_faces_h_def dfn_cells_l_def dfn_cells_h_def dfn_sgn_h_def dfn_t_def
      dfn_incid_def take_idx_def rows_of_def cols_of_def)

lemma trip_coo:
  assumes "length rs = n" "length cs = n" "length d = n"
  shows "trip (coo_matrix d rs cs m m') = map (\<lambda>k. (rs ! k, cs ! k, d ! k)) [0..<n]"
  using zip3_conv [OF assms] by (simp add: coo_matrix_def)

subsection \<open>The blocks of the fracture-network coupling\<close>

text \<open>
  Claim C5, amended. When \<^verbatim>\<open>TpfaCouplingDFN.matrix_rhs\<close> returns, with \<open>t\<close> the
  half-transmissibilities of the coupling pairs: the block \<^verbatim>\<open>cc[0,1]\<close> is the transpose
  of \<^verbatim>\<open>cc[1,0]\<close>; \<^verbatim>\<open>cc[1,0]\<close> stores \<open>- t\<close> at each pair (cell of the lower grid, cell
  of the higher grid); the diagonal blocks store \<open>+ t\<close> at (higher cell, higher cell)
  and at (lower cell, lower cell). Each diagonal entry is therefore minus the sum of
  the corresponding row of the off-diagonal block, and it is the sum of the magnitudes
  of that row when no half-transmissibility is negative.
\<close>

theorem dfn_blocks:
  assumes "dfn_matrix_rhs g_h g_l data_h data_l data_edge = Inr (cc, de')"
  shows "\<exists>p fc aav a t cl ch.
           data_h ''param'' = Some (Par p) \<and> aperture p = Some a \<and>
           data_edge ''face_cells'' = Some (Mat fc) \<and>
           get_flag data_edge ''Aavatsmark_transmissibilities'' = Inr aav \<and>
           t = dfn_t g_h p a fc aav \<and> cl = dfn_cells_l fc \<and> ch = dfn_cells_h g_h fc \<and>
           length cl = length t \<and> length ch = length t \<and>
           de' ''coupling_discretization'' = Some (Blocks cc) \<and>
           cc ! 0 ! 1 = transpose_m (cc ! 1 ! 0) \<and>
           trip (cc ! 1 ! 0) = map (\<lambda>k. (cl ! k, ch ! k, - t ! k)) [0..<length t] \<and>
           trip (cc ! 0 ! 0) = map (\<lambda>k. (ch ! k, ch ! k, t ! k)) [0..<length t] \<and>
           trip (cc ! 1 ! 1) = map (\<lambda>k. (cl ! k, cl ! k, t ! k)) [0..<length t] \<and>
           (\<forall>h l. entry (cc ! 0 ! 1) h l = entry (cc ! 1 ! 0) l h) \<and>
           (\<forall>h. entry (cc ! 0 ! 0) h h = - row_sum (cc ! 0 ! 1) h) \<and>
           (\<forall>l. entry (cc ! 1 ! 1) l l = - row_sum (cc ! 1 ! 0) l) \<and>
           ((\<forall>k < length t. 0 \<le> t ! k) \<longrightarrow>
              (\<forall>h. entry (cc ! 0 ! 0) h h = sum_magnitudes (cc ! 0 ! 1) h) \<and>
              (\<forall>l. entry (cc ! 1 ! 1) l l = sum_magnitudes (cc ! 1 ! 0) l))"
proof -
  from dfn_matrix_rhs_InrD [OF assms] obtain p fc aav a where
    u: "data_h ''param'' = Some (Par p)" "data_edge ''face_cells'' = Some (Mat fc)"
       "get_flag data_edge ''Aavatsmark_transmissibilities'' = Inr aav"
       "aperture p = Some a" and
    fit: "dfn_shape_fit g_h g_l fc" and
    cc: "cc = [[coo_matrix (dfn_t g_h p a fc aav) (dfn_cells_h g_h fc) (dfn_cells_h g_h fc)
                    (num_cells g_h) (num_cells g_h),
                  transpose_m (coo_matrix (map uminus (dfn_t g_h p a fc aav)) (dfn_cells_l fc)
                    (dfn_cells_h g_h fc) (num_cells g_l) (num_cells g_h))],
                 [coo_matrix (map uminus (dfn_t g_h p a fc aav)) (dfn_cells_l fc)
                    (dfn_cells_h g_h fc) (num_cells g_l) (num_cells g_h),
                  coo_matrix (dfn_t g_h p a fc aav) (dfn_cells_l fc) (dfn_cells_l fc)
                    (num_cells g_l) (num_cells g_l)]]" and
    de: "de' ''coupling_discretization'' = Some (Blocks cc)"
    by (elim exE conjE) (rule that, assumption+)
  define t where "t = dfn_t g_h p a fc aav"
  define cl where "cl = dfn_cells_l fc"
  define ch where "ch = dfn_cells_h g_h fc"
  define nh where "nh = num_cells g_h"
  define nl where "nl = num_cells g_l"
  have len: "length cl = length t" "length ch = length t"
    by (simp_all add: t_def cl_def ch_def)
  define c00 where "c00 = cc ! 0 ! 0"
  define c01 where "c01 = cc ! 0 ! 1"
  define c10 where "c10 = cc ! 1 ! 0"
  define c11 where "c11 = cc ! 1 ! 1"
  note cdefs = c00_def c01_def c10_def c11_def
  have b: "c00 = coo_matrix t ch ch nh nh"
    "c01 = transpose_m (coo_matrix (map uminus t) cl ch nl nh)"
    "c10 = coo_matrix (map uminus t) cl ch nl nh"
    "c11 = coo_matrix t cl cl nl nl"
    by (simp_all add: cdefs cc t_def cl_def ch_def nh_def nl_def)
  have bound: "\<forall>k < length cl. ch ! k < nh" "\<forall>k < length ch. cl ! k < nl"
    using fit len by (simp_all add: dfn_shape_fit_def cl_def ch_def nh_def nl_def)
  have tr: "c01 = transpose_m c10" by (simp add: b)
  have t10: "trip c10 = map (\<lambda>k. (cl ! k, ch ! k, - t ! k)) [0..<length t]"
    using trip_coo [of cl "length t" ch "map uminus t" nl nh] len by (simp add: b)
  have t00: "trip c00 = map (\<lambda>k. (ch ! k, ch ! k, t ! k)) [0..<length t]"
    using trip_coo [of ch "length t" ch t nh nh] len by (simp add: b)
  have t11: "trip c11 = map (\<lambda>k. (cl ! k, cl ! k, t ! k)) [0..<length t]"
    using trip_coo [of cl "length t" cl t nl nl] len by (simp add: b)
  have sym: "entry c01 h l = entry c10 l h" for h l
    by (simp add: tr entry_transpose_m)
  have len': "length ch = length cl" "length t = length cl"
    "length cl = length ch" "length t = length ch"
    using len by simp_all
  have e10: "entry c10 l h = - entry (coo_matrix t cl ch nl nh) l h" for l h
    unfolding b(3) by (rule coo_uminus [OF len'(1,2)])
  have e01: "entry c01 h l = - entry (coo_matrix t ch cl nh nl) h l" for h l
  proof -
    have "entry (coo_matrix t cl ch nl nh) l h = entry (coo_matrix t ch cl nh nl) h l"
      by (rule coo_swap [OF len'(1,2)])
    then show ?thesis by (simp only: sym e10)
  qed
  have nc: "ncols c10 = nh" "ncols c01 = nl"
    by (simp_all add: b coo_matrix_def transpose_m_def)
  have tot1: "sum_list (map (\<lambda>h. entry (coo_matrix t cl ch nl nh) l h) [0..<nh]) =
              entry c11 l l" for l
    unfolding b(4) by (rule coo_row_total [OF len'(1,2) bound(1)])
  have tot0: "sum_list (map (\<lambda>l. entry (coo_matrix t ch cl nh nl) h l) [0..<nl]) =
              entry c00 h h" for h
    unfolding b(1) by (rule coo_row_total [OF len'(3,4) bound(2)])
  have r1: "entry c11 l l = - row_sum c10 l" for l
    by (simp add: row_sum_def nc e10 sum_list_map_uminus tot1)
  have r0: "entry c00 h h = - row_sum c01 h" for h
    by (simp add: row_sum_def nc e01 sum_list_map_uminus tot0)
  have mag: "(\<forall>h. entry c00 h h = sum_magnitudes c01 h) \<and>
             (\<forall>l. entry c11 l l = sum_magnitudes c10 l)"
    if pos: "\<forall>k < length t. 0 \<le> t ! k"
  proof -
    have pos1: "\<forall>k < length cl. 0 \<le> t ! k" "\<forall>k < length ch. 0 \<le> t ! k"
      using pos len by simp_all
    have p1: "0 \<le> entry (coo_matrix t cl ch nl nh) l h" for l h
      by (rule coo_nonneg [OF len'(1,2) pos1(1)])
    have p0: "0 \<le> entry (coo_matrix t ch cl nh nl) h l" for h l
      by (rule coo_nonneg [OF len'(3,4) pos1(2)])
    have "sum_magnitudes c10 l = entry c11 l l" for l
      by (simp add: sum_magnitudes_def nc e10 p1 tot1)
    moreover have "sum_magnitudes c01 h = entry c00 h h" for h
      by (simp add: sum_magnitudes_def nc e01 p0 tot0)
    ultimately show ?thesis by simp
  qed
  have S: "\<forall>h l. entry c01 h l = entry c10 l h" using sym by blast
  have R0: "\<forall>h. entry c00 h h = - row_sum c01 h" using r0 by blast
  have R1: "\<forall>l. entry c11 l l = - row_sum c10 l" using r1 by blast
  have M: "(\<forall>k < length t. 0 \<le> t ! k) \<longrightarrow>
              (\<forall>h. entry c00 h h = sum_magnitudes c01 h) \<and>
              (\<forall>l. entry c11 l l = sum_magnitudes c10 l)"
    using mag by blast
  note fin = tr t10 t00 t11 S R0 R1 M
  show ?thesis
    apply (rule exI [of _ p], rule exI [of _ fc], rule exI [of _ aav], rule exI [of _ a],
        rule exI [of _ t], rule exI [of _ cl], rule exI [of _ ch])
    using u(1,4,2,3) t_def cl_def ch_def len de fin [unfolded cdefs] by (intro conjI)
qed


lemma skew_incid:
  "dfn_cells_l \<lparr>nrows = Suc 0, ncols = Suc 0, trip = [(0, 0, 1)]\<rparr> = [0]"
  "dfn_faces_h \<lparr>nrows = Suc 0, ncols = Suc 0, trip = [(0, 0, 1)]\<rparr> = [0]"
  "dfn_cells_h skew_grid \<lparr>nrows = Suc 0, ncols = Suc 0, trip = [(0, 0, 1)]\<rparr> = [0]"
  "dfn_sgn_h skew_grid \<lparr>nrows = Suc 0, ncols = Suc 0, trip = [(0, 0, 1)]\<rparr> = [1]"
  "dfn_incid skew_grid \<lparr>nrows = Suc 0, ncols = Suc 0, trip = [(0, 0, 1)]\<rparr> = [(0, 0, 1)]"
  "cells_of_faces skew_grid = [0]"
  by (simp_all add: dfn_cells_l_def dfn_faces_h_def dfn_cells_h_def dfn_sgn_h_def dfn_incid_def
      cells_of_faces_def sgn_of_faces_def unique_index_def first_index_def find_nz_def
      rows_of_def cols_of_def vals_of_def take_idx_def skew_grid_def)

lemma skew_t:
  "dfn_t skew_grid skew_param [1] \<lparr>nrows = Suc 0, ncols = Suc 0, trip = [(0, 0, 1)]\<rparr> False = [- (1 / 2)]"
  by (simp add: dfn_t_def skew_incid)
     (simp add: dfn_t_face_num_def dfn_nk_def fc_cc_def dist_face_cell_def skew_grid_def
      skew_param_def power2_eq_square)

lemma skew_dfn:
  "dfn_matrix_rhs skew_grid pt_grid skew_data Map.empty skew_edge = Inr (skew_cc, skew_edge_after)"
proof -
  let ?fc = "\<lparr>nrows = Suc 0, ncols = Suc 0, trip = [(0, 0, 1)]\<rparr> :: spmat"
  have k: "skew_data ''param'' = Some (Par skew_param)"
    "skew_edge ''face_cells'' = Some (Mat ?fc)"
    "get_flag skew_edge ''Aavatsmark_transmissibilities'' = Inr False"
    "aperture skew_param = Some [1]"
    by (simp_all add: skew_data_def skew_edge_def get_flag_def skew_param_def)
  have i: "dfn_index_fit skew_grid skew_param ?fc"
    by (simp add: dfn_index_fit_def skew_incid) (simp add: skew_grid_def skew_param_def)
  have f: "\<forall>inc \<in> set (dfn_incid skew_grid ?fc). dist_face_cell skew_grid False inc \<noteq> 0"
    by (simp add: skew_incid) (simp add: dist_face_cell_def fc_cc_def skew_grid_def)
  have sh: "dfn_shape_fit skew_grid pt_grid ?fc"
    by (simp add: dfn_shape_fit_def skew_incid) (simp add: skew_grid_def pt_grid_def)
  have n: "num_cells skew_grid = 1" "num_cells pt_grid = 1" "num_faces skew_grid = 1"
    by (simp_all add: skew_grid_def pt_grid_def)
  show ?thesis
    using i f sh
    by (simp add: dfn_matrix_rhs_def Let_def k skew_t skew_incid n coo_matrix_def
        transpose_m_def mat_mul_def tabulate_m_def entry_def hstack_def skew_cc_def
        skew_edge_after_def numeral_2_eq_2)
qed

text \<open>
  On the skewed cell the half-transmissibility is \<open>- 1/2\<close>: the permeability turns
  the normal to \<open>(2, 3, 0)\<close>, whose scalar product with the vector \<open>(1, - 1, 0)\<close> to the
  face centre is negative. The diagonal block holds \<open>- 1/2\<close>, the off-diagonal block
  \<open>1/2\<close>, whose magnitude is \<open>1/2\<close>.
\<close>

theorem dfn_magnitudes_counterexample:
  "dfn_matrix_rhs skew_grid pt_grid skew_data Map.empty skew_edge =
     Inr (skew_cc, skew_edge_after) \<and>
   skew_cc ! 0 ! 1 = transpose_m (skew_cc ! 1 ! 0) \<and>
   entry (skew_cc ! 0 ! 0) 0 0 = - (1 / 2) \<and>
   sum_magnitudes (skew_cc ! 0 ! 1) 0 = 1 / 2 \<and>
   entry (skew_cc ! 0 ! 0) 0 0 \<noteq> sum_magnitudes (skew_cc ! 0 ! 1) 0"
  using skew_dfn
  by (simp add: skew_cc_def transpose_m_def entry_def sum_magnitudes_def)

lemma ex_dfn_incid:
  "dfn_cells_l \<lparr>nrows = Suc 0, ncols = 3, trip = [(0, 2, 1)]\<rparr> = [0]"
  "dfn_faces_h \<lparr>nrows = Suc 0, ncols = 3, trip = [(0, 2, 1)]\<rparr> = [2]"
  "dfn_cells_h ex_grid \<lparr>nrows = Suc 0, ncols = 3, trip = [(0, 2, 1)]\<rparr> = [1]"
  "dfn_sgn_h ex_grid \<lparr>nrows = Suc 0, ncols = 3, trip = [(0, 2, 1)]\<rparr> = [1]"
  "dfn_incid ex_grid \<lparr>nrows = Suc 0, ncols = 3, trip = [(0, 2, 1)]\<rparr> = [(2, 1, 1)]"
proof -
  have s: "sgn_of_faces ex_grid = [- 1, 1, 1]"
    by (simp add: sgn_of_faces_def unique_index_def first_index_def find_nz_def rows_of_def
        vals_of_def take_idx_def ex_grid_def)
  show "dfn_cells_l \<lparr>nrows = Suc 0, ncols = 3, trip = [(0, 2, 1)]\<rparr> = [0]"
    "dfn_faces_h \<lparr>nrows = Suc 0, ncols = 3, trip = [(0, 2, 1)]\<rparr> = [2]"
    "dfn_cells_h ex_grid \<lparr>nrows = Suc 0, ncols = 3, trip = [(0, 2, 1)]\<rparr> = [1]"
    "dfn_sgn_h ex_grid \<lparr>nrows = Suc 0, ncols = 3, trip = [(0, 2, 1)]\<rparr> = [1]"
    "dfn_incid ex_grid \<lparr>nrows = Suc 0, ncols = 3, trip = [(0, 2, 1)]\<rparr> = [(2, 1, 1)]"
    by (simp_all add: dfn_cells_l_def dfn_faces_h_def dfn_cells_h_def dfn_sgn_h_def
        dfn_incid_def ex_cells_of_faces s find_nz_def rows_of_def cols_of_def take_idx_def)
qed

lemma ex_dfn_t:
  "dfn_t ex_grid ex_param [1, 1] \<lparr>nrows = Suc 0, ncols = 3, trip = [(0, 2, 1)]\<rparr> False = [6]"
  by (simp add: dfn_t_def ex_dfn_incid)
     (simp add: dfn_t_face_num_def dfn_nk_def fc_cc_def dist_face_cell_def ex_grid_def
      ex_param_def power2_eq_square)

lemma ex_dfn:
  "dfn_matrix_rhs ex_grid pt_grid ex_data Map.empty ex_dfn_edge =
     Inr (ex_dfn_cc, ex_dfn_edge_after)"
proof -
  let ?fc = "\<lparr>nrows = Suc 0, ncols = 3, trip = [(0, 2, 1)]\<rparr> :: spmat"
  have k: "ex_data ''param'' = Some (Par ex_param)"
    "ex_dfn_edge ''face_cells'' = Some (Mat ?fc)"
    "get_flag ex_dfn_edge ''Aavatsmark_transmissibilities'' = Inr False"
    "aperture ex_param = Some [1, 1]"
    by (simp_all add: ex_data_def ex_dfn_edge_def get_flag_def ex_param_def)
  have i: "dfn_index_fit ex_grid ex_param ?fc"
    by (simp add: dfn_index_fit_def ex_dfn_incid ex_cells_of_faces)
       (simp add: ex_grid_def ex_param_def)
  have f: "\<forall>inc \<in> set (dfn_incid ex_grid ?fc). dist_face_cell ex_grid False inc \<noteq> 0"
    by (simp add: ex_dfn_incid) (simp add: dist_face_cell_def fc_cc_def ex_grid_def)
  have sh: "dfn_shape_fit ex_grid pt_grid ?fc"
    by (simp add: dfn_shape_fit_def ex_dfn_incid) (simp add: ex_grid_def pt_grid_def)
  have n: "num_cells ex_grid = 2" "num_cells pt_grid = 1" "num_faces ex_grid = 3"
    by (simp_all add: ex_grid_def pt_grid_def)
  show ?thesis
    using i f sh
    by (simp add: dfn_matrix_rhs_def Let_def k ex_dfn_t ex_dfn_incid n coo_matrix_def
        transpose_m_def mat_mul_def tabulate_m_def entry_def hstack_def ex_dfn_cc_def
        ex_dfn_edge_after_def upt3 upt2)
qed

theorem dfn_blocks_witness:
  "dfn_matrix_rhs ex_grid pt_grid ex_data Map.empty ex_dfn_edge =
     Inr (ex_dfn_cc, ex_dfn_edge_after) \<and>
   dfn_t ex_grid ex_param [1, 1] \<lparr>nrows = 1, ncols = 3, trip = [(0, 2, 1)]\<rparr> False = [6] \<and>
   ex_dfn_cc ! 0 ! 1 = transpose_m (ex_dfn_cc ! 1 ! 0) \<and>
   trip (ex_dfn_cc ! 1 ! 0) = [(0, 1, - 6)] \<and>
   trip (ex_dfn_cc ! 0 ! 0) = [(1, 1, 6)] \<and>
   trip (ex_dfn_cc ! 1 ! 1) = [(0, 0, 6)] \<and>
   entry (ex_dfn_cc ! 0 ! 0) 1 1 = - row_sum (ex_dfn_cc ! 0 ! 1) 1 \<and>
   entry (ex_dfn_cc ! 1 ! 1) 0 0 = - row_sum (ex_dfn_cc ! 1 ! 0) 0 \<and>
   entry (ex_dfn_cc ! 0 ! 0) 1 1 = sum_magnitudes (ex_dfn_cc ! 0 ! 1) 1 \<and>
   entry (ex_dfn_cc ! 1 ! 1) 0 0 = sum_magnitudes (ex_dfn_cc ! 1 ! 0) 0 \<and>
   entry (ex_dfn_cc ! 0 ! 0) 1 1 = 6 \<and>
   entry (ex_dfn_cc ! 1 ! 1) 0 0 = 6"
proof -
  let ?fc = "\<lparr>nrows = Suc 0, ncols = 3, trip = [(0, 2, 1)]\<rparr> :: spmat"
  have k: "ex_data ''param'' = Some (Par ex_param)"
    "ex_dfn_edge ''face_cells'' = Some (Mat ?fc)"
    "get_flag ex_dfn_edge ''Aavatsmark_transmissibilities'' = Inr False"
    "aperture ex_param = Some [1, 1]"
    by (simp_all add: ex_data_def ex_dfn_edge_def get_flag_def ex_param_def)
  from dfn_blocks [OF ex_dfn] obtain p fc aav a t where
    b: "ex_data ''param'' = Some (Par p)" "aperture p = Some a"
      "ex_dfn_edge ''face_cells'' = Some (Mat fc)"
      "get_flag ex_dfn_edge ''Aavatsmark_transmissibilities'' = Inr aav"
      "t = dfn_t ex_grid p a fc aav"
      "ex_dfn_cc ! 0 ! 1 = transpose_m (ex_dfn_cc ! 1 ! 0)"
      "\<forall>h. entry (ex_dfn_cc ! 0 ! 0) h h = - row_sum (ex_dfn_cc ! 0 ! 1) h"
      "\<forall>l. entry (ex_dfn_cc ! 1 ! 1) l l = - row_sum (ex_dfn_cc ! 1 ! 0) l"
      "(\<forall>k < length t. 0 \<le> t ! k) \<longrightarrow>
         (\<forall>h. entry (ex_dfn_cc ! 0 ! 0) h h = sum_magnitudes (ex_dfn_cc ! 0 ! 1) h) \<and>
         (\<forall>l. entry (ex_dfn_cc ! 1 ! 1) l l = sum_magnitudes (ex_dfn_cc ! 1 ! 0) l)"
    by (elim exE conjE) (rule that, assumption+)
  from b(1) k(1) have p: "p = ex_param" by simp
  from b(2) k(4) p have a: "a = [1, 1]" by simp
  from b(3) k(2) have fc: "fc = ?fc" by simp
  from b(4) k(3) have aav: "aav = False" by simp
  have t: "t = [6]" using b(5) by (simp add: p a fc aav ex_dfn_t)
  have pos: "\<forall>k < length t. 0 \<le> t ! k" by (simp add: t)
  from b(9) pos have m:
    "entry (ex_dfn_cc ! 0 ! 0) 1 1 = sum_magnitudes (ex_dfn_cc ! 0 ! 1) 1"
    "entry (ex_dfn_cc ! 1 ! 1) 0 0 = sum_magnitudes (ex_dfn_cc ! 1 ! 0) 0"
    by blast+
  from b(7) have r1: "entry (ex_dfn_cc ! 0 ! 0) 1 1 = - row_sum (ex_dfn_cc ! 0 ! 1) 1"
    by blast
  from b(8) have r2: "entry (ex_dfn_cc ! 1 ! 1) 0 0 = - row_sum (ex_dfn_cc ! 1 ! 0) 0"
    by blast
  have e: "trip (ex_dfn_cc ! 1 ! 0) = [(0, 1, - 6)]" "trip (ex_dfn_cc ! 0 ! 0) = [(1, 1, 6)]"
    "trip (ex_dfn_cc ! 1 ! 1) = [(0, 0, 6)]"
    "entry (ex_dfn_cc ! 0 ! 0) 1 1 = 6" "entry (ex_dfn_cc ! 1 ! 1) 0 0 = 6"
    by (simp_all add: ex_dfn_cc_def entry_def)
  have d: "dfn_t ex_grid ex_param [1, 1] \<lparr>nrows = 1, ncols = 3, trip = [(0, 2, 1)]\<rparr> False = [6]"
    using ex_dfn_t by simp
  show ?thesis
    using ex_dfn d b(6) e m r1 r2 by (intro conjI)
qed

end

